theory Spec2Isabelle
  imports Main "HOL-Library.Word"
begin

unbundle bit_operations_syntax

section \<open>The stepper driver of Marlin/stepper.cpp\<close>

text \<open>
  The development embeds the stepper interrupt of \<^verbatim>\<open>Marlin/stepper.cpp\<close> (the
  port to the Arduino Due, a 32-bit ARM target): \<^verbatim>\<open>long\<close>, \<^verbatim>\<open>unsigned long\<close>,
  \<^verbatim>\<open>unsigned int\<close> and \<^verbatim>\<open>uint32_t\<close> are 32-bit words, \<^verbatim>\<open>char\<close> and \<^verbatim>\<open>byte\<close> are
  8-bit words, \<^verbatim>\<open>uint16_t\<close> is a 16-bit word. Signed comparisons are written
  \<open>\<le>s\<close> and \<open><s\<close>, unsigned ones \<open>\<le>\<close> and \<open><\<close>.

  The file is compiled under many preprocessor switches. Every switch that guards code
  of the functions embedded here is a field of the record \<open>config\<close>, and every
  \<^verbatim>\<open>#ifdef\<close> of the source is an \<open>if\<close> on that field.
\<close>

type_synonym u8 = "8 word"
type_synonym u16 = "16 word"
type_synonym u32 = "32 word"
type_synonym u64 = "64 word"

subsection \<open>Enumerations\<close>

text \<open>
  \<^verbatim>\<open>AxisEnum\<close> and \<^verbatim>\<open>EndstopEnum\<close> are declared in \<^verbatim>\<open>Marlin.h\<close>. The arrays
  \<^verbatim>\<open>count_position[NUM_AXIS]\<close>, \<^verbatim>\<open>count_direction[NUM_AXIS] = {1, 1, 1, 1}\<close> and
  \<^verbatim>\<open>endstops_trigsteps[3]\<close> are indexed by the axes, so an array is a function of
  \<open>axis\<close> here. The numbers below are the bit positions that \<^verbatim>\<open>TEST\<close> and
  \<^verbatim>\<open>BIT\<close> use; \<^verbatim>\<open>A_AXIS\<close> and \<^verbatim>\<open>B_AXIS\<close> of a CoreXY build are other names of
  \<^verbatim>\<open>X_AXIS\<close> and \<^verbatim>\<open>Y_AXIS\<close>.
\<close>

datatype axis = X_AXIS | Y_AXIS | Z_AXIS | E_AXIS

fun axis_bit :: "axis \<Rightarrow> nat" where
  "axis_bit X_AXIS = 0"
| "axis_bit Y_AXIS = 1"
| "axis_bit Z_AXIS = 2"
| "axis_bit E_AXIS = 3"

text \<open>The four axes can be enumerated, so a statement about all of them can be computed.\<close>

instantiation axis :: enum
begin

definition enum_axis :: "axis list" where
  "enum_axis = [X_AXIS, Y_AXIS, Z_AXIS, E_AXIS]"

definition enum_all_axis :: "(axis \<Rightarrow> bool) \<Rightarrow> bool" where
  "enum_all_axis P = (P X_AXIS \<and> P Y_AXIS \<and> P Z_AXIS \<and> P E_AXIS)"

definition enum_ex_axis :: "(axis \<Rightarrow> bool) \<Rightarrow> bool" where
  "enum_ex_axis P = (P X_AXIS \<or> P Y_AXIS \<or> P Z_AXIS \<or> P E_AXIS)"

instance
proof
  have u: "(UNIV :: axis set) = {X_AXIS, Y_AXIS, Z_AXIS, E_AXIS}"
    using axis.exhaust by auto
  show "(UNIV :: axis set) = set enum_class.enum"
    by (simp add: u enum_axis_def)
  show "distinct (enum_class.enum :: axis list)"
    by (simp add: enum_axis_def)
  show "enum_class.enum_all P = Ball (UNIV :: axis set) P" for P
    by (simp add: u enum_all_axis_def)
  show "enum_class.enum_ex P = Bex (UNIV :: axis set) P" for P
    by (simp add: u enum_ex_axis_def)
qed

end

definition X_HEAD :: nat where "X_HEAD = 4"
definition Y_HEAD :: nat where "Y_HEAD = 5"

datatype endstop =
  X_MIN | Y_MIN | Z_MIN | Z_PROBE | X_MAX | Y_MAX | Z_MAX | Z2_MIN | Z2_MAX

fun endstop_bit :: "endstop \<Rightarrow> nat" where
  "endstop_bit X_MIN = 0"
| "endstop_bit Y_MIN = 1"
| "endstop_bit Z_MIN = 2"
| "endstop_bit Z_PROBE = 3"
| "endstop_bit X_MAX = 4"
| "endstop_bit Y_MAX = 5"
| "endstop_bit Z_MAX = 6"
| "endstop_bit Z2_MIN = 7"
| "endstop_bit Z2_MAX = 8"

text \<open>The output lines the stepper writes, and what it does to the outside world.\<close>

datatype pin =
  X_STEP | X2_STEP | Y_STEP | Y2_STEP | Z_STEP | Z2_STEP | E_STEP
| X_DIR | X2_DIR | Y_DIR | Y2_DIR | Z_DIR | Z2_DIR | E_DIR

datatype event =
  Write pin bool        \<comment> \<open>\<^verbatim>\<open>X_STEP_WRITE(v)\<close>, \<^verbatim>\<open>X_DIR_WRITE(v)\<close>, ...\<close>
| Enable axis           \<comment> \<open>\<^verbatim>\<open>enable_x()\<close>, ...\<close>
| Delay                 \<comment> \<open>\<^verbatim>\<open>delayMicroseconds\<close>, \<^verbatim>\<open>_delay_us\<close>\<close>
| Enqueue               \<comment> \<open>\<^verbatim>\<open>enqueuecommands_P(PSTR(SD_FINISHED_RELEASECOMMAND))\<close>\<close>

subsection \<open>Build configuration\<close>

record config =
  ADVANCE :: bool
  ENABLE_HIGH_SPEED_STEPPING :: bool
  COREXY :: bool
  DUAL_X_CARRIAGE :: bool
  Y_DUAL_STEPPER_DRIVERS :: bool
  Z_DUAL_STEPPER_DRIVERS :: bool
  Z_DUAL_ENDSTOPS :: bool
  Z_PROBE_ENDSTOP :: bool
  Z_LATE_ENABLE :: bool
  DELTA :: bool
  SD_FINISHED_RELEASECOMMAND :: bool
  HAS_ENDSTOP :: "endstop \<Rightarrow> bool"          \<comment> \<open>\<^verbatim>\<open>HAS_X_MIN\<close>, ..., \<^verbatim>\<open>HAS_Z2_MAX\<close>\<close>
  ENDSTOP_INVERTING :: "endstop \<Rightarrow> bool"    \<comment> \<open>\<^verbatim>\<open>X_MIN_ENDSTOP_INVERTING\<close>, ...\<close>
  INVERT_DIR :: "axis \<Rightarrow> bool"              \<comment> \<open>\<^verbatim>\<open>INVERT_X_DIR\<close>, ...\<close>
  INVERT_STEP_PIN :: "axis \<Rightarrow> bool"         \<comment> \<open>\<^verbatim>\<open>INVERT_X_STEP_PIN\<close>, ...\<close>
  INVERT_Y2_VS_Y_DIR :: bool
  BABYSTEP_INVERT_Z :: bool
  X_HOME_DIR :: int
  X2_HOME_DIR :: int
  Z_HOME_DIR :: int
  MAX_STEP_FREQUENCY :: u32
  DOUBLE_STEP_FREQUENCY :: u32
  HAL_TIMER_RATE :: u32

subsection \<open>Blocks and the state of the driver\<close>

text \<open>
  \<^verbatim>\<open>block_t\<close> is declared in \<^verbatim>\<open>planner.h\<close>; the fields are the ones this file
  reads. \<open>steps\<close> is signed (it is compared with \<open>0\<close> and added to the signed
  Bresenham counters), the event count and the rates are unsigned.
\<close>

record block =
  steps :: "axis \<Rightarrow> u32"
  step_event_count :: u32
  direction_bits :: u8
  active_extruder :: u8
  accelerate_until :: u32
  decelerate_after :: u32
  acceleration_rate :: u32
  nominal_rate :: u32
  initial_rate :: u32
  final_rate :: u32
  initial_advance :: u32
  final_advance_b :: u32
  busy :: bool

record state =
  current_block :: "block option"
  out_bits :: u8
  cleaning_buffer_counter :: u32
  performing_homing :: bool
  locked_z_motor :: bool
  locked_z2_motor :: bool
  counter :: "axis \<Rightarrow> u32"                \<comment> \<open>\<^verbatim>\<open>counter_x, counter_y, counter_z, counter_e\<close>\<close>
  step_events_completed :: u32
  advance_rate :: u32
  advance :: u32
  final_advance :: u32
  old_advance :: u32
  e_steps :: "u8 \<Rightarrow> u32"
  acceleration_time :: u32
  deceleration_time :: u32
  acc_step_rate :: u32
  step_loops :: nat                        \<comment> \<open>a \<^verbatim>\<open>char\<close> that only ever holds 0, 1, 2 or 4\<close>
  OCR1A_nominal :: u32
  step_loops_nominal :: nat
  endstops_trigsteps :: "axis \<Rightarrow> u32"
  endstop_hit_bits :: u8
  old_endstop_bits :: u16
  check_endstops :: bool
  count_position :: "axis \<Rightarrow> u32"
  count_direction :: "axis \<Rightarrow> u8"
  pins :: "pin \<Rightarrow> bool"                    \<comment> \<open>the level of every output line\<close>
  trace :: "event list"                    \<comment> \<open>all output, oldest first\<close>
  TC_RC :: u32                             \<comment> \<open>the comparator of the step timer\<close>
  queue :: "block list"                    \<comment> \<open>the planner's block buffer, head first\<close>

text \<open>What one run of the interrupt reads from the hardware and from other modules.\<close>

record isr_input =
  READ_ENDSTOP :: "endstop \<Rightarrow> bool"         \<comment> \<open>\<^verbatim>\<open>READ(X_MIN_PIN)\<close>, ...\<close>
  TC_CV :: u32                             \<comment> \<open>the free-running counter of the step timer\<close>
  extruder_duplication_enabled :: bool
  SD_FINISHED_STEPPERRELEASE :: bool

subsection \<open>Macros of Marlin.h and of the pin layer\<close>

text \<open>
  \<^verbatim>\<open>TEST(n,b)\<close> is \<^verbatim>\<open>(((n)&BIT(b))!=0)\<close>, \<^verbatim>\<open>BIT(b)\<close> is \<^verbatim>\<open>(1<<(b))\<close>, and
  \<^verbatim>\<open>SET_BIT(n,b,value)\<close> gives bit \<open>b\<close> of \<open>n\<close> the value \<open>value\<close>.
\<close>

definition BIT :: "nat \<Rightarrow> 'a::len word" where
  "BIT b = push_bit b 1"

definition TEST :: "'a::len word \<Rightarrow> nat \<Rightarrow> bool" where
  "TEST n b = (n AND BIT b \<noteq> 0)"

definition SET_BIT :: "'a::len word \<Rightarrow> nat \<Rightarrow> bool \<Rightarrow> 'a word" where
  "SET_BIT n b v = (if v then n OR BIT b else n AND NOT (BIT b))"

definition WRITE :: "pin \<Rightarrow> bool \<Rightarrow> state \<Rightarrow> state" where
  "WRITE p v s = s\<lparr>pins := (pins s)(p := v), trace := trace s @ [Write p v]\<rparr>"

definition emit :: "event \<Rightarrow> state \<Rightarrow> state" where
  "emit e s = s\<lparr>trace := trace s @ [e]\<rparr>"

subsection \<open>calc_timer and HAL_timer_stepper_count\<close>

text \<open>
  \<^verbatim>\<open>calc_timer\<close> returns the timer interval and stores \<^verbatim>\<open>step_loops\<close>. The unsigned
  division \<^verbatim>\<open>HAL_TIMER_RATE / step_rate\<close> is the \<^verbatim>\<open>UDIV\<close> of the Cortex-M3, which
  yields 0 for a zero divisor, as \<open>div\<close> on words does.
\<close>

text \<open>The choice of \<^verbatim>\<open>step_loops\<close> in \<^verbatim>\<open>calc_timer\<close>: the rate per pass and the passes.\<close>

definition step_doubling :: "config \<Rightarrow> u32 \<Rightarrow> u32 \<times> nat" where
  "step_doubling cfg step_rate =
    (if ENABLE_HIGH_SPEED_STEPPING cfg \<and> step_rate > 2 * DOUBLE_STEP_FREQUENCY cfg
       then (drop_bit 2 step_rate, 4)
     else if ENABLE_HIGH_SPEED_STEPPING cfg \<and> step_rate > DOUBLE_STEP_FREQUENCY cfg
       then (drop_bit 1 step_rate, 2)
     else (step_rate, 1))"

definition calc_timer :: "config \<Rightarrow> u32 \<Rightarrow> state \<Rightarrow> u32 \<times> state" where
  "calc_timer cfg step_rate0 s =
    (let step_rate = (if step_rate0 > MAX_STEP_FREQUENCY cfg
                      then MAX_STEP_FREQUENCY cfg else step_rate0);
         (step_rate', loops) = step_doubling cfg step_rate
     in (HAL_TIMER_RATE cfg div step_rate', s\<lparr>step_loops := loops\<rparr>))"

definition HAL_timer_stepper_count :: "u32 \<Rightarrow> u32 \<Rightarrow> state \<Rightarrow> state" where
  "HAL_timer_stepper_count count cv s =
    (let counter_value = cv + 42
     in s\<lparr>TC_RC := (if counter_value \<le> count then count else counter_value)\<rparr>)"


subsection \<open>The axis output router\<close>

text \<open>
  \<^verbatim>\<open>X_APPLY_DIR\<close>, \<^verbatim>\<open>X_APPLY_STEP\<close> and their siblings. \<open>dup\<close> is the global
  \<^verbatim>\<open>extruder_duplication_enabled\<close>, \<open>ae\<close> is \<^verbatim>\<open>current_block->active_extruder\<close>, and
  the last macro argument (\<^verbatim>\<open>ALWAYS\<close>, \<^verbatim>\<open>Q\<close>) is \<open>always\<close>.
\<close>

definition X_APPLY_DIR :: "config \<Rightarrow> bool \<Rightarrow> u8 \<Rightarrow> bool \<Rightarrow> bool \<Rightarrow> state \<Rightarrow> state" where
  "X_APPLY_DIR cfg dup ae v always s =
    (if DUAL_X_CARRIAGE cfg then
       (if dup \<or> always then WRITE X2_DIR v (WRITE X_DIR v s)
        else if ae \<noteq> 0 then WRITE X2_DIR v s else WRITE X_DIR v s)
     else WRITE X_DIR v s)"

definition X_APPLY_STEP :: "config \<Rightarrow> bool \<Rightarrow> u8 \<Rightarrow> bool \<Rightarrow> bool \<Rightarrow> state \<Rightarrow> state" where
  "X_APPLY_STEP cfg dup ae v always s =
    (if DUAL_X_CARRIAGE cfg then
       (if dup \<or> always then WRITE X2_STEP v (WRITE X_STEP v s)
        else if ae \<noteq> 0 then WRITE X2_STEP v s else WRITE X_STEP v s)
     else WRITE X_STEP v s)"

definition Y_APPLY_DIR :: "config \<Rightarrow> bool \<Rightarrow> state \<Rightarrow> state" where
  "Y_APPLY_DIR cfg v s =
    (if Y_DUAL_STEPPER_DRIVERS cfg
     then WRITE Y2_DIR (v \<noteq> INVERT_Y2_VS_Y_DIR cfg) (WRITE Y_DIR v s)
     else WRITE Y_DIR v s)"

definition Y_APPLY_STEP :: "config \<Rightarrow> bool \<Rightarrow> state \<Rightarrow> state" where
  "Y_APPLY_STEP cfg v s =
    (if Y_DUAL_STEPPER_DRIVERS cfg then WRITE Y2_STEP v (WRITE Y_STEP v s)
     else WRITE Y_STEP v s)"

definition Z_APPLY_DIR :: "config \<Rightarrow> bool \<Rightarrow> state \<Rightarrow> state" where
  "Z_APPLY_DIR cfg v s =
    (if Z_DUAL_STEPPER_DRIVERS cfg then WRITE Z2_DIR v (WRITE Z_DIR v s)
     else WRITE Z_DIR v s)"

text \<open>
  With dual Z endstops a Z motor is not stepped during homing once its own endstop
  shows in \<^verbatim>\<open>old_endstop_bits\<close> in the homing direction, or while it is locked.
\<close>

definition Z_APPLY_STEP :: "config \<Rightarrow> bool \<Rightarrow> state \<Rightarrow> state" where
  "Z_APPLY_STEP cfg v s =
    (if Z_DUAL_STEPPER_DRIVERS cfg then
       (if Z_DUAL_ENDSTOPS cfg then
          (if performing_homing s then
             (if Z_HOME_DIR cfg > 0 then
                (let s1 = (if \<not> (TEST (old_endstop_bits s) (endstop_bit Z_MAX)
                                  \<and> 0 <s count_direction s Z_AXIS) \<and> \<not> locked_z_motor s
                           then WRITE Z_STEP v s else s)
                 in if \<not> (TEST (old_endstop_bits s1) (endstop_bit Z2_MAX)
                            \<and> 0 <s count_direction s1 Z_AXIS) \<and> \<not> locked_z2_motor s1
                    then WRITE Z2_STEP v s1 else s1)
              else
                (let s1 = (if \<not> (TEST (old_endstop_bits s) (endstop_bit Z_MIN)
                                  \<and> count_direction s Z_AXIS <s 0) \<and> \<not> locked_z_motor s
                           then WRITE Z_STEP v s else s)
                 in if \<not> (TEST (old_endstop_bits s1) (endstop_bit Z2_MIN)
                            \<and> count_direction s1 Z_AXIS <s 0) \<and> \<not> locked_z2_motor s1
                    then WRITE Z2_STEP v s1 else s1))
           else WRITE Z2_STEP v (WRITE Z_STEP v s))
        else WRITE Z2_STEP v (WRITE Z_STEP v s))
     else WRITE Z_STEP v s)"

definition E_APPLY_STEP :: "bool \<Rightarrow> state \<Rightarrow> state" where
  "E_APPLY_STEP v s = WRITE E_STEP v s"

text \<open>\<^verbatim>\<open>_APPLY_STEP(AXIS)\<close> and \<^verbatim>\<open>_APPLY_DIR(AXIS, v)\<close>: the macro chosen by the axis token.\<close>

fun APPLY_STEP :: "config \<Rightarrow> bool \<Rightarrow> u8 \<Rightarrow> axis \<Rightarrow> bool \<Rightarrow> bool \<Rightarrow> state \<Rightarrow> state" where
  "APPLY_STEP cfg dup ae X_AXIS v always s = X_APPLY_STEP cfg dup ae v always s"
| "APPLY_STEP cfg dup ae Y_AXIS v always s = Y_APPLY_STEP cfg v s"
| "APPLY_STEP cfg dup ae Z_AXIS v always s = Z_APPLY_STEP cfg v s"
| "APPLY_STEP cfg dup ae E_AXIS v always s = E_APPLY_STEP v s"

text \<open>
  \<^verbatim>\<open>NORM_E_DIR()\<close> and \<^verbatim>\<open>REV_E_DIR()\<close> belong to the pin layer: they write the
  extruder's direction line, forwards and backwards.
\<close>

definition NORM_E_DIR :: "config \<Rightarrow> state \<Rightarrow> state" where
  "NORM_E_DIR cfg s = WRITE E_DIR (\<not> INVERT_DIR cfg E_AXIS) s"

definition REV_E_DIR :: "config \<Rightarrow> state \<Rightarrow> state" where
  "REV_E_DIR cfg s = WRITE E_DIR (INVERT_DIR cfg E_AXIS) s"

definition set_count_direction :: "axis \<Rightarrow> u8 \<Rightarrow> state \<Rightarrow> state" where
  "set_count_direction a d s = s\<lparr>count_direction := (count_direction s)(a := d)\<rparr>"

definition set_stepper_direction :: "config \<Rightarrow> bool \<Rightarrow> u8 \<Rightarrow> state \<Rightarrow> state" where
  "set_stepper_direction cfg dup ae s =
    (let s1 = (if TEST (out_bits s) (axis_bit X_AXIS)
               then set_count_direction X_AXIS (- 1)
                      (X_APPLY_DIR cfg dup ae (INVERT_DIR cfg X_AXIS) False s)
               else set_count_direction X_AXIS 1
                      (X_APPLY_DIR cfg dup ae (\<not> INVERT_DIR cfg X_AXIS) False s));
         s2 = (if TEST (out_bits s1) (axis_bit Y_AXIS)
               then set_count_direction Y_AXIS (- 1) (Y_APPLY_DIR cfg (INVERT_DIR cfg Y_AXIS) s1)
               else set_count_direction Y_AXIS 1 (Y_APPLY_DIR cfg (\<not> INVERT_DIR cfg Y_AXIS) s1));
         s3 = (if TEST (out_bits s2) (axis_bit Z_AXIS)
               then set_count_direction Z_AXIS (- 1) (Z_APPLY_DIR cfg (INVERT_DIR cfg Z_AXIS) s2)
               else set_count_direction Z_AXIS 1 (Z_APPLY_DIR cfg (\<not> INVERT_DIR cfg Z_AXIS) s2))
     in if ADVANCE cfg then s3
        else if TEST (out_bits s3) (axis_bit E_AXIS)
          then set_count_direction E_AXIS (- 1) (REV_E_DIR cfg s3)
          else set_count_direction E_AXIS 1 (NORM_E_DIR cfg s3))"

subsection \<open>The trapezoid generator\<close>

text \<open>
  \<^verbatim>\<open>MultiU32X32toH32(intRes, longIn1, longIn2)\<close> is
  \<^verbatim>\<open>intRes = ((uint64_t)longIn1 * longIn2 + 0x80000000) >> 32\<close>. Both operands are
  \<^verbatim>\<open>long\<close> where the interrupt uses it (\<^verbatim>\<open>acceleration_time\<close>, \<^verbatim>\<open>deceleration_time\<close>
  and the block's \<^verbatim>\<open>acceleration_rate\<close>), so both are sign-extended to 64 bits; the
  result is stored in an \<^verbatim>\<open>unsigned long\<close>.
\<close>

definition MultiU32X32toH32 :: "u32 \<Rightarrow> u32 \<Rightarrow> u32" where
  "MultiU32X32toH32 longIn1 longIn2 =
     ucast (drop_bit 32 ((scast longIn1 :: u64) * (scast longIn2 :: u64) + 0x80000000))"

text \<open>
  The \<^verbatim>\<open>ADVANCE\<close> bookkeeping that follows every change of \<^verbatim>\<open>advance\<close>:
  \<^verbatim>\<open>e_steps[active_extruder] += ((advance >> 8) - old_advance); old_advance = advance >> 8\<close>
  on signed longs.
\<close>

definition advance_e_steps :: "u8 \<Rightarrow> state \<Rightarrow> state" where
  "advance_e_steps ae s =
    (let s1 = s\<lparr>e_steps := (e_steps s)(ae := e_steps s ae
                     + (signed_drop_bit 8 (advance s) - old_advance s))\<rparr>
     in s1\<lparr>old_advance := signed_drop_bit 8 (advance s1)\<rparr>)"

definition trapezoid_generator_reset :: "config \<Rightarrow> bool \<Rightarrow> block \<Rightarrow> state \<Rightarrow> state" where
  "trapezoid_generator_reset cfg dup b s =
    (let s1 = (if direction_bits b \<noteq> out_bits s
               then set_stepper_direction cfg dup (active_extruder b)
                      (s\<lparr>out_bits := direction_bits b\<rparr>)
               else s);
         s2 = (if ADVANCE cfg
               then advance_e_steps (active_extruder b)
                      (s1\<lparr>advance := initial_advance b, final_advance := final_advance_b b\<rparr>)
               else s1);
         s3 = s2\<lparr>deceleration_time := 0\<rparr>;
         (t_nominal, s4) = calc_timer cfg (nominal_rate b) s3;
         s5 = s4\<lparr>OCR1A_nominal := t_nominal\<rparr>;
         s6 = s5\<lparr>step_loops_nominal := step_loops s5\<rparr>;
         s7 = s6\<lparr>acc_step_rate := initial_rate b\<rparr>;
         (t_initial, s8) = calc_timer cfg (acc_step_rate s7) s7
     in s8\<lparr>acceleration_time := t_initial\<rparr>)"

text \<open>
  The part of the interrupt headed \<^verbatim>\<open>// Calculate new timer value\<close>: it returns
  \<^verbatim>\<open>timer\<close> and the new state.
\<close>

definition trapezoid_step :: "config \<Rightarrow> block \<Rightarrow> state \<Rightarrow> u32 \<times> state" where
  "trapezoid_step cfg b s =
    (if step_events_completed s \<le> accelerate_until b then
       (let s1 = s\<lparr>acc_step_rate := MultiU32X32toH32 (acceleration_time s) (acceleration_rate b)\<rparr>;
            s2 = s1\<lparr>acc_step_rate := acc_step_rate s1 + initial_rate b\<rparr>;
            s3 = (if acc_step_rate s2 > nominal_rate b
                  then s2\<lparr>acc_step_rate := nominal_rate b\<rparr> else s2);
            (timer, s4) = calc_timer cfg (acc_step_rate s3) s3;
            s5 = s4\<lparr>acceleration_time := acceleration_time s4 + timer\<rparr>
        in (timer,
            if ADVANCE cfg
            then advance_e_steps (active_extruder b)
                   (s5\<lparr>advance := ((\<lambda>x. x + advance_rate s5) ^^ step_loops s5) (advance s5)\<rparr>)
            else s5))
     else if step_events_completed s > decelerate_after b then
       (let step_rate0 = MultiU32X32toH32 (deceleration_time s) (acceleration_rate b);
            step_rate1 = (if step_rate0 > acc_step_rate s then final_rate b
                          else acc_step_rate s - step_rate0);
            step_rate = (if step_rate1 < final_rate b then final_rate b else step_rate1);
            (timer, s1) = calc_timer cfg step_rate s;
            s2 = s1\<lparr>deceleration_time := deceleration_time s1 + timer\<rparr>
        in (timer,
            if ADVANCE cfg
            then (let s3 = s2\<lparr>advance := ((\<lambda>x. x - advance_rate s2) ^^ step_loops s2) (advance s2)\<rparr>;
                      s4 = (if advance s3 <s final_advance s3
                            then s3\<lparr>advance := final_advance s3\<rparr> else s3)
                  in advance_e_steps (active_extruder b) s4)
            else s2))
     else (OCR1A_nominal s, s\<lparr>step_loops := step_loops_nominal s\<rparr>))"

subsection \<open>The endstop check\<close>

text \<open>
  \<^verbatim>\<open>current_endstop_bits\<close> is a local of the interrupt; the functions of this part
  take and return it beside the state. It is a \<^verbatim>\<open>uint16_t\<close> with dual Z endstops and a
  \<^verbatim>\<open>byte\<close> without, where only the endstops numbered below 8 are sampled.
\<close>

datatype minmax = MIN_END | MAX_END | PROBE_END

text \<open>
  \<^verbatim>\<open>_ENDSTOP(AXIS, MINMAX)\<close> pastes the two tokens. The source pastes the seven
  pairs listed first; the last equation only makes the function total.
\<close>

fun ENDSTOP :: "axis \<Rightarrow> minmax \<Rightarrow> endstop" where
  "ENDSTOP X_AXIS MIN_END = X_MIN"
| "ENDSTOP X_AXIS MAX_END = X_MAX"
| "ENDSTOP Y_AXIS MIN_END = Y_MIN"
| "ENDSTOP Y_AXIS MAX_END = Y_MAX"
| "ENDSTOP Z_AXIS MIN_END = Z_MIN"
| "ENDSTOP Z_AXIS MAX_END = Z_MAX"
| "ENDSTOP Z_AXIS PROBE_END = Z_PROBE"
| "ENDSTOP _ _ = Z_PROBE"

definition SET_ENDSTOP_BIT :: "config \<Rightarrow> isr_input \<Rightarrow> endstop \<Rightarrow> u16 \<Rightarrow> u16" where
  "SET_ENDSTOP_BIT cfg inp e cur =
     SET_BIT cur (endstop_bit e) (READ_ENDSTOP inp e \<noteq> ENDSTOP_INVERTING cfg e)"

definition COPY_BIT :: "u16 \<Rightarrow> nat \<Rightarrow> nat \<Rightarrow> u16" where
  "COPY_BIT bits copy_bit bit_no = SET_BIT bits bit_no (TEST bits copy_bit)"

definition TEST_ENDSTOP :: "u16 \<Rightarrow> state \<Rightarrow> endstop \<Rightarrow> bool" where
  "TEST_ENDSTOP cur s e =
     (TEST cur (endstop_bit e) \<and> TEST (old_endstop_bits s) (endstop_bit e))"

definition endstop_hit :: "axis \<Rightarrow> endstop \<Rightarrow> state \<Rightarrow> state" where
  "endstop_hit a e s =
     (let s1 = s\<lparr>endstops_trigsteps := (endstops_trigsteps s)(a := count_position s a)\<rparr>
      in s1\<lparr>endstop_hit_bits := endstop_hit_bits s1 OR BIT (endstop_bit e)\<rparr>)"

definition UPDATE_ENDSTOP ::
  "config \<Rightarrow> isr_input \<Rightarrow> block \<Rightarrow> axis \<Rightarrow> minmax \<Rightarrow> u16 \<times> state \<Rightarrow> u16 \<times> state" where
  "UPDATE_ENDSTOP cfg inp b a m cs =
    (let cur = SET_ENDSTOP_BIT cfg inp (ENDSTOP a m) (fst cs); s = snd cs
     in if TEST_ENDSTOP cur s (ENDSTOP a m) \<and> 0 <s steps b a
        then (cur, (endstop_hit a (ENDSTOP a MIN_END) s)
                     \<lparr>step_events_completed := step_event_count b\<rparr>)
        else (cur, s))"

text \<open>
  \<^verbatim>\<open>byte z_test = TEST_ENDSTOP(Z_MIN) << 0 + TEST_ENDSTOP(Z2_MIN) << 1;\<close>
  In C the operator \<^verbatim>\<open>+\<close> binds tighter than \<^verbatim>\<open><<\<close>, and \<^verbatim>\<open><<\<close> associates to
  the left, so the expression is \<^verbatim>\<open>(TEST_ENDSTOP(Z_MIN) << (0 + TEST_ENDSTOP(Z2_MIN))) << 1\<close>.
\<close>

definition z_test_of :: "bool \<Rightarrow> bool \<Rightarrow> u8" where
  "z_test_of tz tz2 = push_bit 1 (push_bit (0 + of_bool tz2) (of_bool tz))"

definition dual_z_endstops ::
  "config \<Rightarrow> isr_input \<Rightarrow> block \<Rightarrow> endstop \<Rightarrow> endstop \<Rightarrow> u16 \<times> state \<Rightarrow> u16 \<times> state" where
  "dual_z_endstops cfg inp b z z2 cs =
    (let cur1 = SET_ENDSTOP_BIT cfg inp z (fst cs);
         cur2 = (if HAS_ENDSTOP cfg z2 then SET_ENDSTOP_BIT cfg inp z2 cur1
                 else COPY_BIT cur1 (endstop_bit z) (endstop_bit z2));
         s = snd cs;
         z_test = z_test_of (TEST_ENDSTOP cur2 s z) (TEST_ENDSTOP cur2 s z2)
     in if z_test \<noteq> 0 \<and> 0 <s steps b Z_AXIS
        then (let s1 = endstop_hit Z_AXIS Z_MIN s
              in (cur2, if \<not> performing_homing s1 \<or> z_test = 0x3
                        then s1\<lparr>step_events_completed := step_event_count b\<rparr> else s1))
        else (cur2, s))"

definition z_probe_endstop ::
  "config \<Rightarrow> isr_input \<Rightarrow> block \<Rightarrow> u16 \<times> state \<Rightarrow> u16 \<times> state" where
  "z_probe_endstop cfg inp b cs =
    (let cs1 = UPDATE_ENDSTOP cfg inp b Z_AXIS PROBE_END cs
     in if TEST_ENDSTOP (fst cs1) (snd cs1) Z_PROBE
        then (fst cs1, endstop_hit Z_AXIS Z_PROBE (snd cs1))
        else cs1)"

definition x_endstops :: "config \<Rightarrow> isr_input \<Rightarrow> block \<Rightarrow> u16 \<times> state \<Rightarrow> u16 \<times> state" where
  "x_endstops cfg inp b cs =
    (let s = snd cs in
     if COREXY cfg \<and> \<not> (steps b X_AXIS \<noteq> steps b Y_AXIS
          \<or> TEST (out_bits s) (axis_bit X_AXIS) = TEST (out_bits s) (axis_bit Y_AXIS))
     then cs
     else if TEST (out_bits s) (if COREXY cfg then X_HEAD else axis_bit X_AXIS) then
       (if DUAL_X_CARRIAGE cfg
           \<and> \<not> ((active_extruder b = 0 \<and> X_HOME_DIR cfg = - 1)
                \<or> (active_extruder b \<noteq> 0 \<and> X2_HOME_DIR cfg = - 1))
        then cs
        else if HAS_ENDSTOP cfg X_MIN then UPDATE_ENDSTOP cfg inp b X_AXIS MIN_END cs else cs)
     else
       (if DUAL_X_CARRIAGE cfg
           \<and> \<not> ((active_extruder b = 0 \<and> X_HOME_DIR cfg = 1)
                \<or> (active_extruder b \<noteq> 0 \<and> X2_HOME_DIR cfg = 1))
        then cs
        else if HAS_ENDSTOP cfg X_MAX then UPDATE_ENDSTOP cfg inp b X_AXIS MAX_END cs else cs))"

definition y_endstops :: "config \<Rightarrow> isr_input \<Rightarrow> block \<Rightarrow> u16 \<times> state \<Rightarrow> u16 \<times> state" where
  "y_endstops cfg inp b cs =
    (let s = snd cs in
     if COREXY cfg \<and> \<not> (steps b X_AXIS \<noteq> steps b Y_AXIS
          \<or> TEST (out_bits s) (axis_bit X_AXIS) \<noteq> TEST (out_bits s) (axis_bit Y_AXIS))
     then cs
     else if TEST (out_bits s) (if COREXY cfg then Y_HEAD else axis_bit Y_AXIS) then
       (if HAS_ENDSTOP cfg Y_MIN then UPDATE_ENDSTOP cfg inp b Y_AXIS MIN_END cs else cs)
     else
       (if HAS_ENDSTOP cfg Y_MAX then UPDATE_ENDSTOP cfg inp b Y_AXIS MAX_END cs else cs))"

definition z_endstops :: "config \<Rightarrow> isr_input \<Rightarrow> block \<Rightarrow> u16 \<times> state \<Rightarrow> u16 \<times> state" where
  "z_endstops cfg inp b cs =
    (if TEST (out_bits (snd cs)) (axis_bit Z_AXIS) then
       (let cs1 = (if HAS_ENDSTOP cfg Z_MIN then
                     (if Z_DUAL_ENDSTOPS cfg then dual_z_endstops cfg inp b Z_MIN Z2_MIN cs
                      else UPDATE_ENDSTOP cfg inp b Z_AXIS MIN_END cs)
                   else cs)
        in if Z_PROBE_ENDSTOP cfg then z_probe_endstop cfg inp b cs1 else cs1)
     else
       (let cs1 = (if HAS_ENDSTOP cfg Z_MAX then
                     (if Z_DUAL_ENDSTOPS cfg then dual_z_endstops cfg inp b Z_MAX Z2_MAX cs
                      else UPDATE_ENDSTOP cfg inp b Z_AXIS MAX_END cs)
                   else cs)
        in if Z_PROBE_ENDSTOP cfg then z_probe_endstop cfg inp b cs1 else cs1))"

text \<open>The body of \<^verbatim>\<open>if (check_endstops) { ... }\<close>.\<close>

definition endstop_check :: "config \<Rightarrow> isr_input \<Rightarrow> block \<Rightarrow> state \<Rightarrow> state" where
  "endstop_check cfg inp b s =
    (let cs = z_endstops cfg inp b (y_endstops cfg inp b (x_endstops cfg inp b (0, s)))
     in (snd cs)\<lparr>old_endstop_bits := fst cs\<rparr>)"


subsection \<open>The Bresenham tracer\<close>

text \<open>
  \<^verbatim>\<open>STEP_START(axis, AXIS)\<close> and \<^verbatim>\<open>STEP_END(axis, AXIS)\<close>. The counters and
  \<^verbatim>\<open>count_position\<close> are signed longs, \<^verbatim>\<open>count_direction\<close> is a signed char.
\<close>

definition STEP_START :: "config \<Rightarrow> bool \<Rightarrow> block \<Rightarrow> axis \<Rightarrow> state \<Rightarrow> state" where
  "STEP_START cfg dup b a s =
    (let s1 = s\<lparr>counter := (counter s)(a := counter s a + steps b a)\<rparr>
     in if 0 <s counter s1 a then
          (let s2 = APPLY_STEP cfg dup (active_extruder b) a (\<not> INVERT_STEP_PIN cfg a) False s1;
               s3 = s2\<lparr>counter := (counter s2)(a := counter s2 a - step_event_count b)\<rparr>
           in s3\<lparr>count_position :=
                   (count_position s3)(a := count_position s3 a + scast (count_direction s3 a))\<rparr>)
        else s1)"

definition STEP_END :: "config \<Rightarrow> bool \<Rightarrow> block \<Rightarrow> axis \<Rightarrow> state \<Rightarrow> state" where
  "STEP_END cfg dup b a s =
     APPLY_STEP cfg dup (active_extruder b) a (INVERT_STEP_PIN cfg a) False s"

definition step_starts :: "config \<Rightarrow> bool \<Rightarrow> block \<Rightarrow> state \<Rightarrow> state" where
  "step_starts cfg dup b s =
    (let s3 = STEP_START cfg dup b Z_AXIS
                (STEP_START cfg dup b Y_AXIS (STEP_START cfg dup b X_AXIS s))
     in if ADVANCE cfg then s3 else STEP_START cfg dup b E_AXIS s3)"

definition step_ends :: "config \<Rightarrow> bool \<Rightarrow> block \<Rightarrow> state \<Rightarrow> state" where
  "step_ends cfg dup b s =
    (let s3 = STEP_END cfg dup b Z_AXIS
                (STEP_END cfg dup b Y_AXIS (STEP_END cfg dup b X_AXIS s))
     in if ADVANCE cfg then s3 else STEP_END cfg dup b E_AXIS s3)"

text \<open>The extruder bookkeeping at the head of the loop body under \<^verbatim>\<open>ADVANCE\<close>.\<close>

definition advance_counter_e :: "block \<Rightarrow> state \<Rightarrow> state" where
  "advance_counter_e b s =
    (let s1 = s\<lparr>counter := (counter s)(E_AXIS := counter s E_AXIS + steps b E_AXIS)\<rparr>
     in if 0 <s counter s1 E_AXIS then
          (let s2 = s1\<lparr>counter := (counter s1)(E_AXIS := counter s1 E_AXIS - step_event_count b)\<rparr>
           in s2\<lparr>e_steps := (e_steps s2)(active_extruder b := e_steps s2 (active_extruder b)
                   + (if TEST (out_bits s2) (axis_bit E_AXIS) then - 1 else 1))\<rparr>)
        else s1)"

text \<open>One pass through the body of the \<^verbatim>\<open>for\<close> loop, up to \<^verbatim>\<open>step_events_completed++\<close>.\<close>

definition step_iteration :: "config \<Rightarrow> bool \<Rightarrow> block \<Rightarrow> state \<Rightarrow> state" where
  "step_iteration cfg dup b s =
    (let s1 = (if ADVANCE cfg then advance_counter_e b s else s);
         s2 = step_ends cfg dup b (step_starts cfg dup b s1)
     in s2\<lparr>step_events_completed := step_events_completed s2 + 1\<rparr>)"

text \<open>
  \<^verbatim>\<open>for (int8_t i = 0; i < step_loops; i++) { ...; if (step_events_completed >=
  current_block->step_event_count) break; }\<close> with \<open>n\<close> passes left.
\<close>

fun step_loop :: "config \<Rightarrow> bool \<Rightarrow> block \<Rightarrow> nat \<Rightarrow> state \<Rightarrow> state" where
  "step_loop cfg dup b 0 s = s"
| "step_loop cfg dup b (Suc n) s =
    (let s' = step_iteration cfg dup b s
     in if step_events_completed s' \<ge> step_event_count b then s'
        else step_loop cfg dup b n s')"

subsection \<open>The planner and the timer layer\<close>

text \<open>
  Modelled from the spec: \<^verbatim>\<open>plan_get_current_block\<close> and
  \<^verbatim>\<open>plan_discard_current_block\<close> of the planner, which is not part of this file.
  The first peeks at the head of the block queue and yields nothing when the queue is
  empty; the second releases the head.
\<close>

definition plan_get_current_block :: "state \<Rightarrow> block option" where
  "plan_get_current_block s = (case queue s of [] \<Rightarrow> None | b # _ \<Rightarrow> Some b)"

definition plan_discard_current_block :: "state \<Rightarrow> state" where
  "plan_discard_current_block s = s\<lparr>queue := tl (queue s)\<rparr>"

text \<open>
  Modelled from the spec: \<^verbatim>\<open>HAL_timer_set_count\<close> of the timer layer, which is not
  part of this file; it reschedules the interrupt after the given number of counts.
\<close>

definition HAL_timer_set_count :: "u32 \<Rightarrow> state \<Rightarrow> state" where
  "HAL_timer_set_count count s = s\<lparr>TC_RC := count\<rparr>"

subsection \<open>The stepper interrupt\<close>

text \<open>\<^verbatim>\<open>current_block->busy = true\<close>: the block is the head of the planner's queue.\<close>

definition mark_busy :: "state \<Rightarrow> state" where
  "mark_busy s =
    (case queue s of [] \<Rightarrow> s
     | b # q \<Rightarrow> s\<lparr>current_block := Some (b\<lparr>busy := True\<rparr>), queue := b\<lparr>busy := True\<rparr> # q\<rparr>)"

text \<open>
  The interrupt up to \<^verbatim>\<open>if (current_block != NULL)\<close>. The flag of the result is
  \<open>False\<close> where the source returns early.
\<close>

definition isr_begin :: "config \<Rightarrow> isr_input \<Rightarrow> state \<Rightarrow> state \<times> bool" where
  "isr_begin cfg inp s =
    (if cleaning_buffer_counter s \<noteq> 0 then
       (let s1 = plan_discard_current_block (s\<lparr>current_block := None\<rparr>);
            s2 = (if SD_FINISHED_RELEASECOMMAND cfg
                     \<and> cleaning_buffer_counter s1 = 1 \<and> SD_FINISHED_STEPPERRELEASE inp
                  then emit Enqueue s1 else s1);
            s3 = s2\<lparr>cleaning_buffer_counter := cleaning_buffer_counter s2 - 1\<rparr>
        in (HAL_timer_stepper_count (HAL_TIMER_RATE cfg div 200) (TC_CV inp) s3, False))
     else if current_block s = None then
       (case plan_get_current_block s of
          Some b0 \<Rightarrow>
            (let s1 = mark_busy s;
                 b = b0\<lparr>busy := True\<rparr>;
                 s2 = trapezoid_generator_reset cfg (extruder_duplication_enabled inp) b s1;
                 counter_x = - (drop_bit 1 (step_event_count b));
                 s3 = s2\<lparr>counter := (\<lambda>a. counter_x)\<rparr>;
                 s4 = s3\<lparr>step_events_completed := 0\<rparr>
             in if Z_LATE_ENABLE cfg \<and> 0 <s steps b Z_AXIS
                then (HAL_timer_set_count (HAL_TIMER_RATE cfg div 1000) (emit (Enable Z_AXIS) s4),
                      False)
                else (s4, True))
        | None \<Rightarrow>
            (HAL_timer_stepper_count (HAL_TIMER_RATE cfg div 1000) (TC_CV inp) s, True))
     else (s, True))"

text \<open>The stepping between the endstop check and the timer calculation.\<close>

definition step_phase :: "config \<Rightarrow> bool \<Rightarrow> block \<Rightarrow> state \<Rightarrow> state" where
  "step_phase cfg dup b s =
    (if ENABLE_HIGH_SPEED_STEPPING cfg then step_loop cfg dup b (step_loops s) s
     else (let s1 = step_starts cfg dup b s
           in s1\<lparr>step_events_completed := step_events_completed s1 + 1\<rparr>))"

text \<open>\<^verbatim>\<open>// If current block is finished, reset pointer\<close>\<close>

definition finish_block :: "block \<Rightarrow> state \<Rightarrow> state" where
  "finish_block b s =
    (if step_events_completed s \<ge> step_event_count b
     then plan_discard_current_block (s\<lparr>current_block := None\<rparr>)
     else s)"

text \<open>The body of \<^verbatim>\<open>if (current_block != NULL) { ... }\<close>.\<close>

definition isr_block :: "config \<Rightarrow> isr_input \<Rightarrow> block \<Rightarrow> state \<Rightarrow> state" where
  "isr_block cfg inp b s =
    (let dup = extruder_duplication_enabled inp;
         s1 = (if check_endstops s then endstop_check cfg inp b s else s);
         s2 = step_phase cfg dup b s1;
         (timer, s3) = trapezoid_step cfg b s2;
         s4 = (if ENABLE_HIGH_SPEED_STEPPING cfg then s3 else step_ends cfg dup b s3);
         s5 = HAL_timer_stepper_count timer (TC_CV inp) s4
     in finish_block b s5)"

definition HAL_STEP_TIMER_ISR :: "config \<Rightarrow> isr_input \<Rightarrow> state \<Rightarrow> state" where
  "HAL_STEP_TIMER_ISR cfg inp s =
    (let (s1, go) = isr_begin cfg inp s
     in if go then (case current_block s1 of None \<Rightarrow> s1 | Some b \<Rightarrow> isr_block cfg inp b s1)
        else s1)"

subsection \<open>The functions called from the main loop\<close>

definition endstops_hit_on_purpose :: "state \<Rightarrow> state" where
  "endstops_hit_on_purpose s = s\<lparr>endstop_hit_bits := 0\<rparr>"

definition enable_endstops :: "bool \<Rightarrow> state \<Rightarrow> state" where
  "enable_endstops check s = s\<lparr>check_endstops := check\<rparr>"

definition st_set_position :: "u32 \<Rightarrow> u32 \<Rightarrow> u32 \<Rightarrow> u32 \<Rightarrow> state \<Rightarrow> state" where
  "st_set_position x y z e s =
     s\<lparr>count_position := (count_position s)
          (X_AXIS := x, Y_AXIS := y, Z_AXIS := z, E_AXIS := e)\<rparr>"

definition st_set_e_position :: "u32 \<Rightarrow> state \<Rightarrow> state" where
  "st_set_e_position e s = s\<lparr>count_position := (count_position s)(E_AXIS := e)\<rparr>"


text \<open>\<^verbatim>\<open>while (blocks_queued()) plan_discard_current_block();\<close> empties the queue.\<close>

definition quickStop :: "state \<Rightarrow> state" where
  "quickStop s = s\<lparr>cleaning_buffer_counter := 5000, queue := [], current_block := None\<rparr>"

text \<open>
  \<^verbatim>\<open>checkHitEndstops\<close> without its serial and display output; \<open>abort\<close> is
  \<^verbatim>\<open>abort_on_endstop_hit\<close> of a build with \<^verbatim>\<open>ABORT_ON_ENDSTOP_HIT_FEATURE_ENABLED\<close> and
  \<^verbatim>\<open>SDSUPPORT\<close>, and \<open>False\<close> otherwise.
\<close>

definition checkHitEndstops :: "bool \<Rightarrow> state \<Rightarrow> state" where
  "checkHitEndstops abort s =
    (if endstop_hit_bits s \<noteq> 0
     then (let s1 = endstops_hit_on_purpose s in if abort then quickStop s1 else s1)
     else s)"

definition In_Homing_Process :: "bool \<Rightarrow> state \<Rightarrow> state" where
  "In_Homing_Process st s = s\<lparr>performing_homing := st\<rparr>"

definition Lock_z_motor :: "bool \<Rightarrow> state \<Rightarrow> state" where
  "Lock_z_motor st s = s\<lparr>locked_z_motor := st\<rparr>"

definition Lock_z2_motor :: "bool \<Rightarrow> state \<Rightarrow> state" where
  "Lock_z2_motor st s = s\<lparr>locked_z2_motor := st\<rparr>"

subsection \<open>Babystepping\<close>

text \<open>\<^verbatim>\<open>_READ_DIR(AXIS)\<close> reads the direction line of the axis.\<close>

fun DIR_PIN :: "axis \<Rightarrow> pin" where
  "DIR_PIN X_AXIS = X_DIR"
| "DIR_PIN Y_AXIS = Y_DIR"
| "DIR_PIN Z_AXIS = Z_DIR"
| "DIR_PIN E_AXIS = E_DIR"

fun APPLY_DIR :: "config \<Rightarrow> bool \<Rightarrow> u8 \<Rightarrow> axis \<Rightarrow> bool \<Rightarrow> bool \<Rightarrow> state \<Rightarrow> state" where
  "APPLY_DIR cfg dup ae X_AXIS v always s = X_APPLY_DIR cfg dup ae v always s"
| "APPLY_DIR cfg dup ae Y_AXIS v always s = Y_APPLY_DIR cfg v s"
| "APPLY_DIR cfg dup ae Z_AXIS v always s = Z_APPLY_DIR cfg v s"
| "APPLY_DIR cfg dup ae E_AXIS v always s = s"

text \<open>
  \<^verbatim>\<open>BABYSTEP_AXIS(axis, AXIS, INVERT)\<close>. \<open>dup\<close> and \<open>ae\<close> are the duplication flag and
  the active extruder that the router macros name; with \<^verbatim>\<open>ALWAYS\<close> true they are not
  looked at.
\<close>

definition BABYSTEP_AXIS ::
  "config \<Rightarrow> bool \<Rightarrow> u8 \<Rightarrow> bool \<Rightarrow> axis \<Rightarrow> bool \<Rightarrow> state \<Rightarrow> state" where
  "BABYSTEP_AXIS cfg dup ae direction a invert s =
    (let s1 = emit (Enable a) s;
         old_pin = pins s1 (DIR_PIN a);
         s2 = APPLY_DIR cfg dup ae a ((INVERT_DIR cfg a \<noteq> direction) \<noteq> invert) True s1;
         s3 = APPLY_STEP cfg dup ae a (\<not> INVERT_STEP_PIN cfg a) True s2;
         s4 = emit Delay s3;
         s5 = APPLY_STEP cfg dup ae a (INVERT_STEP_PIN cfg a) True s4
     in APPLY_DIR cfg dup ae a old_pin True s5)"

definition babystep_delta_z :: "config \<Rightarrow> bool \<Rightarrow> state \<Rightarrow> state" where
  "babystep_delta_z cfg direction s =
    (let z_direction = (direction \<noteq> BABYSTEP_INVERT_Z cfg);
         s1 = emit (Enable Z_AXIS) (emit (Enable Y_AXIS) (emit (Enable X_AXIS) s));
         old_x_dir_pin = pins s1 X_DIR;
         old_y_dir_pin = pins s1 Y_DIR;
         old_z_dir_pin = pins s1 Z_DIR;
         s2 = WRITE Z_DIR (INVERT_DIR cfg Z_AXIS \<noteq> z_direction)
               (WRITE Y_DIR (INVERT_DIR cfg Y_AXIS \<noteq> z_direction)
                 (WRITE X_DIR (INVERT_DIR cfg X_AXIS \<noteq> z_direction) s1));
         s3 = WRITE Z_STEP (\<not> INVERT_STEP_PIN cfg Z_AXIS)
               (WRITE Y_STEP (\<not> INVERT_STEP_PIN cfg Y_AXIS)
                 (WRITE X_STEP (\<not> INVERT_STEP_PIN cfg X_AXIS) s2));
         s4 = emit Delay s3;
         s5 = WRITE Z_STEP (INVERT_STEP_PIN cfg Z_AXIS)
               (WRITE Y_STEP (INVERT_STEP_PIN cfg Y_AXIS)
                 (WRITE X_STEP (INVERT_STEP_PIN cfg X_AXIS) s4))
     in WRITE Z_DIR old_z_dir_pin (WRITE Y_DIR old_y_dir_pin (WRITE X_DIR old_x_dir_pin s5)))"

fun babystep :: "config \<Rightarrow> bool \<Rightarrow> u8 \<Rightarrow> axis \<Rightarrow> bool \<Rightarrow> state \<Rightarrow> state" where
  "babystep cfg dup ae X_AXIS direction s = BABYSTEP_AXIS cfg dup ae direction X_AXIS False s"
| "babystep cfg dup ae Y_AXIS direction s = BABYSTEP_AXIS cfg dup ae direction Y_AXIS False s"
| "babystep cfg dup ae Z_AXIS direction s =
    (if \<not> DELTA cfg
     then BABYSTEP_AXIS cfg dup ae direction Z_AXIS (BABYSTEP_INVERT_Z cfg) s
     else babystep_delta_z cfg direction s)"
| "babystep cfg dup ae E_AXIS direction s = s"


subsection \<open>The state at power-up\<close>

text \<open>
  The static initialisers of the file (\<^verbatim>\<open>out_bits = 0\<close>, \<^verbatim>\<open>check_endstops = true\<close>,
  \<^verbatim>\<open>count_direction = { 1, 1, 1, 1 }\<close>, ...); statics without one are zero.
\<close>

definition initial_state :: state where
  "initial_state =
    \<lparr>current_block = None, out_bits = 0, cleaning_buffer_counter = 0,
     performing_homing = False, locked_z_motor = False, locked_z2_motor = False,
     counter = (\<lambda>a. 0), step_events_completed = 0,
     advance_rate = 0, advance = 0, final_advance = 0, old_advance = 0, e_steps = (\<lambda>i. 0),
     acceleration_time = 0, deceleration_time = 0, acc_step_rate = 0, step_loops = 0,
     OCR1A_nominal = 0, step_loops_nominal = 0,
     endstops_trigsteps = (\<lambda>a. 0), endstop_hit_bits = 0, old_endstop_bits = 0,
     check_endstops = True, count_position = (\<lambda>a. 0), count_direction = (\<lambda>a. 1),
     pins = (\<lambda>p. False), trace = [], TC_RC = 0, queue = []\<rparr>"

text \<open>
  A plain Cartesian build for the examples: no optional feature, all six endstops, a
  1 MHz timer.
\<close>

definition plain_config :: config where
  "plain_config =
    \<lparr>ADVANCE = False, ENABLE_HIGH_SPEED_STEPPING = False, COREXY = False,
     DUAL_X_CARRIAGE = False, Y_DUAL_STEPPER_DRIVERS = False,
     Z_DUAL_STEPPER_DRIVERS = False, Z_DUAL_ENDSTOPS = False, Z_PROBE_ENDSTOP = False,
     Z_LATE_ENABLE = False, DELTA = False, SD_FINISHED_RELEASECOMMAND = False,
     HAS_ENDSTOP = (\<lambda>e. e \<noteq> Z_PROBE \<and> e \<noteq> Z2_MIN \<and> e \<noteq> Z2_MAX),
     ENDSTOP_INVERTING = (\<lambda>e. False),
     INVERT_DIR = (\<lambda>a. False), INVERT_STEP_PIN = (\<lambda>a. False),
     INVERT_Y2_VS_Y_DIR = False, BABYSTEP_INVERT_Z = False,
     X_HOME_DIR = - 1, X2_HOME_DIR = 1, Z_HOME_DIR = - 1,
     MAX_STEP_FREQUENCY = 40000, DOUBLE_STEP_FREQUENCY = 10000, HAL_TIMER_RATE = 1000000\<rparr>"


text \<open>A block with an acceleration ramp, and states inside its ramps.\<close>

definition ramp_block :: block where
  "ramp_block =
    \<lparr>steps = (\<lambda>a. if a = X_AXIS then 100 else 0), step_event_count = 100,
     direction_bits = 0, active_extruder = 0, accelerate_until = 50, decelerate_after = 80,
     acceleration_rate = 8589934, nominal_rate = 2000, initial_rate = 500, final_rate = 500,
     initial_advance = 0, final_advance_b = 0, busy = True\<rparr>"

definition accel_state :: state where
  "accel_state = initial_state
     \<lparr>current_block := Some ramp_block, step_events_completed := 10,
      acceleration_time := 2000, acc_step_rate := 500\<rparr>"

definition decel_state :: state where
  "decel_state = initial_state
     \<lparr>current_block := Some ramp_block, step_events_completed := 90,
      deceleration_time := 2000, acc_step_rate := 2000\<rparr>"

text \<open>
  Inputs at the edge of the 32-bit arithmetic: a rate sum beyond 32 bits, and times with
  the top bit set.
\<close>

definition steep_block :: block where
  "steep_block = ramp_block
     \<lparr>acceleration_rate := 0x7FFFFFFF, nominal_rate := 0xFFFFFFFF, initial_rate := 0xF0000000\<rparr>"

definition steep_state :: state where
  "steep_state = accel_state\<lparr>acceleration_time := 0x7FFFFFFF\<rparr>"

definition slow_block :: block where
  "slow_block = ramp_block\<lparr>acceleration_rate := 2\<rparr>"

definition late_accel_state :: state where
  "late_accel_state = accel_state\<lparr>acceleration_time := 0x80000000\<rparr>"

definition late_decel_state :: state where
  "late_decel_state = decel_state\<lparr>deceleration_time := 0x80000000\<rparr>"

subsection \<open>Notions used by the properties\<close>

text \<open>
  An endstop is asserted when its pin differs from its inverting flag, and confirmed
  when it is asserted now and its bit is set in \<open>old\<close>, the value of
  \<^verbatim>\<open>old_endstop_bits\<close>.
\<close>

definition asserted :: "config \<Rightarrow> isr_input \<Rightarrow> endstop \<Rightarrow> bool" where
  "asserted cfg inp e = (READ_ENDSTOP inp e \<noteq> ENDSTOP_INVERTING cfg e)"

definition confirmed :: "config \<Rightarrow> isr_input \<Rightarrow> u16 \<Rightarrow> endstop \<Rightarrow> bool" where
  "confirmed cfg inp old e = (asserted cfg inp e \<and> TEST old (endstop_bit e))"

text \<open>
  The conditions under which the endstop check reaches \<^verbatim>\<open>UPDATE_ENDSTOP(AXIS, MINMAX)\<close>:
  the direction of the move in \<open>out\<close> (the value of \<^verbatim>\<open>out_bits\<close>), the CoreXY and
  dual-carriage guards, and the presence of the endstop. With dual Z endstops the Z
  minimum and maximum never reach it.
\<close>

fun endstop_gate :: "config \<Rightarrow> block \<Rightarrow> u8 \<Rightarrow> axis \<Rightarrow> minmax \<Rightarrow> bool" where
  "endstop_gate cfg b out X_AXIS MIN_END =
    ((\<not> COREXY cfg \<or> steps b X_AXIS \<noteq> steps b Y_AXIS
        \<or> TEST out (axis_bit X_AXIS) = TEST out (axis_bit Y_AXIS))
     \<and> TEST out (if COREXY cfg then X_HEAD else axis_bit X_AXIS)
     \<and> (\<not> DUAL_X_CARRIAGE cfg \<or> (active_extruder b = 0 \<and> X_HOME_DIR cfg = - 1)
          \<or> (active_extruder b \<noteq> 0 \<and> X2_HOME_DIR cfg = - 1))
     \<and> HAS_ENDSTOP cfg X_MIN)"
| "endstop_gate cfg b out X_AXIS MAX_END =
    ((\<not> COREXY cfg \<or> steps b X_AXIS \<noteq> steps b Y_AXIS
        \<or> TEST out (axis_bit X_AXIS) = TEST out (axis_bit Y_AXIS))
     \<and> \<not> TEST out (if COREXY cfg then X_HEAD else axis_bit X_AXIS)
     \<and> (\<not> DUAL_X_CARRIAGE cfg \<or> (active_extruder b = 0 \<and> X_HOME_DIR cfg = 1)
          \<or> (active_extruder b \<noteq> 0 \<and> X2_HOME_DIR cfg = 1))
     \<and> HAS_ENDSTOP cfg X_MAX)"
| "endstop_gate cfg b out Y_AXIS MIN_END =
    ((\<not> COREXY cfg \<or> steps b X_AXIS \<noteq> steps b Y_AXIS
        \<or> TEST out (axis_bit X_AXIS) \<noteq> TEST out (axis_bit Y_AXIS))
     \<and> TEST out (if COREXY cfg then Y_HEAD else axis_bit Y_AXIS)
     \<and> HAS_ENDSTOP cfg Y_MIN)"
| "endstop_gate cfg b out Y_AXIS MAX_END =
    ((\<not> COREXY cfg \<or> steps b X_AXIS \<noteq> steps b Y_AXIS
        \<or> TEST out (axis_bit X_AXIS) \<noteq> TEST out (axis_bit Y_AXIS))
     \<and> \<not> TEST out (if COREXY cfg then Y_HEAD else axis_bit Y_AXIS)
     \<and> HAS_ENDSTOP cfg Y_MAX)"
| "endstop_gate cfg b out Z_AXIS MIN_END =
    (TEST out (axis_bit Z_AXIS) \<and> HAS_ENDSTOP cfg Z_MIN \<and> \<not> Z_DUAL_ENDSTOPS cfg)"
| "endstop_gate cfg b out Z_AXIS MAX_END =
    (\<not> TEST out (axis_bit Z_AXIS) \<and> HAS_ENDSTOP cfg Z_MAX \<and> \<not> Z_DUAL_ENDSTOPS cfg)"
| "endstop_gate cfg b out Z_AXIS PROBE_END = Z_PROBE_ENDSTOP cfg"
| "endstop_gate cfg b out _ _ = False"

text \<open>
  The conditions under which the endstop check reaches the dual-Z test for the Z
  minimum or maximum, the second endstop of the pair (\<^verbatim>\<open>_ENDSTOP(Z2, MINMAX)\<close>), and
  the second endstop as the test reads it: asserted now (its own pin, or the copy of the
  first where the build has no pin for it) and set in \<open>old\<close>.
\<close>

fun dual_z_gate :: "config \<Rightarrow> u8 \<Rightarrow> minmax \<Rightarrow> bool" where
  "dual_z_gate cfg out MIN_END =
    (TEST out (axis_bit Z_AXIS) \<and> HAS_ENDSTOP cfg Z_MIN \<and> Z_DUAL_ENDSTOPS cfg)"
| "dual_z_gate cfg out MAX_END =
    (\<not> TEST out (axis_bit Z_AXIS) \<and> HAS_ENDSTOP cfg Z_MAX \<and> Z_DUAL_ENDSTOPS cfg)"
| "dual_z_gate cfg out PROBE_END = False"

fun Z2_ENDSTOP :: "minmax \<Rightarrow> endstop" where
  "Z2_ENDSTOP MIN_END = Z2_MIN"
| "Z2_ENDSTOP _ = Z2_MAX"

definition second_latched :: "config \<Rightarrow> isr_input \<Rightarrow> u16 \<Rightarrow> minmax \<Rightarrow> bool" where
  "second_latched cfg inp old m =
    ((if HAS_ENDSTOP cfg (Z2_ENDSTOP m) then asserted cfg inp (Z2_ENDSTOP m)
      else asserted cfg inp (ENDSTOP Z_AXIS m))
     \<and> TEST old (endstop_bit (Z2_ENDSTOP m)))"

text \<open>
  What the source does at a trigger: \<^verbatim>\<open>endstops_trigsteps[axis] = count_position[axis]\<close>,
  the bit of the axis in \<^verbatim>\<open>endstop_hit_bits\<close>, and \<^verbatim>\<open>step_events_completed =
  current_block->step_event_count\<close>.
\<close>

definition hit_recorded :: "block \<Rightarrow> axis \<Rightarrow> state \<Rightarrow> bool" where
  "hit_recorded b a s =
    (endstops_trigsteps s a = count_position s a
     \<and> TEST (endstop_hit_bits s) (endstop_bit (ENDSTOP a MIN_END))
     \<and> step_events_completed s = step_event_count b)"

text \<open>A value of \<^verbatim>\<open>endstop_hit_bits\<close> with no bit beside the four named at its declaration.\<close>

definition only_min_bits :: "u8 \<Rightarrow> bool" where
  "only_min_bits w =
    (w AND NOT (BIT (endstop_bit X_MIN) OR BIT (endstop_bit Y_MIN)
                OR BIT (endstop_bit Z_MIN) OR BIT (endstop_bit Z_PROBE)) = 0)"

text \<open>A sequence of interrupts, one input each.\<close>

fun run :: "config \<Rightarrow> isr_input list \<Rightarrow> state \<Rightarrow> state" where
  "run cfg [] s = s"
| "run cfg (inp # inps) s = run cfg inps (HAL_STEP_TIMER_ISR cfg inp s)"

text \<open>
  Modelled from the spec: the planner, which is not part of this file, is the single
  producer of the block queue; it appends blocks at the tail.
\<close>

definition plan_buffer_line :: "block \<Rightarrow> state \<Rightarrow> state" where
  "plan_buffer_line b s = s\<lparr>queue := queue s @ [b]\<rparr>"

text \<open>
  The states the driver can be in: power-up, and whatever the interrupt, the planner
  and the functions of this file make of a state.
\<close>

inductive reachable :: "config \<Rightarrow> state \<Rightarrow> bool" for cfg :: config where
  power_up: "reachable cfg initial_state"
| interrupt: "reachable cfg s \<Longrightarrow> reachable cfg (HAL_STEP_TIMER_ISR cfg inp s)"
| planner: "reachable cfg s \<Longrightarrow> reachable cfg (plan_buffer_line b s)"
| hit_on_purpose: "reachable cfg s \<Longrightarrow> reachable cfg (endstops_hit_on_purpose s)"
| check_hit: "reachable cfg s \<Longrightarrow> reachable cfg (checkHitEndstops abort s)"
| endstops_enabled: "reachable cfg s \<Longrightarrow> reachable cfg (enable_endstops on s)"
| position_set: "reachable cfg s \<Longrightarrow> reachable cfg (st_set_position x y z e s)"
| e_position_set: "reachable cfg s \<Longrightarrow> reachable cfg (st_set_e_position e s)"
| quick_stop: "reachable cfg s \<Longrightarrow> reachable cfg (quickStop s)"
| homing: "reachable cfg s \<Longrightarrow> reachable cfg (In_Homing_Process on s)"
| z_locked: "reachable cfg s \<Longrightarrow> reachable cfg (Lock_z_motor on s)"
| z2_locked: "reachable cfg s \<Longrightarrow> reachable cfg (Lock_z2_motor on s)"
| babystepped: "reachable cfg s \<Longrightarrow> reachable cfg (babystep cfg dup ae a direction s)"


text \<open>
  The axes whose position the interrupt traces: all four, but for the extruder under
  \<^verbatim>\<open>ADVANCE\<close>, whose steps are left to the extruder interrupt.
\<close>

definition tracked :: "config \<Rightarrow> axis \<Rightarrow> bool" where
  "tracked cfg a = (a \<noteq> E_AXIS \<or> \<not> ADVANCE cfg)"

text \<open>The value of \<^verbatim>\<open>count_direction\<close> that belongs to a direction bit.\<close>

definition dir_sign :: "u8 \<Rightarrow> axis \<Rightarrow> u8" where
  "dir_sign bits a = (if TEST bits (axis_bit a) then - 1 else 1)"

text \<open>
  \<^verbatim>\<open>count_direction\<close> mirrors \<^verbatim>\<open>out_bits\<close>. The static initialisers satisfy it, and
  \<^verbatim>\<open>set_stepper_direction\<close> restores it whenever \<^verbatim>\<open>out_bits\<close> changes.
\<close>

definition dir_consistent :: "config \<Rightarrow> state \<Rightarrow> bool" where
  "dir_consistent cfg s =
    (\<forall>a. tracked cfg a \<longrightarrow> count_direction s a = dir_sign (out_bits s) a)"









text \<open>
  The output of a function: the events between two states, and the levels written to
  one pin among them.
\<close>

definition emitted :: "state \<Rightarrow> state \<Rightarrow> event list" where
  "emitted s s' = drop (length (trace s)) (trace s')"

fun pin_writes :: "pin \<Rightarrow> event list \<Rightarrow> bool list" where
  "pin_writes p [] = []"
| "pin_writes p (Write p' v # es) = (if p' = p then v # pin_writes p es else pin_writes p es)"
| "pin_writes p (ev # es) = pin_writes p es"

fun is_step_pin :: "pin \<Rightarrow> bool" where
  "is_step_pin X_STEP = True"
| "is_step_pin X2_STEP = True"
| "is_step_pin Y_STEP = True"
| "is_step_pin Y2_STEP = True"
| "is_step_pin Z_STEP = True"
| "is_step_pin Z2_STEP = True"
| "is_step_pin E_STEP = True"
| "is_step_pin p = False"

fun pin_axis :: "pin \<Rightarrow> axis" where
  "pin_axis X_STEP = X_AXIS"
| "pin_axis X2_STEP = X_AXIS"
| "pin_axis X_DIR = X_AXIS"
| "pin_axis X2_DIR = X_AXIS"
| "pin_axis Y_STEP = Y_AXIS"
| "pin_axis Y2_STEP = Y_AXIS"
| "pin_axis Y_DIR = Y_AXIS"
| "pin_axis Y2_DIR = Y_AXIS"
| "pin_axis Z_STEP = Z_AXIS"
| "pin_axis Z2_STEP = Z_AXIS"
| "pin_axis Z_DIR = Z_AXIS"
| "pin_axis Z2_DIR = Z_AXIS"
| "pin_axis E_STEP = E_AXIS"
| "pin_axis E_DIR = E_AXIS"

text \<open>
  A rising step edge is a write of the active level \<^verbatim>\<open>!INVERT_x_STEP_PIN\<close> to a step
  line, a falling one a write of \<^verbatim>\<open>INVERT_x_STEP_PIN\<close>.
\<close>

fun rising :: "config \<Rightarrow> event \<Rightarrow> bool" where
  "rising cfg (Write p v) = (is_step_pin p \<and> v = (\<not> INVERT_STEP_PIN cfg (pin_axis p)))"
| "rising cfg ev = False"

fun falling :: "config \<Rightarrow> event \<Rightarrow> bool" where
  "falling cfg (Write p v) = (is_step_pin p \<and> v = INVERT_STEP_PIN cfg (pin_axis p))"
| "falling cfg ev = False"

text \<open>No rising edge comes after a falling one.\<close>

fun rise_before_fall :: "config \<Rightarrow> event list \<Rightarrow> bool" where
  "rise_before_fall cfg [] = True"
| "rise_before_fall cfg (ev # evs) =
    ((falling cfg ev \<longrightarrow> list_all (\<lambda>ev'. \<not> rising cfg ev') evs) \<and> rise_before_fall cfg evs)"

text \<open>What a function adds to the trace holds no falling edge, or no rising edge.\<close>

definition adds_no_fall :: "config \<Rightarrow> state \<Rightarrow> state \<Rightarrow> bool" where
  "adds_no_fall cfg s s' =
    (\<exists>evs. trace s' = trace s @ evs \<and> list_all (\<lambda>ev. \<not> falling cfg ev) evs)"

definition adds_no_rise :: "config \<Rightarrow> state \<Rightarrow> state \<Rightarrow> bool" where
  "adds_no_rise cfg s s' =
    (\<exists>evs. trace s' = trace s @ evs \<and> list_all (\<lambda>ev. \<not> rising cfg ev) evs)"

text \<open>
  The motors a babystep on an axis pulses: those of the axis in this build, and the
  three towers for Z on a delta.
\<close>

fun babystep_pins :: "config \<Rightarrow> axis \<Rightarrow> pin list" where
  "babystep_pins cfg X_AXIS = (if DUAL_X_CARRIAGE cfg then [X_STEP, X2_STEP] else [X_STEP])"
| "babystep_pins cfg Y_AXIS = (if Y_DUAL_STEPPER_DRIVERS cfg then [Y_STEP, Y2_STEP] else [Y_STEP])"
| "babystep_pins cfg Z_AXIS =
    (if DELTA cfg then [X_STEP, Y_STEP, Z_STEP]
     else if Z_DUAL_STEPPER_DRIVERS cfg then [Z_STEP, Z2_STEP] else [Z_STEP])"
| "babystep_pins cfg E_AXIS = []"

text \<open>
  The Z motors that \<^verbatim>\<open>Z_APPLY_STEP\<close> holds back: with dual Z steppers and dual Z
  endstops, during homing, a motor that is locked or whose endstop shows in
  \<^verbatim>\<open>old_endstop_bits\<close> while Z moves in the homing direction.
\<close>

definition z_held :: "config \<Rightarrow> state \<Rightarrow> pin \<Rightarrow> bool" where
  "z_held cfg s p =
    (Z_DUAL_STEPPER_DRIVERS cfg \<and> Z_DUAL_ENDSTOPS cfg \<and> performing_homing s
     \<and> (if p = Z_STEP then
           (if Z_HOME_DIR cfg > 0
            then TEST (old_endstop_bits s) (endstop_bit Z_MAX) \<and> 0 <s count_direction s Z_AXIS
            else TEST (old_endstop_bits s) (endstop_bit Z_MIN) \<and> count_direction s Z_AXIS <s 0)
           \<or> locked_z_motor s
         else if p = Z2_STEP then
           (if Z_HOME_DIR cfg > 0
            then TEST (old_endstop_bits s) (endstop_bit Z2_MAX) \<and> 0 <s count_direction s Z_AXIS
            else TEST (old_endstop_bits s) (endstop_bit Z2_MIN) \<and> count_direction s Z_AXIS <s 0)
           \<or> locked_z2_motor s
         else False))"

subsection \<open>Example builds, blocks and inputs\<close>

text \<open>A build with two Z motors and an endstop for each.\<close>

definition dual_z_config :: config where
  "dual_z_config = plain_config
     \<lparr>Z_DUAL_STEPPER_DRIVERS := True, Z_DUAL_ENDSTOPS := True,
      HAS_ENDSTOP := (\<lambda>e. e \<noteq> Z_PROBE)\<rparr>"

text \<open>Straight moves at a constant 1000 steps per second: \<open>n\<close> steps along one axis.\<close>

definition line_block :: "axis \<Rightarrow> u32 \<Rightarrow> u8 \<Rightarrow> block" where
  "line_block a n dirs =
    \<lparr>steps = (\<lambda>a'. if a' = a then n else 0), step_event_count = n,
     direction_bits = dirs, active_extruder = 0, accelerate_until = 0, decelerate_after = n,
     acceleration_rate = 0, nominal_rate = 1000, initial_rate = 1000, final_rate = 1000,
     initial_advance = 0, final_advance_b = 0, busy = False\<rparr>"

text \<open>An interrupt that finds exactly the endstops of \<open>es\<close> closed.\<close>

definition closed_input :: "endstop list \<Rightarrow> isr_input" where
  "closed_input es =
    \<lparr>READ_ENDSTOP = (\<lambda>e. e \<in> set es), TC_CV = 0,
     extruder_duplication_enabled = False, SD_FINISHED_STEPPERRELEASE = False\<rparr>"

text \<open>
  The state in which a move starts while the switches of \<open>es\<close> were closed at the
  previous interrupt, and the block \<open>b\<close> is the next of the queue.
\<close>

definition start_state :: "endstop list \<Rightarrow> block \<Rightarrow> state" where
  "start_state es b =
     initial_state\<lparr>old_endstop_bits := foldr (\<lambda>e w. w OR BIT (endstop_bit e)) es 0,
                   queue := [b]\<rparr>"

text \<open>
  A homing move towards the X minimum whose first interrupt finds the switch closed:
  the state after that interrupt.
\<close>

definition x_home_block :: block where
  "x_home_block = line_block X_AXIS 20 1"

definition x_home_tick1 :: state where
  "x_home_tick1 =
     HAL_STEP_TIMER_ISR plain_config (closed_input [X_MIN]) (start_state [] x_home_block)"

text \<open>A move of 20 steps down the Z axis.\<close>

definition z_down_block :: block where
  "z_down_block = line_block Z_AXIS 20 4"

section \<open>Properties\<close>

subsection \<open>What each function leaves alone\<close>

text \<open>
  For every function of the model, the fields of the state it does not write. The
  router writes pins only; the endstop check writes the endstop latches and
  \<open>step_events_completed\<close>; the tracer writes the counters, the position and the
  pins; the trapezoid generator writes the rates, the times and \<open>step_loops\<close>.
\<close>

lemma WRITE_frame [simp]:
  "current_block (WRITE p v s) = current_block s"
  "out_bits (WRITE p v s) = out_bits s"
  "cleaning_buffer_counter (WRITE p v s) = cleaning_buffer_counter s"
  "performing_homing (WRITE p v s) = performing_homing s"
  "locked_z_motor (WRITE p v s) = locked_z_motor s"
  "locked_z2_motor (WRITE p v s) = locked_z2_motor s"
  "counter (WRITE p v s) = counter s"
  "step_events_completed (WRITE p v s) = step_events_completed s"
  "advance_rate (WRITE p v s) = advance_rate s"
  "advance (WRITE p v s) = advance s"
  "final_advance (WRITE p v s) = final_advance s"
  "old_advance (WRITE p v s) = old_advance s"
  "e_steps (WRITE p v s) = e_steps s"
  "acceleration_time (WRITE p v s) = acceleration_time s"
  "deceleration_time (WRITE p v s) = deceleration_time s"
  "acc_step_rate (WRITE p v s) = acc_step_rate s"
  "step_loops (WRITE p v s) = step_loops s"
  "OCR1A_nominal (WRITE p v s) = OCR1A_nominal s"
  "step_loops_nominal (WRITE p v s) = step_loops_nominal s"
  "endstops_trigsteps (WRITE p v s) = endstops_trigsteps s"
  "endstop_hit_bits (WRITE p v s) = endstop_hit_bits s"
  "old_endstop_bits (WRITE p v s) = old_endstop_bits s"
  "check_endstops (WRITE p v s) = check_endstops s"
  "count_position (WRITE p v s) = count_position s"
  "count_direction (WRITE p v s) = count_direction s"
  "TC_RC (WRITE p v s) = TC_RC s"
  "queue (WRITE p v s) = queue s"
  by (simp_all add: WRITE_def Let_def split_def)

lemma emit_frame [simp]:
  "current_block (emit e s) = current_block s"
  "out_bits (emit e s) = out_bits s"
  "cleaning_buffer_counter (emit e s) = cleaning_buffer_counter s"
  "performing_homing (emit e s) = performing_homing s"
  "locked_z_motor (emit e s) = locked_z_motor s"
  "locked_z2_motor (emit e s) = locked_z2_motor s"
  "counter (emit e s) = counter s"
  "step_events_completed (emit e s) = step_events_completed s"
  "advance_rate (emit e s) = advance_rate s"
  "advance (emit e s) = advance s"
  "final_advance (emit e s) = final_advance s"
  "old_advance (emit e s) = old_advance s"
  "e_steps (emit e s) = e_steps s"
  "acceleration_time (emit e s) = acceleration_time s"
  "deceleration_time (emit e s) = deceleration_time s"
  "acc_step_rate (emit e s) = acc_step_rate s"
  "step_loops (emit e s) = step_loops s"
  "OCR1A_nominal (emit e s) = OCR1A_nominal s"
  "step_loops_nominal (emit e s) = step_loops_nominal s"
  "endstops_trigsteps (emit e s) = endstops_trigsteps s"
  "endstop_hit_bits (emit e s) = endstop_hit_bits s"
  "old_endstop_bits (emit e s) = old_endstop_bits s"
  "check_endstops (emit e s) = check_endstops s"
  "count_position (emit e s) = count_position s"
  "count_direction (emit e s) = count_direction s"
  "pins (emit e s) = pins s"
  "TC_RC (emit e s) = TC_RC s"
  "queue (emit e s) = queue s"
  by (simp_all add: emit_def Let_def split_def)

lemma X_APPLY_DIR_frame [simp]:
  "current_block (X_APPLY_DIR cfg dup ae v always s) = current_block s"
  "out_bits (X_APPLY_DIR cfg dup ae v always s) = out_bits s"
  "cleaning_buffer_counter (X_APPLY_DIR cfg dup ae v always s) = cleaning_buffer_counter s"
  "performing_homing (X_APPLY_DIR cfg dup ae v always s) = performing_homing s"
  "locked_z_motor (X_APPLY_DIR cfg dup ae v always s) = locked_z_motor s"
  "locked_z2_motor (X_APPLY_DIR cfg dup ae v always s) = locked_z2_motor s"
  "counter (X_APPLY_DIR cfg dup ae v always s) = counter s"
  "step_events_completed (X_APPLY_DIR cfg dup ae v always s) = step_events_completed s"
  "advance_rate (X_APPLY_DIR cfg dup ae v always s) = advance_rate s"
  "advance (X_APPLY_DIR cfg dup ae v always s) = advance s"
  "final_advance (X_APPLY_DIR cfg dup ae v always s) = final_advance s"
  "old_advance (X_APPLY_DIR cfg dup ae v always s) = old_advance s"
  "e_steps (X_APPLY_DIR cfg dup ae v always s) = e_steps s"
  "acceleration_time (X_APPLY_DIR cfg dup ae v always s) = acceleration_time s"
  "deceleration_time (X_APPLY_DIR cfg dup ae v always s) = deceleration_time s"
  "acc_step_rate (X_APPLY_DIR cfg dup ae v always s) = acc_step_rate s"
  "step_loops (X_APPLY_DIR cfg dup ae v always s) = step_loops s"
  "OCR1A_nominal (X_APPLY_DIR cfg dup ae v always s) = OCR1A_nominal s"
  "step_loops_nominal (X_APPLY_DIR cfg dup ae v always s) = step_loops_nominal s"
  "endstops_trigsteps (X_APPLY_DIR cfg dup ae v always s) = endstops_trigsteps s"
  "endstop_hit_bits (X_APPLY_DIR cfg dup ae v always s) = endstop_hit_bits s"
  "old_endstop_bits (X_APPLY_DIR cfg dup ae v always s) = old_endstop_bits s"
  "check_endstops (X_APPLY_DIR cfg dup ae v always s) = check_endstops s"
  "count_position (X_APPLY_DIR cfg dup ae v always s) = count_position s"
  "count_direction (X_APPLY_DIR cfg dup ae v always s) = count_direction s"
  "TC_RC (X_APPLY_DIR cfg dup ae v always s) = TC_RC s"
  "queue (X_APPLY_DIR cfg dup ae v always s) = queue s"
  by (simp_all add: X_APPLY_DIR_def Let_def split_def)

lemma X_APPLY_STEP_frame [simp]:
  "current_block (X_APPLY_STEP cfg dup ae v always s) = current_block s"
  "out_bits (X_APPLY_STEP cfg dup ae v always s) = out_bits s"
  "cleaning_buffer_counter (X_APPLY_STEP cfg dup ae v always s) = cleaning_buffer_counter s"
  "performing_homing (X_APPLY_STEP cfg dup ae v always s) = performing_homing s"
  "locked_z_motor (X_APPLY_STEP cfg dup ae v always s) = locked_z_motor s"
  "locked_z2_motor (X_APPLY_STEP cfg dup ae v always s) = locked_z2_motor s"
  "counter (X_APPLY_STEP cfg dup ae v always s) = counter s"
  "step_events_completed (X_APPLY_STEP cfg dup ae v always s) = step_events_completed s"
  "advance_rate (X_APPLY_STEP cfg dup ae v always s) = advance_rate s"
  "advance (X_APPLY_STEP cfg dup ae v always s) = advance s"
  "final_advance (X_APPLY_STEP cfg dup ae v always s) = final_advance s"
  "old_advance (X_APPLY_STEP cfg dup ae v always s) = old_advance s"
  "e_steps (X_APPLY_STEP cfg dup ae v always s) = e_steps s"
  "acceleration_time (X_APPLY_STEP cfg dup ae v always s) = acceleration_time s"
  "deceleration_time (X_APPLY_STEP cfg dup ae v always s) = deceleration_time s"
  "acc_step_rate (X_APPLY_STEP cfg dup ae v always s) = acc_step_rate s"
  "step_loops (X_APPLY_STEP cfg dup ae v always s) = step_loops s"
  "OCR1A_nominal (X_APPLY_STEP cfg dup ae v always s) = OCR1A_nominal s"
  "step_loops_nominal (X_APPLY_STEP cfg dup ae v always s) = step_loops_nominal s"
  "endstops_trigsteps (X_APPLY_STEP cfg dup ae v always s) = endstops_trigsteps s"
  "endstop_hit_bits (X_APPLY_STEP cfg dup ae v always s) = endstop_hit_bits s"
  "old_endstop_bits (X_APPLY_STEP cfg dup ae v always s) = old_endstop_bits s"
  "check_endstops (X_APPLY_STEP cfg dup ae v always s) = check_endstops s"
  "count_position (X_APPLY_STEP cfg dup ae v always s) = count_position s"
  "count_direction (X_APPLY_STEP cfg dup ae v always s) = count_direction s"
  "TC_RC (X_APPLY_STEP cfg dup ae v always s) = TC_RC s"
  "queue (X_APPLY_STEP cfg dup ae v always s) = queue s"
  by (simp_all add: X_APPLY_STEP_def Let_def split_def)

lemma Y_APPLY_DIR_frame [simp]:
  "current_block (Y_APPLY_DIR cfg v s) = current_block s"
  "out_bits (Y_APPLY_DIR cfg v s) = out_bits s"
  "cleaning_buffer_counter (Y_APPLY_DIR cfg v s) = cleaning_buffer_counter s"
  "performing_homing (Y_APPLY_DIR cfg v s) = performing_homing s"
  "locked_z_motor (Y_APPLY_DIR cfg v s) = locked_z_motor s"
  "locked_z2_motor (Y_APPLY_DIR cfg v s) = locked_z2_motor s"
  "counter (Y_APPLY_DIR cfg v s) = counter s"
  "step_events_completed (Y_APPLY_DIR cfg v s) = step_events_completed s"
  "advance_rate (Y_APPLY_DIR cfg v s) = advance_rate s"
  "advance (Y_APPLY_DIR cfg v s) = advance s"
  "final_advance (Y_APPLY_DIR cfg v s) = final_advance s"
  "old_advance (Y_APPLY_DIR cfg v s) = old_advance s"
  "e_steps (Y_APPLY_DIR cfg v s) = e_steps s"
  "acceleration_time (Y_APPLY_DIR cfg v s) = acceleration_time s"
  "deceleration_time (Y_APPLY_DIR cfg v s) = deceleration_time s"
  "acc_step_rate (Y_APPLY_DIR cfg v s) = acc_step_rate s"
  "step_loops (Y_APPLY_DIR cfg v s) = step_loops s"
  "OCR1A_nominal (Y_APPLY_DIR cfg v s) = OCR1A_nominal s"
  "step_loops_nominal (Y_APPLY_DIR cfg v s) = step_loops_nominal s"
  "endstops_trigsteps (Y_APPLY_DIR cfg v s) = endstops_trigsteps s"
  "endstop_hit_bits (Y_APPLY_DIR cfg v s) = endstop_hit_bits s"
  "old_endstop_bits (Y_APPLY_DIR cfg v s) = old_endstop_bits s"
  "check_endstops (Y_APPLY_DIR cfg v s) = check_endstops s"
  "count_position (Y_APPLY_DIR cfg v s) = count_position s"
  "count_direction (Y_APPLY_DIR cfg v s) = count_direction s"
  "TC_RC (Y_APPLY_DIR cfg v s) = TC_RC s"
  "queue (Y_APPLY_DIR cfg v s) = queue s"
  by (simp_all add: Y_APPLY_DIR_def Let_def split_def)

lemma Y_APPLY_STEP_frame [simp]:
  "current_block (Y_APPLY_STEP cfg v s) = current_block s"
  "out_bits (Y_APPLY_STEP cfg v s) = out_bits s"
  "cleaning_buffer_counter (Y_APPLY_STEP cfg v s) = cleaning_buffer_counter s"
  "performing_homing (Y_APPLY_STEP cfg v s) = performing_homing s"
  "locked_z_motor (Y_APPLY_STEP cfg v s) = locked_z_motor s"
  "locked_z2_motor (Y_APPLY_STEP cfg v s) = locked_z2_motor s"
  "counter (Y_APPLY_STEP cfg v s) = counter s"
  "step_events_completed (Y_APPLY_STEP cfg v s) = step_events_completed s"
  "advance_rate (Y_APPLY_STEP cfg v s) = advance_rate s"
  "advance (Y_APPLY_STEP cfg v s) = advance s"
  "final_advance (Y_APPLY_STEP cfg v s) = final_advance s"
  "old_advance (Y_APPLY_STEP cfg v s) = old_advance s"
  "e_steps (Y_APPLY_STEP cfg v s) = e_steps s"
  "acceleration_time (Y_APPLY_STEP cfg v s) = acceleration_time s"
  "deceleration_time (Y_APPLY_STEP cfg v s) = deceleration_time s"
  "acc_step_rate (Y_APPLY_STEP cfg v s) = acc_step_rate s"
  "step_loops (Y_APPLY_STEP cfg v s) = step_loops s"
  "OCR1A_nominal (Y_APPLY_STEP cfg v s) = OCR1A_nominal s"
  "step_loops_nominal (Y_APPLY_STEP cfg v s) = step_loops_nominal s"
  "endstops_trigsteps (Y_APPLY_STEP cfg v s) = endstops_trigsteps s"
  "endstop_hit_bits (Y_APPLY_STEP cfg v s) = endstop_hit_bits s"
  "old_endstop_bits (Y_APPLY_STEP cfg v s) = old_endstop_bits s"
  "check_endstops (Y_APPLY_STEP cfg v s) = check_endstops s"
  "count_position (Y_APPLY_STEP cfg v s) = count_position s"
  "count_direction (Y_APPLY_STEP cfg v s) = count_direction s"
  "TC_RC (Y_APPLY_STEP cfg v s) = TC_RC s"
  "queue (Y_APPLY_STEP cfg v s) = queue s"
  by (simp_all add: Y_APPLY_STEP_def Let_def split_def)

lemma Z_APPLY_DIR_frame [simp]:
  "current_block (Z_APPLY_DIR cfg v s) = current_block s"
  "out_bits (Z_APPLY_DIR cfg v s) = out_bits s"
  "cleaning_buffer_counter (Z_APPLY_DIR cfg v s) = cleaning_buffer_counter s"
  "performing_homing (Z_APPLY_DIR cfg v s) = performing_homing s"
  "locked_z_motor (Z_APPLY_DIR cfg v s) = locked_z_motor s"
  "locked_z2_motor (Z_APPLY_DIR cfg v s) = locked_z2_motor s"
  "counter (Z_APPLY_DIR cfg v s) = counter s"
  "step_events_completed (Z_APPLY_DIR cfg v s) = step_events_completed s"
  "advance_rate (Z_APPLY_DIR cfg v s) = advance_rate s"
  "advance (Z_APPLY_DIR cfg v s) = advance s"
  "final_advance (Z_APPLY_DIR cfg v s) = final_advance s"
  "old_advance (Z_APPLY_DIR cfg v s) = old_advance s"
  "e_steps (Z_APPLY_DIR cfg v s) = e_steps s"
  "acceleration_time (Z_APPLY_DIR cfg v s) = acceleration_time s"
  "deceleration_time (Z_APPLY_DIR cfg v s) = deceleration_time s"
  "acc_step_rate (Z_APPLY_DIR cfg v s) = acc_step_rate s"
  "step_loops (Z_APPLY_DIR cfg v s) = step_loops s"
  "OCR1A_nominal (Z_APPLY_DIR cfg v s) = OCR1A_nominal s"
  "step_loops_nominal (Z_APPLY_DIR cfg v s) = step_loops_nominal s"
  "endstops_trigsteps (Z_APPLY_DIR cfg v s) = endstops_trigsteps s"
  "endstop_hit_bits (Z_APPLY_DIR cfg v s) = endstop_hit_bits s"
  "old_endstop_bits (Z_APPLY_DIR cfg v s) = old_endstop_bits s"
  "check_endstops (Z_APPLY_DIR cfg v s) = check_endstops s"
  "count_position (Z_APPLY_DIR cfg v s) = count_position s"
  "count_direction (Z_APPLY_DIR cfg v s) = count_direction s"
  "TC_RC (Z_APPLY_DIR cfg v s) = TC_RC s"
  "queue (Z_APPLY_DIR cfg v s) = queue s"
  by (simp_all add: Z_APPLY_DIR_def Let_def split_def)

lemma Z_APPLY_STEP_frame [simp]:
  "current_block (Z_APPLY_STEP cfg v s) = current_block s"
  "out_bits (Z_APPLY_STEP cfg v s) = out_bits s"
  "cleaning_buffer_counter (Z_APPLY_STEP cfg v s) = cleaning_buffer_counter s"
  "performing_homing (Z_APPLY_STEP cfg v s) = performing_homing s"
  "locked_z_motor (Z_APPLY_STEP cfg v s) = locked_z_motor s"
  "locked_z2_motor (Z_APPLY_STEP cfg v s) = locked_z2_motor s"
  "counter (Z_APPLY_STEP cfg v s) = counter s"
  "step_events_completed (Z_APPLY_STEP cfg v s) = step_events_completed s"
  "advance_rate (Z_APPLY_STEP cfg v s) = advance_rate s"
  "advance (Z_APPLY_STEP cfg v s) = advance s"
  "final_advance (Z_APPLY_STEP cfg v s) = final_advance s"
  "old_advance (Z_APPLY_STEP cfg v s) = old_advance s"
  "e_steps (Z_APPLY_STEP cfg v s) = e_steps s"
  "acceleration_time (Z_APPLY_STEP cfg v s) = acceleration_time s"
  "deceleration_time (Z_APPLY_STEP cfg v s) = deceleration_time s"
  "acc_step_rate (Z_APPLY_STEP cfg v s) = acc_step_rate s"
  "step_loops (Z_APPLY_STEP cfg v s) = step_loops s"
  "OCR1A_nominal (Z_APPLY_STEP cfg v s) = OCR1A_nominal s"
  "step_loops_nominal (Z_APPLY_STEP cfg v s) = step_loops_nominal s"
  "endstops_trigsteps (Z_APPLY_STEP cfg v s) = endstops_trigsteps s"
  "endstop_hit_bits (Z_APPLY_STEP cfg v s) = endstop_hit_bits s"
  "old_endstop_bits (Z_APPLY_STEP cfg v s) = old_endstop_bits s"
  "check_endstops (Z_APPLY_STEP cfg v s) = check_endstops s"
  "count_position (Z_APPLY_STEP cfg v s) = count_position s"
  "count_direction (Z_APPLY_STEP cfg v s) = count_direction s"
  "TC_RC (Z_APPLY_STEP cfg v s) = TC_RC s"
  "queue (Z_APPLY_STEP cfg v s) = queue s"
  by (simp_all add: Z_APPLY_STEP_def Let_def split_def)

lemma E_APPLY_STEP_frame [simp]:
  "current_block (E_APPLY_STEP v s) = current_block s"
  "out_bits (E_APPLY_STEP v s) = out_bits s"
  "cleaning_buffer_counter (E_APPLY_STEP v s) = cleaning_buffer_counter s"
  "performing_homing (E_APPLY_STEP v s) = performing_homing s"
  "locked_z_motor (E_APPLY_STEP v s) = locked_z_motor s"
  "locked_z2_motor (E_APPLY_STEP v s) = locked_z2_motor s"
  "counter (E_APPLY_STEP v s) = counter s"
  "step_events_completed (E_APPLY_STEP v s) = step_events_completed s"
  "advance_rate (E_APPLY_STEP v s) = advance_rate s"
  "advance (E_APPLY_STEP v s) = advance s"
  "final_advance (E_APPLY_STEP v s) = final_advance s"
  "old_advance (E_APPLY_STEP v s) = old_advance s"
  "e_steps (E_APPLY_STEP v s) = e_steps s"
  "acceleration_time (E_APPLY_STEP v s) = acceleration_time s"
  "deceleration_time (E_APPLY_STEP v s) = deceleration_time s"
  "acc_step_rate (E_APPLY_STEP v s) = acc_step_rate s"
  "step_loops (E_APPLY_STEP v s) = step_loops s"
  "OCR1A_nominal (E_APPLY_STEP v s) = OCR1A_nominal s"
  "step_loops_nominal (E_APPLY_STEP v s) = step_loops_nominal s"
  "endstops_trigsteps (E_APPLY_STEP v s) = endstops_trigsteps s"
  "endstop_hit_bits (E_APPLY_STEP v s) = endstop_hit_bits s"
  "old_endstop_bits (E_APPLY_STEP v s) = old_endstop_bits s"
  "check_endstops (E_APPLY_STEP v s) = check_endstops s"
  "count_position (E_APPLY_STEP v s) = count_position s"
  "count_direction (E_APPLY_STEP v s) = count_direction s"
  "TC_RC (E_APPLY_STEP v s) = TC_RC s"
  "queue (E_APPLY_STEP v s) = queue s"
  by (simp_all add: E_APPLY_STEP_def Let_def split_def)

lemma APPLY_STEP_frame [simp]:
  "current_block (APPLY_STEP cfg dup ae a v always s) = current_block s"
  "out_bits (APPLY_STEP cfg dup ae a v always s) = out_bits s"
  "cleaning_buffer_counter (APPLY_STEP cfg dup ae a v always s) = cleaning_buffer_counter s"
  "performing_homing (APPLY_STEP cfg dup ae a v always s) = performing_homing s"
  "locked_z_motor (APPLY_STEP cfg dup ae a v always s) = locked_z_motor s"
  "locked_z2_motor (APPLY_STEP cfg dup ae a v always s) = locked_z2_motor s"
  "counter (APPLY_STEP cfg dup ae a v always s) = counter s"
  "step_events_completed (APPLY_STEP cfg dup ae a v always s) = step_events_completed s"
  "advance_rate (APPLY_STEP cfg dup ae a v always s) = advance_rate s"
  "advance (APPLY_STEP cfg dup ae a v always s) = advance s"
  "final_advance (APPLY_STEP cfg dup ae a v always s) = final_advance s"
  "old_advance (APPLY_STEP cfg dup ae a v always s) = old_advance s"
  "e_steps (APPLY_STEP cfg dup ae a v always s) = e_steps s"
  "acceleration_time (APPLY_STEP cfg dup ae a v always s) = acceleration_time s"
  "deceleration_time (APPLY_STEP cfg dup ae a v always s) = deceleration_time s"
  "acc_step_rate (APPLY_STEP cfg dup ae a v always s) = acc_step_rate s"
  "step_loops (APPLY_STEP cfg dup ae a v always s) = step_loops s"
  "OCR1A_nominal (APPLY_STEP cfg dup ae a v always s) = OCR1A_nominal s"
  "step_loops_nominal (APPLY_STEP cfg dup ae a v always s) = step_loops_nominal s"
  "endstops_trigsteps (APPLY_STEP cfg dup ae a v always s) = endstops_trigsteps s"
  "endstop_hit_bits (APPLY_STEP cfg dup ae a v always s) = endstop_hit_bits s"
  "old_endstop_bits (APPLY_STEP cfg dup ae a v always s) = old_endstop_bits s"
  "check_endstops (APPLY_STEP cfg dup ae a v always s) = check_endstops s"
  "count_position (APPLY_STEP cfg dup ae a v always s) = count_position s"
  "count_direction (APPLY_STEP cfg dup ae a v always s) = count_direction s"
  "TC_RC (APPLY_STEP cfg dup ae a v always s) = TC_RC s"
  "queue (APPLY_STEP cfg dup ae a v always s) = queue s"
  by (cases a; simp)+

lemma APPLY_DIR_frame [simp]:
  "current_block (APPLY_DIR cfg dup ae a v always s) = current_block s"
  "out_bits (APPLY_DIR cfg dup ae a v always s) = out_bits s"
  "cleaning_buffer_counter (APPLY_DIR cfg dup ae a v always s) = cleaning_buffer_counter s"
  "performing_homing (APPLY_DIR cfg dup ae a v always s) = performing_homing s"
  "locked_z_motor (APPLY_DIR cfg dup ae a v always s) = locked_z_motor s"
  "locked_z2_motor (APPLY_DIR cfg dup ae a v always s) = locked_z2_motor s"
  "counter (APPLY_DIR cfg dup ae a v always s) = counter s"
  "step_events_completed (APPLY_DIR cfg dup ae a v always s) = step_events_completed s"
  "advance_rate (APPLY_DIR cfg dup ae a v always s) = advance_rate s"
  "advance (APPLY_DIR cfg dup ae a v always s) = advance s"
  "final_advance (APPLY_DIR cfg dup ae a v always s) = final_advance s"
  "old_advance (APPLY_DIR cfg dup ae a v always s) = old_advance s"
  "e_steps (APPLY_DIR cfg dup ae a v always s) = e_steps s"
  "acceleration_time (APPLY_DIR cfg dup ae a v always s) = acceleration_time s"
  "deceleration_time (APPLY_DIR cfg dup ae a v always s) = deceleration_time s"
  "acc_step_rate (APPLY_DIR cfg dup ae a v always s) = acc_step_rate s"
  "step_loops (APPLY_DIR cfg dup ae a v always s) = step_loops s"
  "OCR1A_nominal (APPLY_DIR cfg dup ae a v always s) = OCR1A_nominal s"
  "step_loops_nominal (APPLY_DIR cfg dup ae a v always s) = step_loops_nominal s"
  "endstops_trigsteps (APPLY_DIR cfg dup ae a v always s) = endstops_trigsteps s"
  "endstop_hit_bits (APPLY_DIR cfg dup ae a v always s) = endstop_hit_bits s"
  "old_endstop_bits (APPLY_DIR cfg dup ae a v always s) = old_endstop_bits s"
  "check_endstops (APPLY_DIR cfg dup ae a v always s) = check_endstops s"
  "count_position (APPLY_DIR cfg dup ae a v always s) = count_position s"
  "count_direction (APPLY_DIR cfg dup ae a v always s) = count_direction s"
  "TC_RC (APPLY_DIR cfg dup ae a v always s) = TC_RC s"
  "queue (APPLY_DIR cfg dup ae a v always s) = queue s"
  by (cases a; simp)+

lemma NORM_E_DIR_frame [simp]:
  "current_block (NORM_E_DIR cfg s) = current_block s"
  "out_bits (NORM_E_DIR cfg s) = out_bits s"
  "cleaning_buffer_counter (NORM_E_DIR cfg s) = cleaning_buffer_counter s"
  "performing_homing (NORM_E_DIR cfg s) = performing_homing s"
  "locked_z_motor (NORM_E_DIR cfg s) = locked_z_motor s"
  "locked_z2_motor (NORM_E_DIR cfg s) = locked_z2_motor s"
  "counter (NORM_E_DIR cfg s) = counter s"
  "step_events_completed (NORM_E_DIR cfg s) = step_events_completed s"
  "advance_rate (NORM_E_DIR cfg s) = advance_rate s"
  "advance (NORM_E_DIR cfg s) = advance s"
  "final_advance (NORM_E_DIR cfg s) = final_advance s"
  "old_advance (NORM_E_DIR cfg s) = old_advance s"
  "e_steps (NORM_E_DIR cfg s) = e_steps s"
  "acceleration_time (NORM_E_DIR cfg s) = acceleration_time s"
  "deceleration_time (NORM_E_DIR cfg s) = deceleration_time s"
  "acc_step_rate (NORM_E_DIR cfg s) = acc_step_rate s"
  "step_loops (NORM_E_DIR cfg s) = step_loops s"
  "OCR1A_nominal (NORM_E_DIR cfg s) = OCR1A_nominal s"
  "step_loops_nominal (NORM_E_DIR cfg s) = step_loops_nominal s"
  "endstops_trigsteps (NORM_E_DIR cfg s) = endstops_trigsteps s"
  "endstop_hit_bits (NORM_E_DIR cfg s) = endstop_hit_bits s"
  "old_endstop_bits (NORM_E_DIR cfg s) = old_endstop_bits s"
  "check_endstops (NORM_E_DIR cfg s) = check_endstops s"
  "count_position (NORM_E_DIR cfg s) = count_position s"
  "count_direction (NORM_E_DIR cfg s) = count_direction s"
  "TC_RC (NORM_E_DIR cfg s) = TC_RC s"
  "queue (NORM_E_DIR cfg s) = queue s"
  by (simp_all add: NORM_E_DIR_def Let_def split_def)

lemma REV_E_DIR_frame [simp]:
  "current_block (REV_E_DIR cfg s) = current_block s"
  "out_bits (REV_E_DIR cfg s) = out_bits s"
  "cleaning_buffer_counter (REV_E_DIR cfg s) = cleaning_buffer_counter s"
  "performing_homing (REV_E_DIR cfg s) = performing_homing s"
  "locked_z_motor (REV_E_DIR cfg s) = locked_z_motor s"
  "locked_z2_motor (REV_E_DIR cfg s) = locked_z2_motor s"
  "counter (REV_E_DIR cfg s) = counter s"
  "step_events_completed (REV_E_DIR cfg s) = step_events_completed s"
  "advance_rate (REV_E_DIR cfg s) = advance_rate s"
  "advance (REV_E_DIR cfg s) = advance s"
  "final_advance (REV_E_DIR cfg s) = final_advance s"
  "old_advance (REV_E_DIR cfg s) = old_advance s"
  "e_steps (REV_E_DIR cfg s) = e_steps s"
  "acceleration_time (REV_E_DIR cfg s) = acceleration_time s"
  "deceleration_time (REV_E_DIR cfg s) = deceleration_time s"
  "acc_step_rate (REV_E_DIR cfg s) = acc_step_rate s"
  "step_loops (REV_E_DIR cfg s) = step_loops s"
  "OCR1A_nominal (REV_E_DIR cfg s) = OCR1A_nominal s"
  "step_loops_nominal (REV_E_DIR cfg s) = step_loops_nominal s"
  "endstops_trigsteps (REV_E_DIR cfg s) = endstops_trigsteps s"
  "endstop_hit_bits (REV_E_DIR cfg s) = endstop_hit_bits s"
  "old_endstop_bits (REV_E_DIR cfg s) = old_endstop_bits s"
  "check_endstops (REV_E_DIR cfg s) = check_endstops s"
  "count_position (REV_E_DIR cfg s) = count_position s"
  "count_direction (REV_E_DIR cfg s) = count_direction s"
  "TC_RC (REV_E_DIR cfg s) = TC_RC s"
  "queue (REV_E_DIR cfg s) = queue s"
  by (simp_all add: REV_E_DIR_def Let_def split_def)

lemma set_count_direction_frame [simp]:
  "current_block (set_count_direction a d s) = current_block s"
  "out_bits (set_count_direction a d s) = out_bits s"
  "cleaning_buffer_counter (set_count_direction a d s) = cleaning_buffer_counter s"
  "performing_homing (set_count_direction a d s) = performing_homing s"
  "locked_z_motor (set_count_direction a d s) = locked_z_motor s"
  "locked_z2_motor (set_count_direction a d s) = locked_z2_motor s"
  "counter (set_count_direction a d s) = counter s"
  "step_events_completed (set_count_direction a d s) = step_events_completed s"
  "advance_rate (set_count_direction a d s) = advance_rate s"
  "advance (set_count_direction a d s) = advance s"
  "final_advance (set_count_direction a d s) = final_advance s"
  "old_advance (set_count_direction a d s) = old_advance s"
  "e_steps (set_count_direction a d s) = e_steps s"
  "acceleration_time (set_count_direction a d s) = acceleration_time s"
  "deceleration_time (set_count_direction a d s) = deceleration_time s"
  "acc_step_rate (set_count_direction a d s) = acc_step_rate s"
  "step_loops (set_count_direction a d s) = step_loops s"
  "OCR1A_nominal (set_count_direction a d s) = OCR1A_nominal s"
  "step_loops_nominal (set_count_direction a d s) = step_loops_nominal s"
  "endstops_trigsteps (set_count_direction a d s) = endstops_trigsteps s"
  "endstop_hit_bits (set_count_direction a d s) = endstop_hit_bits s"
  "old_endstop_bits (set_count_direction a d s) = old_endstop_bits s"
  "check_endstops (set_count_direction a d s) = check_endstops s"
  "count_position (set_count_direction a d s) = count_position s"
  "pins (set_count_direction a d s) = pins s"
  "trace (set_count_direction a d s) = trace s"
  "TC_RC (set_count_direction a d s) = TC_RC s"
  "queue (set_count_direction a d s) = queue s"
  by (simp_all add: set_count_direction_def Let_def split_def)

lemma set_stepper_direction_frame [simp]:
  "current_block (set_stepper_direction cfg dup ae s) = current_block s"
  "out_bits (set_stepper_direction cfg dup ae s) = out_bits s"
  "cleaning_buffer_counter (set_stepper_direction cfg dup ae s) = cleaning_buffer_counter s"
  "performing_homing (set_stepper_direction cfg dup ae s) = performing_homing s"
  "locked_z_motor (set_stepper_direction cfg dup ae s) = locked_z_motor s"
  "locked_z2_motor (set_stepper_direction cfg dup ae s) = locked_z2_motor s"
  "counter (set_stepper_direction cfg dup ae s) = counter s"
  "step_events_completed (set_stepper_direction cfg dup ae s) = step_events_completed s"
  "advance_rate (set_stepper_direction cfg dup ae s) = advance_rate s"
  "advance (set_stepper_direction cfg dup ae s) = advance s"
  "final_advance (set_stepper_direction cfg dup ae s) = final_advance s"
  "old_advance (set_stepper_direction cfg dup ae s) = old_advance s"
  "e_steps (set_stepper_direction cfg dup ae s) = e_steps s"
  "acceleration_time (set_stepper_direction cfg dup ae s) = acceleration_time s"
  "deceleration_time (set_stepper_direction cfg dup ae s) = deceleration_time s"
  "acc_step_rate (set_stepper_direction cfg dup ae s) = acc_step_rate s"
  "step_loops (set_stepper_direction cfg dup ae s) = step_loops s"
  "OCR1A_nominal (set_stepper_direction cfg dup ae s) = OCR1A_nominal s"
  "step_loops_nominal (set_stepper_direction cfg dup ae s) = step_loops_nominal s"
  "endstops_trigsteps (set_stepper_direction cfg dup ae s) = endstops_trigsteps s"
  "endstop_hit_bits (set_stepper_direction cfg dup ae s) = endstop_hit_bits s"
  "old_endstop_bits (set_stepper_direction cfg dup ae s) = old_endstop_bits s"
  "check_endstops (set_stepper_direction cfg dup ae s) = check_endstops s"
  "count_position (set_stepper_direction cfg dup ae s) = count_position s"
  "TC_RC (set_stepper_direction cfg dup ae s) = TC_RC s"
  "queue (set_stepper_direction cfg dup ae s) = queue s"
  by (simp_all add: set_stepper_direction_def Let_def split_def)

lemma calc_timer_frame [simp]:
  "current_block (snd (calc_timer cfg r s)) = current_block s"
  "out_bits (snd (calc_timer cfg r s)) = out_bits s"
  "cleaning_buffer_counter (snd (calc_timer cfg r s)) = cleaning_buffer_counter s"
  "performing_homing (snd (calc_timer cfg r s)) = performing_homing s"
  "locked_z_motor (snd (calc_timer cfg r s)) = locked_z_motor s"
  "locked_z2_motor (snd (calc_timer cfg r s)) = locked_z2_motor s"
  "counter (snd (calc_timer cfg r s)) = counter s"
  "step_events_completed (snd (calc_timer cfg r s)) = step_events_completed s"
  "advance_rate (snd (calc_timer cfg r s)) = advance_rate s"
  "advance (snd (calc_timer cfg r s)) = advance s"
  "final_advance (snd (calc_timer cfg r s)) = final_advance s"
  "old_advance (snd (calc_timer cfg r s)) = old_advance s"
  "e_steps (snd (calc_timer cfg r s)) = e_steps s"
  "acceleration_time (snd (calc_timer cfg r s)) = acceleration_time s"
  "deceleration_time (snd (calc_timer cfg r s)) = deceleration_time s"
  "acc_step_rate (snd (calc_timer cfg r s)) = acc_step_rate s"
  "OCR1A_nominal (snd (calc_timer cfg r s)) = OCR1A_nominal s"
  "step_loops_nominal (snd (calc_timer cfg r s)) = step_loops_nominal s"
  "endstops_trigsteps (snd (calc_timer cfg r s)) = endstops_trigsteps s"
  "endstop_hit_bits (snd (calc_timer cfg r s)) = endstop_hit_bits s"
  "old_endstop_bits (snd (calc_timer cfg r s)) = old_endstop_bits s"
  "check_endstops (snd (calc_timer cfg r s)) = check_endstops s"
  "count_position (snd (calc_timer cfg r s)) = count_position s"
  "count_direction (snd (calc_timer cfg r s)) = count_direction s"
  "pins (snd (calc_timer cfg r s)) = pins s"
  "trace (snd (calc_timer cfg r s)) = trace s"
  "TC_RC (snd (calc_timer cfg r s)) = TC_RC s"
  "queue (snd (calc_timer cfg r s)) = queue s"
  by (simp_all add: calc_timer_def Let_def split_def)

lemma advance_e_steps_frame [simp]:
  "current_block (advance_e_steps ae s) = current_block s"
  "out_bits (advance_e_steps ae s) = out_bits s"
  "cleaning_buffer_counter (advance_e_steps ae s) = cleaning_buffer_counter s"
  "performing_homing (advance_e_steps ae s) = performing_homing s"
  "locked_z_motor (advance_e_steps ae s) = locked_z_motor s"
  "locked_z2_motor (advance_e_steps ae s) = locked_z2_motor s"
  "counter (advance_e_steps ae s) = counter s"
  "step_events_completed (advance_e_steps ae s) = step_events_completed s"
  "advance_rate (advance_e_steps ae s) = advance_rate s"
  "advance (advance_e_steps ae s) = advance s"
  "final_advance (advance_e_steps ae s) = final_advance s"
  "acceleration_time (advance_e_steps ae s) = acceleration_time s"
  "deceleration_time (advance_e_steps ae s) = deceleration_time s"
  "acc_step_rate (advance_e_steps ae s) = acc_step_rate s"
  "step_loops (advance_e_steps ae s) = step_loops s"
  "OCR1A_nominal (advance_e_steps ae s) = OCR1A_nominal s"
  "step_loops_nominal (advance_e_steps ae s) = step_loops_nominal s"
  "endstops_trigsteps (advance_e_steps ae s) = endstops_trigsteps s"
  "endstop_hit_bits (advance_e_steps ae s) = endstop_hit_bits s"
  "old_endstop_bits (advance_e_steps ae s) = old_endstop_bits s"
  "check_endstops (advance_e_steps ae s) = check_endstops s"
  "count_position (advance_e_steps ae s) = count_position s"
  "count_direction (advance_e_steps ae s) = count_direction s"
  "pins (advance_e_steps ae s) = pins s"
  "trace (advance_e_steps ae s) = trace s"
  "TC_RC (advance_e_steps ae s) = TC_RC s"
  "queue (advance_e_steps ae s) = queue s"
  by (simp_all add: advance_e_steps_def Let_def split_def)

lemma trapezoid_generator_reset_frame [simp]:
  "current_block (trapezoid_generator_reset cfg dup b s) = current_block s"
  "cleaning_buffer_counter (trapezoid_generator_reset cfg dup b s) = cleaning_buffer_counter s"
  "performing_homing (trapezoid_generator_reset cfg dup b s) = performing_homing s"
  "locked_z_motor (trapezoid_generator_reset cfg dup b s) = locked_z_motor s"
  "locked_z2_motor (trapezoid_generator_reset cfg dup b s) = locked_z2_motor s"
  "counter (trapezoid_generator_reset cfg dup b s) = counter s"
  "step_events_completed (trapezoid_generator_reset cfg dup b s) = step_events_completed s"
  "advance_rate (trapezoid_generator_reset cfg dup b s) = advance_rate s"
  "endstops_trigsteps (trapezoid_generator_reset cfg dup b s) = endstops_trigsteps s"
  "endstop_hit_bits (trapezoid_generator_reset cfg dup b s) = endstop_hit_bits s"
  "old_endstop_bits (trapezoid_generator_reset cfg dup b s) = old_endstop_bits s"
  "check_endstops (trapezoid_generator_reset cfg dup b s) = check_endstops s"
  "count_position (trapezoid_generator_reset cfg dup b s) = count_position s"
  "TC_RC (trapezoid_generator_reset cfg dup b s) = TC_RC s"
  "queue (trapezoid_generator_reset cfg dup b s) = queue s"
  by (simp_all add: trapezoid_generator_reset_def Let_def split_def)

lemma trapezoid_step_frame [simp]:
  "current_block (snd (trapezoid_step cfg b s)) = current_block s"
  "out_bits (snd (trapezoid_step cfg b s)) = out_bits s"
  "cleaning_buffer_counter (snd (trapezoid_step cfg b s)) = cleaning_buffer_counter s"
  "performing_homing (snd (trapezoid_step cfg b s)) = performing_homing s"
  "locked_z_motor (snd (trapezoid_step cfg b s)) = locked_z_motor s"
  "locked_z2_motor (snd (trapezoid_step cfg b s)) = locked_z2_motor s"
  "counter (snd (trapezoid_step cfg b s)) = counter s"
  "step_events_completed (snd (trapezoid_step cfg b s)) = step_events_completed s"
  "advance_rate (snd (trapezoid_step cfg b s)) = advance_rate s"
  "final_advance (snd (trapezoid_step cfg b s)) = final_advance s"
  "OCR1A_nominal (snd (trapezoid_step cfg b s)) = OCR1A_nominal s"
  "step_loops_nominal (snd (trapezoid_step cfg b s)) = step_loops_nominal s"
  "endstops_trigsteps (snd (trapezoid_step cfg b s)) = endstops_trigsteps s"
  "endstop_hit_bits (snd (trapezoid_step cfg b s)) = endstop_hit_bits s"
  "old_endstop_bits (snd (trapezoid_step cfg b s)) = old_endstop_bits s"
  "check_endstops (snd (trapezoid_step cfg b s)) = check_endstops s"
  "count_position (snd (trapezoid_step cfg b s)) = count_position s"
  "count_direction (snd (trapezoid_step cfg b s)) = count_direction s"
  "pins (snd (trapezoid_step cfg b s)) = pins s"
  "trace (snd (trapezoid_step cfg b s)) = trace s"
  "TC_RC (snd (trapezoid_step cfg b s)) = TC_RC s"
  "queue (snd (trapezoid_step cfg b s)) = queue s"
  by (simp_all add: trapezoid_step_def Let_def split_def)

lemma endstop_hit_frame [simp]:
  "current_block (endstop_hit a e s) = current_block s"
  "out_bits (endstop_hit a e s) = out_bits s"
  "cleaning_buffer_counter (endstop_hit a e s) = cleaning_buffer_counter s"
  "performing_homing (endstop_hit a e s) = performing_homing s"
  "locked_z_motor (endstop_hit a e s) = locked_z_motor s"
  "locked_z2_motor (endstop_hit a e s) = locked_z2_motor s"
  "counter (endstop_hit a e s) = counter s"
  "step_events_completed (endstop_hit a e s) = step_events_completed s"
  "advance_rate (endstop_hit a e s) = advance_rate s"
  "advance (endstop_hit a e s) = advance s"
  "final_advance (endstop_hit a e s) = final_advance s"
  "old_advance (endstop_hit a e s) = old_advance s"
  "e_steps (endstop_hit a e s) = e_steps s"
  "acceleration_time (endstop_hit a e s) = acceleration_time s"
  "deceleration_time (endstop_hit a e s) = deceleration_time s"
  "acc_step_rate (endstop_hit a e s) = acc_step_rate s"
  "step_loops (endstop_hit a e s) = step_loops s"
  "OCR1A_nominal (endstop_hit a e s) = OCR1A_nominal s"
  "step_loops_nominal (endstop_hit a e s) = step_loops_nominal s"
  "old_endstop_bits (endstop_hit a e s) = old_endstop_bits s"
  "check_endstops (endstop_hit a e s) = check_endstops s"
  "count_position (endstop_hit a e s) = count_position s"
  "count_direction (endstop_hit a e s) = count_direction s"
  "pins (endstop_hit a e s) = pins s"
  "trace (endstop_hit a e s) = trace s"
  "TC_RC (endstop_hit a e s) = TC_RC s"
  "queue (endstop_hit a e s) = queue s"
  by (simp_all add: endstop_hit_def Let_def split_def)

lemma UPDATE_ENDSTOP_frame [simp]:
  "current_block (snd (UPDATE_ENDSTOP cfg inp b a m cs)) = current_block (snd cs)"
  "out_bits (snd (UPDATE_ENDSTOP cfg inp b a m cs)) = out_bits (snd cs)"
  "cleaning_buffer_counter (snd (UPDATE_ENDSTOP cfg inp b a m cs)) = cleaning_buffer_counter (snd cs)"
  "performing_homing (snd (UPDATE_ENDSTOP cfg inp b a m cs)) = performing_homing (snd cs)"
  "locked_z_motor (snd (UPDATE_ENDSTOP cfg inp b a m cs)) = locked_z_motor (snd cs)"
  "locked_z2_motor (snd (UPDATE_ENDSTOP cfg inp b a m cs)) = locked_z2_motor (snd cs)"
  "counter (snd (UPDATE_ENDSTOP cfg inp b a m cs)) = counter (snd cs)"
  "advance_rate (snd (UPDATE_ENDSTOP cfg inp b a m cs)) = advance_rate (snd cs)"
  "advance (snd (UPDATE_ENDSTOP cfg inp b a m cs)) = advance (snd cs)"
  "final_advance (snd (UPDATE_ENDSTOP cfg inp b a m cs)) = final_advance (snd cs)"
  "old_advance (snd (UPDATE_ENDSTOP cfg inp b a m cs)) = old_advance (snd cs)"
  "e_steps (snd (UPDATE_ENDSTOP cfg inp b a m cs)) = e_steps (snd cs)"
  "acceleration_time (snd (UPDATE_ENDSTOP cfg inp b a m cs)) = acceleration_time (snd cs)"
  "deceleration_time (snd (UPDATE_ENDSTOP cfg inp b a m cs)) = deceleration_time (snd cs)"
  "acc_step_rate (snd (UPDATE_ENDSTOP cfg inp b a m cs)) = acc_step_rate (snd cs)"
  "step_loops (snd (UPDATE_ENDSTOP cfg inp b a m cs)) = step_loops (snd cs)"
  "OCR1A_nominal (snd (UPDATE_ENDSTOP cfg inp b a m cs)) = OCR1A_nominal (snd cs)"
  "step_loops_nominal (snd (UPDATE_ENDSTOP cfg inp b a m cs)) = step_loops_nominal (snd cs)"
  "old_endstop_bits (snd (UPDATE_ENDSTOP cfg inp b a m cs)) = old_endstop_bits (snd cs)"
  "check_endstops (snd (UPDATE_ENDSTOP cfg inp b a m cs)) = check_endstops (snd cs)"
  "count_position (snd (UPDATE_ENDSTOP cfg inp b a m cs)) = count_position (snd cs)"
  "count_direction (snd (UPDATE_ENDSTOP cfg inp b a m cs)) = count_direction (snd cs)"
  "pins (snd (UPDATE_ENDSTOP cfg inp b a m cs)) = pins (snd cs)"
  "trace (snd (UPDATE_ENDSTOP cfg inp b a m cs)) = trace (snd cs)"
  "TC_RC (snd (UPDATE_ENDSTOP cfg inp b a m cs)) = TC_RC (snd cs)"
  "queue (snd (UPDATE_ENDSTOP cfg inp b a m cs)) = queue (snd cs)"
  by (simp_all add: UPDATE_ENDSTOP_def Let_def split_def)

lemma dual_z_endstops_frame [simp]:
  "current_block (snd (dual_z_endstops cfg inp b z z2 cs)) = current_block (snd cs)"
  "out_bits (snd (dual_z_endstops cfg inp b z z2 cs)) = out_bits (snd cs)"
  "cleaning_buffer_counter (snd (dual_z_endstops cfg inp b z z2 cs)) = cleaning_buffer_counter (snd cs)"
  "performing_homing (snd (dual_z_endstops cfg inp b z z2 cs)) = performing_homing (snd cs)"
  "locked_z_motor (snd (dual_z_endstops cfg inp b z z2 cs)) = locked_z_motor (snd cs)"
  "locked_z2_motor (snd (dual_z_endstops cfg inp b z z2 cs)) = locked_z2_motor (snd cs)"
  "counter (snd (dual_z_endstops cfg inp b z z2 cs)) = counter (snd cs)"
  "advance_rate (snd (dual_z_endstops cfg inp b z z2 cs)) = advance_rate (snd cs)"
  "advance (snd (dual_z_endstops cfg inp b z z2 cs)) = advance (snd cs)"
  "final_advance (snd (dual_z_endstops cfg inp b z z2 cs)) = final_advance (snd cs)"
  "old_advance (snd (dual_z_endstops cfg inp b z z2 cs)) = old_advance (snd cs)"
  "e_steps (snd (dual_z_endstops cfg inp b z z2 cs)) = e_steps (snd cs)"
  "acceleration_time (snd (dual_z_endstops cfg inp b z z2 cs)) = acceleration_time (snd cs)"
  "deceleration_time (snd (dual_z_endstops cfg inp b z z2 cs)) = deceleration_time (snd cs)"
  "acc_step_rate (snd (dual_z_endstops cfg inp b z z2 cs)) = acc_step_rate (snd cs)"
  "step_loops (snd (dual_z_endstops cfg inp b z z2 cs)) = step_loops (snd cs)"
  "OCR1A_nominal (snd (dual_z_endstops cfg inp b z z2 cs)) = OCR1A_nominal (snd cs)"
  "step_loops_nominal (snd (dual_z_endstops cfg inp b z z2 cs)) = step_loops_nominal (snd cs)"
  "old_endstop_bits (snd (dual_z_endstops cfg inp b z z2 cs)) = old_endstop_bits (snd cs)"
  "check_endstops (snd (dual_z_endstops cfg inp b z z2 cs)) = check_endstops (snd cs)"
  "count_position (snd (dual_z_endstops cfg inp b z z2 cs)) = count_position (snd cs)"
  "count_direction (snd (dual_z_endstops cfg inp b z z2 cs)) = count_direction (snd cs)"
  "pins (snd (dual_z_endstops cfg inp b z z2 cs)) = pins (snd cs)"
  "trace (snd (dual_z_endstops cfg inp b z z2 cs)) = trace (snd cs)"
  "TC_RC (snd (dual_z_endstops cfg inp b z z2 cs)) = TC_RC (snd cs)"
  "queue (snd (dual_z_endstops cfg inp b z z2 cs)) = queue (snd cs)"
  by (simp_all add: dual_z_endstops_def Let_def split_def)

lemma z_probe_endstop_frame [simp]:
  "current_block (snd (z_probe_endstop cfg inp b cs)) = current_block (snd cs)"
  "out_bits (snd (z_probe_endstop cfg inp b cs)) = out_bits (snd cs)"
  "cleaning_buffer_counter (snd (z_probe_endstop cfg inp b cs)) = cleaning_buffer_counter (snd cs)"
  "performing_homing (snd (z_probe_endstop cfg inp b cs)) = performing_homing (snd cs)"
  "locked_z_motor (snd (z_probe_endstop cfg inp b cs)) = locked_z_motor (snd cs)"
  "locked_z2_motor (snd (z_probe_endstop cfg inp b cs)) = locked_z2_motor (snd cs)"
  "counter (snd (z_probe_endstop cfg inp b cs)) = counter (snd cs)"
  "advance_rate (snd (z_probe_endstop cfg inp b cs)) = advance_rate (snd cs)"
  "advance (snd (z_probe_endstop cfg inp b cs)) = advance (snd cs)"
  "final_advance (snd (z_probe_endstop cfg inp b cs)) = final_advance (snd cs)"
  "old_advance (snd (z_probe_endstop cfg inp b cs)) = old_advance (snd cs)"
  "e_steps (snd (z_probe_endstop cfg inp b cs)) = e_steps (snd cs)"
  "acceleration_time (snd (z_probe_endstop cfg inp b cs)) = acceleration_time (snd cs)"
  "deceleration_time (snd (z_probe_endstop cfg inp b cs)) = deceleration_time (snd cs)"
  "acc_step_rate (snd (z_probe_endstop cfg inp b cs)) = acc_step_rate (snd cs)"
  "step_loops (snd (z_probe_endstop cfg inp b cs)) = step_loops (snd cs)"
  "OCR1A_nominal (snd (z_probe_endstop cfg inp b cs)) = OCR1A_nominal (snd cs)"
  "step_loops_nominal (snd (z_probe_endstop cfg inp b cs)) = step_loops_nominal (snd cs)"
  "old_endstop_bits (snd (z_probe_endstop cfg inp b cs)) = old_endstop_bits (snd cs)"
  "check_endstops (snd (z_probe_endstop cfg inp b cs)) = check_endstops (snd cs)"
  "count_position (snd (z_probe_endstop cfg inp b cs)) = count_position (snd cs)"
  "count_direction (snd (z_probe_endstop cfg inp b cs)) = count_direction (snd cs)"
  "pins (snd (z_probe_endstop cfg inp b cs)) = pins (snd cs)"
  "trace (snd (z_probe_endstop cfg inp b cs)) = trace (snd cs)"
  "TC_RC (snd (z_probe_endstop cfg inp b cs)) = TC_RC (snd cs)"
  "queue (snd (z_probe_endstop cfg inp b cs)) = queue (snd cs)"
  by (simp_all add: z_probe_endstop_def Let_def split_def)

lemma x_endstops_frame [simp]:
  "current_block (snd (x_endstops cfg inp b cs)) = current_block (snd cs)"
  "out_bits (snd (x_endstops cfg inp b cs)) = out_bits (snd cs)"
  "cleaning_buffer_counter (snd (x_endstops cfg inp b cs)) = cleaning_buffer_counter (snd cs)"
  "performing_homing (snd (x_endstops cfg inp b cs)) = performing_homing (snd cs)"
  "locked_z_motor (snd (x_endstops cfg inp b cs)) = locked_z_motor (snd cs)"
  "locked_z2_motor (snd (x_endstops cfg inp b cs)) = locked_z2_motor (snd cs)"
  "counter (snd (x_endstops cfg inp b cs)) = counter (snd cs)"
  "advance_rate (snd (x_endstops cfg inp b cs)) = advance_rate (snd cs)"
  "advance (snd (x_endstops cfg inp b cs)) = advance (snd cs)"
  "final_advance (snd (x_endstops cfg inp b cs)) = final_advance (snd cs)"
  "old_advance (snd (x_endstops cfg inp b cs)) = old_advance (snd cs)"
  "e_steps (snd (x_endstops cfg inp b cs)) = e_steps (snd cs)"
  "acceleration_time (snd (x_endstops cfg inp b cs)) = acceleration_time (snd cs)"
  "deceleration_time (snd (x_endstops cfg inp b cs)) = deceleration_time (snd cs)"
  "acc_step_rate (snd (x_endstops cfg inp b cs)) = acc_step_rate (snd cs)"
  "step_loops (snd (x_endstops cfg inp b cs)) = step_loops (snd cs)"
  "OCR1A_nominal (snd (x_endstops cfg inp b cs)) = OCR1A_nominal (snd cs)"
  "step_loops_nominal (snd (x_endstops cfg inp b cs)) = step_loops_nominal (snd cs)"
  "old_endstop_bits (snd (x_endstops cfg inp b cs)) = old_endstop_bits (snd cs)"
  "check_endstops (snd (x_endstops cfg inp b cs)) = check_endstops (snd cs)"
  "count_position (snd (x_endstops cfg inp b cs)) = count_position (snd cs)"
  "count_direction (snd (x_endstops cfg inp b cs)) = count_direction (snd cs)"
  "pins (snd (x_endstops cfg inp b cs)) = pins (snd cs)"
  "trace (snd (x_endstops cfg inp b cs)) = trace (snd cs)"
  "TC_RC (snd (x_endstops cfg inp b cs)) = TC_RC (snd cs)"
  "queue (snd (x_endstops cfg inp b cs)) = queue (snd cs)"
  by (simp_all add: x_endstops_def Let_def split_def)

lemma y_endstops_frame [simp]:
  "current_block (snd (y_endstops cfg inp b cs)) = current_block (snd cs)"
  "out_bits (snd (y_endstops cfg inp b cs)) = out_bits (snd cs)"
  "cleaning_buffer_counter (snd (y_endstops cfg inp b cs)) = cleaning_buffer_counter (snd cs)"
  "performing_homing (snd (y_endstops cfg inp b cs)) = performing_homing (snd cs)"
  "locked_z_motor (snd (y_endstops cfg inp b cs)) = locked_z_motor (snd cs)"
  "locked_z2_motor (snd (y_endstops cfg inp b cs)) = locked_z2_motor (snd cs)"
  "counter (snd (y_endstops cfg inp b cs)) = counter (snd cs)"
  "advance_rate (snd (y_endstops cfg inp b cs)) = advance_rate (snd cs)"
  "advance (snd (y_endstops cfg inp b cs)) = advance (snd cs)"
  "final_advance (snd (y_endstops cfg inp b cs)) = final_advance (snd cs)"
  "old_advance (snd (y_endstops cfg inp b cs)) = old_advance (snd cs)"
  "e_steps (snd (y_endstops cfg inp b cs)) = e_steps (snd cs)"
  "acceleration_time (snd (y_endstops cfg inp b cs)) = acceleration_time (snd cs)"
  "deceleration_time (snd (y_endstops cfg inp b cs)) = deceleration_time (snd cs)"
  "acc_step_rate (snd (y_endstops cfg inp b cs)) = acc_step_rate (snd cs)"
  "step_loops (snd (y_endstops cfg inp b cs)) = step_loops (snd cs)"
  "OCR1A_nominal (snd (y_endstops cfg inp b cs)) = OCR1A_nominal (snd cs)"
  "step_loops_nominal (snd (y_endstops cfg inp b cs)) = step_loops_nominal (snd cs)"
  "old_endstop_bits (snd (y_endstops cfg inp b cs)) = old_endstop_bits (snd cs)"
  "check_endstops (snd (y_endstops cfg inp b cs)) = check_endstops (snd cs)"
  "count_position (snd (y_endstops cfg inp b cs)) = count_position (snd cs)"
  "count_direction (snd (y_endstops cfg inp b cs)) = count_direction (snd cs)"
  "pins (snd (y_endstops cfg inp b cs)) = pins (snd cs)"
  "trace (snd (y_endstops cfg inp b cs)) = trace (snd cs)"
  "TC_RC (snd (y_endstops cfg inp b cs)) = TC_RC (snd cs)"
  "queue (snd (y_endstops cfg inp b cs)) = queue (snd cs)"
  by (simp_all add: y_endstops_def Let_def split_def)

lemma z_endstops_frame [simp]:
  "current_block (snd (z_endstops cfg inp b cs)) = current_block (snd cs)"
  "out_bits (snd (z_endstops cfg inp b cs)) = out_bits (snd cs)"
  "cleaning_buffer_counter (snd (z_endstops cfg inp b cs)) = cleaning_buffer_counter (snd cs)"
  "performing_homing (snd (z_endstops cfg inp b cs)) = performing_homing (snd cs)"
  "locked_z_motor (snd (z_endstops cfg inp b cs)) = locked_z_motor (snd cs)"
  "locked_z2_motor (snd (z_endstops cfg inp b cs)) = locked_z2_motor (snd cs)"
  "counter (snd (z_endstops cfg inp b cs)) = counter (snd cs)"
  "advance_rate (snd (z_endstops cfg inp b cs)) = advance_rate (snd cs)"
  "advance (snd (z_endstops cfg inp b cs)) = advance (snd cs)"
  "final_advance (snd (z_endstops cfg inp b cs)) = final_advance (snd cs)"
  "old_advance (snd (z_endstops cfg inp b cs)) = old_advance (snd cs)"
  "e_steps (snd (z_endstops cfg inp b cs)) = e_steps (snd cs)"
  "acceleration_time (snd (z_endstops cfg inp b cs)) = acceleration_time (snd cs)"
  "deceleration_time (snd (z_endstops cfg inp b cs)) = deceleration_time (snd cs)"
  "acc_step_rate (snd (z_endstops cfg inp b cs)) = acc_step_rate (snd cs)"
  "step_loops (snd (z_endstops cfg inp b cs)) = step_loops (snd cs)"
  "OCR1A_nominal (snd (z_endstops cfg inp b cs)) = OCR1A_nominal (snd cs)"
  "step_loops_nominal (snd (z_endstops cfg inp b cs)) = step_loops_nominal (snd cs)"
  "old_endstop_bits (snd (z_endstops cfg inp b cs)) = old_endstop_bits (snd cs)"
  "check_endstops (snd (z_endstops cfg inp b cs)) = check_endstops (snd cs)"
  "count_position (snd (z_endstops cfg inp b cs)) = count_position (snd cs)"
  "count_direction (snd (z_endstops cfg inp b cs)) = count_direction (snd cs)"
  "pins (snd (z_endstops cfg inp b cs)) = pins (snd cs)"
  "trace (snd (z_endstops cfg inp b cs)) = trace (snd cs)"
  "TC_RC (snd (z_endstops cfg inp b cs)) = TC_RC (snd cs)"
  "queue (snd (z_endstops cfg inp b cs)) = queue (snd cs)"
  by (simp_all add: z_endstops_def Let_def split_def)

lemma endstop_check_frame [simp]:
  "current_block (endstop_check cfg inp b s) = current_block s"
  "out_bits (endstop_check cfg inp b s) = out_bits s"
  "cleaning_buffer_counter (endstop_check cfg inp b s) = cleaning_buffer_counter s"
  "performing_homing (endstop_check cfg inp b s) = performing_homing s"
  "locked_z_motor (endstop_check cfg inp b s) = locked_z_motor s"
  "locked_z2_motor (endstop_check cfg inp b s) = locked_z2_motor s"
  "counter (endstop_check cfg inp b s) = counter s"
  "advance_rate (endstop_check cfg inp b s) = advance_rate s"
  "advance (endstop_check cfg inp b s) = advance s"
  "final_advance (endstop_check cfg inp b s) = final_advance s"
  "old_advance (endstop_check cfg inp b s) = old_advance s"
  "e_steps (endstop_check cfg inp b s) = e_steps s"
  "acceleration_time (endstop_check cfg inp b s) = acceleration_time s"
  "deceleration_time (endstop_check cfg inp b s) = deceleration_time s"
  "acc_step_rate (endstop_check cfg inp b s) = acc_step_rate s"
  "step_loops (endstop_check cfg inp b s) = step_loops s"
  "OCR1A_nominal (endstop_check cfg inp b s) = OCR1A_nominal s"
  "step_loops_nominal (endstop_check cfg inp b s) = step_loops_nominal s"
  "check_endstops (endstop_check cfg inp b s) = check_endstops s"
  "count_position (endstop_check cfg inp b s) = count_position s"
  "count_direction (endstop_check cfg inp b s) = count_direction s"
  "pins (endstop_check cfg inp b s) = pins s"
  "trace (endstop_check cfg inp b s) = trace s"
  "TC_RC (endstop_check cfg inp b s) = TC_RC s"
  "queue (endstop_check cfg inp b s) = queue s"
  by (simp_all add: endstop_check_def Let_def split_def)

lemma STEP_START_frame [simp]:
  "current_block (STEP_START cfg dup b a s) = current_block s"
  "out_bits (STEP_START cfg dup b a s) = out_bits s"
  "cleaning_buffer_counter (STEP_START cfg dup b a s) = cleaning_buffer_counter s"
  "performing_homing (STEP_START cfg dup b a s) = performing_homing s"
  "locked_z_motor (STEP_START cfg dup b a s) = locked_z_motor s"
  "locked_z2_motor (STEP_START cfg dup b a s) = locked_z2_motor s"
  "step_events_completed (STEP_START cfg dup b a s) = step_events_completed s"
  "advance_rate (STEP_START cfg dup b a s) = advance_rate s"
  "advance (STEP_START cfg dup b a s) = advance s"
  "final_advance (STEP_START cfg dup b a s) = final_advance s"
  "old_advance (STEP_START cfg dup b a s) = old_advance s"
  "e_steps (STEP_START cfg dup b a s) = e_steps s"
  "acceleration_time (STEP_START cfg dup b a s) = acceleration_time s"
  "deceleration_time (STEP_START cfg dup b a s) = deceleration_time s"
  "acc_step_rate (STEP_START cfg dup b a s) = acc_step_rate s"
  "step_loops (STEP_START cfg dup b a s) = step_loops s"
  "OCR1A_nominal (STEP_START cfg dup b a s) = OCR1A_nominal s"
  "step_loops_nominal (STEP_START cfg dup b a s) = step_loops_nominal s"
  "endstops_trigsteps (STEP_START cfg dup b a s) = endstops_trigsteps s"
  "endstop_hit_bits (STEP_START cfg dup b a s) = endstop_hit_bits s"
  "old_endstop_bits (STEP_START cfg dup b a s) = old_endstop_bits s"
  "check_endstops (STEP_START cfg dup b a s) = check_endstops s"
  "count_direction (STEP_START cfg dup b a s) = count_direction s"
  "TC_RC (STEP_START cfg dup b a s) = TC_RC s"
  "queue (STEP_START cfg dup b a s) = queue s"
  by (simp_all add: STEP_START_def Let_def split_def)

lemma STEP_END_frame [simp]:
  "current_block (STEP_END cfg dup b a s) = current_block s"
  "out_bits (STEP_END cfg dup b a s) = out_bits s"
  "cleaning_buffer_counter (STEP_END cfg dup b a s) = cleaning_buffer_counter s"
  "performing_homing (STEP_END cfg dup b a s) = performing_homing s"
  "locked_z_motor (STEP_END cfg dup b a s) = locked_z_motor s"
  "locked_z2_motor (STEP_END cfg dup b a s) = locked_z2_motor s"
  "counter (STEP_END cfg dup b a s) = counter s"
  "step_events_completed (STEP_END cfg dup b a s) = step_events_completed s"
  "advance_rate (STEP_END cfg dup b a s) = advance_rate s"
  "advance (STEP_END cfg dup b a s) = advance s"
  "final_advance (STEP_END cfg dup b a s) = final_advance s"
  "old_advance (STEP_END cfg dup b a s) = old_advance s"
  "e_steps (STEP_END cfg dup b a s) = e_steps s"
  "acceleration_time (STEP_END cfg dup b a s) = acceleration_time s"
  "deceleration_time (STEP_END cfg dup b a s) = deceleration_time s"
  "acc_step_rate (STEP_END cfg dup b a s) = acc_step_rate s"
  "step_loops (STEP_END cfg dup b a s) = step_loops s"
  "OCR1A_nominal (STEP_END cfg dup b a s) = OCR1A_nominal s"
  "step_loops_nominal (STEP_END cfg dup b a s) = step_loops_nominal s"
  "endstops_trigsteps (STEP_END cfg dup b a s) = endstops_trigsteps s"
  "endstop_hit_bits (STEP_END cfg dup b a s) = endstop_hit_bits s"
  "old_endstop_bits (STEP_END cfg dup b a s) = old_endstop_bits s"
  "check_endstops (STEP_END cfg dup b a s) = check_endstops s"
  "count_position (STEP_END cfg dup b a s) = count_position s"
  "count_direction (STEP_END cfg dup b a s) = count_direction s"
  "TC_RC (STEP_END cfg dup b a s) = TC_RC s"
  "queue (STEP_END cfg dup b a s) = queue s"
  by (simp_all add: STEP_END_def Let_def split_def)

lemma step_starts_frame [simp]:
  "current_block (step_starts cfg dup b s) = current_block s"
  "out_bits (step_starts cfg dup b s) = out_bits s"
  "cleaning_buffer_counter (step_starts cfg dup b s) = cleaning_buffer_counter s"
  "performing_homing (step_starts cfg dup b s) = performing_homing s"
  "locked_z_motor (step_starts cfg dup b s) = locked_z_motor s"
  "locked_z2_motor (step_starts cfg dup b s) = locked_z2_motor s"
  "step_events_completed (step_starts cfg dup b s) = step_events_completed s"
  "advance_rate (step_starts cfg dup b s) = advance_rate s"
  "advance (step_starts cfg dup b s) = advance s"
  "final_advance (step_starts cfg dup b s) = final_advance s"
  "old_advance (step_starts cfg dup b s) = old_advance s"
  "e_steps (step_starts cfg dup b s) = e_steps s"
  "acceleration_time (step_starts cfg dup b s) = acceleration_time s"
  "deceleration_time (step_starts cfg dup b s) = deceleration_time s"
  "acc_step_rate (step_starts cfg dup b s) = acc_step_rate s"
  "step_loops (step_starts cfg dup b s) = step_loops s"
  "OCR1A_nominal (step_starts cfg dup b s) = OCR1A_nominal s"
  "step_loops_nominal (step_starts cfg dup b s) = step_loops_nominal s"
  "endstops_trigsteps (step_starts cfg dup b s) = endstops_trigsteps s"
  "endstop_hit_bits (step_starts cfg dup b s) = endstop_hit_bits s"
  "old_endstop_bits (step_starts cfg dup b s) = old_endstop_bits s"
  "check_endstops (step_starts cfg dup b s) = check_endstops s"
  "count_direction (step_starts cfg dup b s) = count_direction s"
  "TC_RC (step_starts cfg dup b s) = TC_RC s"
  "queue (step_starts cfg dup b s) = queue s"
  by (simp_all add: step_starts_def Let_def split_def)

lemma step_ends_frame [simp]:
  "current_block (step_ends cfg dup b s) = current_block s"
  "out_bits (step_ends cfg dup b s) = out_bits s"
  "cleaning_buffer_counter (step_ends cfg dup b s) = cleaning_buffer_counter s"
  "performing_homing (step_ends cfg dup b s) = performing_homing s"
  "locked_z_motor (step_ends cfg dup b s) = locked_z_motor s"
  "locked_z2_motor (step_ends cfg dup b s) = locked_z2_motor s"
  "counter (step_ends cfg dup b s) = counter s"
  "step_events_completed (step_ends cfg dup b s) = step_events_completed s"
  "advance_rate (step_ends cfg dup b s) = advance_rate s"
  "advance (step_ends cfg dup b s) = advance s"
  "final_advance (step_ends cfg dup b s) = final_advance s"
  "old_advance (step_ends cfg dup b s) = old_advance s"
  "e_steps (step_ends cfg dup b s) = e_steps s"
  "acceleration_time (step_ends cfg dup b s) = acceleration_time s"
  "deceleration_time (step_ends cfg dup b s) = deceleration_time s"
  "acc_step_rate (step_ends cfg dup b s) = acc_step_rate s"
  "step_loops (step_ends cfg dup b s) = step_loops s"
  "OCR1A_nominal (step_ends cfg dup b s) = OCR1A_nominal s"
  "step_loops_nominal (step_ends cfg dup b s) = step_loops_nominal s"
  "endstops_trigsteps (step_ends cfg dup b s) = endstops_trigsteps s"
  "endstop_hit_bits (step_ends cfg dup b s) = endstop_hit_bits s"
  "old_endstop_bits (step_ends cfg dup b s) = old_endstop_bits s"
  "check_endstops (step_ends cfg dup b s) = check_endstops s"
  "count_position (step_ends cfg dup b s) = count_position s"
  "count_direction (step_ends cfg dup b s) = count_direction s"
  "TC_RC (step_ends cfg dup b s) = TC_RC s"
  "queue (step_ends cfg dup b s) = queue s"
  by (simp_all add: step_ends_def Let_def split_def)

lemma advance_counter_e_frame [simp]:
  "current_block (advance_counter_e b s) = current_block s"
  "out_bits (advance_counter_e b s) = out_bits s"
  "cleaning_buffer_counter (advance_counter_e b s) = cleaning_buffer_counter s"
  "performing_homing (advance_counter_e b s) = performing_homing s"
  "locked_z_motor (advance_counter_e b s) = locked_z_motor s"
  "locked_z2_motor (advance_counter_e b s) = locked_z2_motor s"
  "step_events_completed (advance_counter_e b s) = step_events_completed s"
  "advance_rate (advance_counter_e b s) = advance_rate s"
  "advance (advance_counter_e b s) = advance s"
  "final_advance (advance_counter_e b s) = final_advance s"
  "old_advance (advance_counter_e b s) = old_advance s"
  "acceleration_time (advance_counter_e b s) = acceleration_time s"
  "deceleration_time (advance_counter_e b s) = deceleration_time s"
  "acc_step_rate (advance_counter_e b s) = acc_step_rate s"
  "step_loops (advance_counter_e b s) = step_loops s"
  "OCR1A_nominal (advance_counter_e b s) = OCR1A_nominal s"
  "step_loops_nominal (advance_counter_e b s) = step_loops_nominal s"
  "endstops_trigsteps (advance_counter_e b s) = endstops_trigsteps s"
  "endstop_hit_bits (advance_counter_e b s) = endstop_hit_bits s"
  "old_endstop_bits (advance_counter_e b s) = old_endstop_bits s"
  "check_endstops (advance_counter_e b s) = check_endstops s"
  "count_position (advance_counter_e b s) = count_position s"
  "count_direction (advance_counter_e b s) = count_direction s"
  "pins (advance_counter_e b s) = pins s"
  "trace (advance_counter_e b s) = trace s"
  "TC_RC (advance_counter_e b s) = TC_RC s"
  "queue (advance_counter_e b s) = queue s"
  by (simp_all add: advance_counter_e_def Let_def split_def)

lemma step_iteration_frame [simp]:
  "current_block (step_iteration cfg dup b s) = current_block s"
  "out_bits (step_iteration cfg dup b s) = out_bits s"
  "cleaning_buffer_counter (step_iteration cfg dup b s) = cleaning_buffer_counter s"
  "performing_homing (step_iteration cfg dup b s) = performing_homing s"
  "locked_z_motor (step_iteration cfg dup b s) = locked_z_motor s"
  "locked_z2_motor (step_iteration cfg dup b s) = locked_z2_motor s"
  "advance_rate (step_iteration cfg dup b s) = advance_rate s"
  "advance (step_iteration cfg dup b s) = advance s"
  "final_advance (step_iteration cfg dup b s) = final_advance s"
  "old_advance (step_iteration cfg dup b s) = old_advance s"
  "acceleration_time (step_iteration cfg dup b s) = acceleration_time s"
  "deceleration_time (step_iteration cfg dup b s) = deceleration_time s"
  "acc_step_rate (step_iteration cfg dup b s) = acc_step_rate s"
  "step_loops (step_iteration cfg dup b s) = step_loops s"
  "OCR1A_nominal (step_iteration cfg dup b s) = OCR1A_nominal s"
  "step_loops_nominal (step_iteration cfg dup b s) = step_loops_nominal s"
  "endstops_trigsteps (step_iteration cfg dup b s) = endstops_trigsteps s"
  "endstop_hit_bits (step_iteration cfg dup b s) = endstop_hit_bits s"
  "old_endstop_bits (step_iteration cfg dup b s) = old_endstop_bits s"
  "check_endstops (step_iteration cfg dup b s) = check_endstops s"
  "count_direction (step_iteration cfg dup b s) = count_direction s"
  "TC_RC (step_iteration cfg dup b s) = TC_RC s"
  "queue (step_iteration cfg dup b s) = queue s"
  by (simp_all add: step_iteration_def Let_def split_def)

lemma step_loop_frame [simp]:
  "current_block (step_loop cfg dup b n s) = current_block s"
  "out_bits (step_loop cfg dup b n s) = out_bits s"
  "cleaning_buffer_counter (step_loop cfg dup b n s) = cleaning_buffer_counter s"
  "performing_homing (step_loop cfg dup b n s) = performing_homing s"
  "locked_z_motor (step_loop cfg dup b n s) = locked_z_motor s"
  "locked_z2_motor (step_loop cfg dup b n s) = locked_z2_motor s"
  "advance_rate (step_loop cfg dup b n s) = advance_rate s"
  "advance (step_loop cfg dup b n s) = advance s"
  "final_advance (step_loop cfg dup b n s) = final_advance s"
  "old_advance (step_loop cfg dup b n s) = old_advance s"
  "acceleration_time (step_loop cfg dup b n s) = acceleration_time s"
  "deceleration_time (step_loop cfg dup b n s) = deceleration_time s"
  "acc_step_rate (step_loop cfg dup b n s) = acc_step_rate s"
  "step_loops (step_loop cfg dup b n s) = step_loops s"
  "OCR1A_nominal (step_loop cfg dup b n s) = OCR1A_nominal s"
  "step_loops_nominal (step_loop cfg dup b n s) = step_loops_nominal s"
  "endstops_trigsteps (step_loop cfg dup b n s) = endstops_trigsteps s"
  "endstop_hit_bits (step_loop cfg dup b n s) = endstop_hit_bits s"
  "old_endstop_bits (step_loop cfg dup b n s) = old_endstop_bits s"
  "check_endstops (step_loop cfg dup b n s) = check_endstops s"
  "count_direction (step_loop cfg dup b n s) = count_direction s"
  "TC_RC (step_loop cfg dup b n s) = TC_RC s"
  "queue (step_loop cfg dup b n s) = queue s"
  by (induction n arbitrary: s; simp add: Let_def)+

lemma step_phase_frame [simp]:
  "current_block (step_phase cfg dup b s) = current_block s"
  "out_bits (step_phase cfg dup b s) = out_bits s"
  "cleaning_buffer_counter (step_phase cfg dup b s) = cleaning_buffer_counter s"
  "performing_homing (step_phase cfg dup b s) = performing_homing s"
  "locked_z_motor (step_phase cfg dup b s) = locked_z_motor s"
  "locked_z2_motor (step_phase cfg dup b s) = locked_z2_motor s"
  "advance_rate (step_phase cfg dup b s) = advance_rate s"
  "advance (step_phase cfg dup b s) = advance s"
  "final_advance (step_phase cfg dup b s) = final_advance s"
  "old_advance (step_phase cfg dup b s) = old_advance s"
  "acceleration_time (step_phase cfg dup b s) = acceleration_time s"
  "deceleration_time (step_phase cfg dup b s) = deceleration_time s"
  "acc_step_rate (step_phase cfg dup b s) = acc_step_rate s"
  "step_loops (step_phase cfg dup b s) = step_loops s"
  "OCR1A_nominal (step_phase cfg dup b s) = OCR1A_nominal s"
  "step_loops_nominal (step_phase cfg dup b s) = step_loops_nominal s"
  "endstops_trigsteps (step_phase cfg dup b s) = endstops_trigsteps s"
  "endstop_hit_bits (step_phase cfg dup b s) = endstop_hit_bits s"
  "old_endstop_bits (step_phase cfg dup b s) = old_endstop_bits s"
  "check_endstops (step_phase cfg dup b s) = check_endstops s"
  "count_direction (step_phase cfg dup b s) = count_direction s"
  "TC_RC (step_phase cfg dup b s) = TC_RC s"
  "queue (step_phase cfg dup b s) = queue s"
  by (simp_all add: step_phase_def Let_def split_def)

lemma plan_discard_current_block_frame [simp]:
  "current_block (plan_discard_current_block s) = current_block s"
  "out_bits (plan_discard_current_block s) = out_bits s"
  "cleaning_buffer_counter (plan_discard_current_block s) = cleaning_buffer_counter s"
  "performing_homing (plan_discard_current_block s) = performing_homing s"
  "locked_z_motor (plan_discard_current_block s) = locked_z_motor s"
  "locked_z2_motor (plan_discard_current_block s) = locked_z2_motor s"
  "counter (plan_discard_current_block s) = counter s"
  "step_events_completed (plan_discard_current_block s) = step_events_completed s"
  "advance_rate (plan_discard_current_block s) = advance_rate s"
  "advance (plan_discard_current_block s) = advance s"
  "final_advance (plan_discard_current_block s) = final_advance s"
  "old_advance (plan_discard_current_block s) = old_advance s"
  "e_steps (plan_discard_current_block s) = e_steps s"
  "acceleration_time (plan_discard_current_block s) = acceleration_time s"
  "deceleration_time (plan_discard_current_block s) = deceleration_time s"
  "acc_step_rate (plan_discard_current_block s) = acc_step_rate s"
  "step_loops (plan_discard_current_block s) = step_loops s"
  "OCR1A_nominal (plan_discard_current_block s) = OCR1A_nominal s"
  "step_loops_nominal (plan_discard_current_block s) = step_loops_nominal s"
  "endstops_trigsteps (plan_discard_current_block s) = endstops_trigsteps s"
  "endstop_hit_bits (plan_discard_current_block s) = endstop_hit_bits s"
  "old_endstop_bits (plan_discard_current_block s) = old_endstop_bits s"
  "check_endstops (plan_discard_current_block s) = check_endstops s"
  "count_position (plan_discard_current_block s) = count_position s"
  "count_direction (plan_discard_current_block s) = count_direction s"
  "pins (plan_discard_current_block s) = pins s"
  "trace (plan_discard_current_block s) = trace s"
  "TC_RC (plan_discard_current_block s) = TC_RC s"
  by (simp_all add: plan_discard_current_block_def Let_def split_def)

lemma HAL_timer_set_count_frame [simp]:
  "current_block (HAL_timer_set_count count s) = current_block s"
  "out_bits (HAL_timer_set_count count s) = out_bits s"
  "cleaning_buffer_counter (HAL_timer_set_count count s) = cleaning_buffer_counter s"
  "performing_homing (HAL_timer_set_count count s) = performing_homing s"
  "locked_z_motor (HAL_timer_set_count count s) = locked_z_motor s"
  "locked_z2_motor (HAL_timer_set_count count s) = locked_z2_motor s"
  "counter (HAL_timer_set_count count s) = counter s"
  "step_events_completed (HAL_timer_set_count count s) = step_events_completed s"
  "advance_rate (HAL_timer_set_count count s) = advance_rate s"
  "advance (HAL_timer_set_count count s) = advance s"
  "final_advance (HAL_timer_set_count count s) = final_advance s"
  "old_advance (HAL_timer_set_count count s) = old_advance s"
  "e_steps (HAL_timer_set_count count s) = e_steps s"
  "acceleration_time (HAL_timer_set_count count s) = acceleration_time s"
  "deceleration_time (HAL_timer_set_count count s) = deceleration_time s"
  "acc_step_rate (HAL_timer_set_count count s) = acc_step_rate s"
  "step_loops (HAL_timer_set_count count s) = step_loops s"
  "OCR1A_nominal (HAL_timer_set_count count s) = OCR1A_nominal s"
  "step_loops_nominal (HAL_timer_set_count count s) = step_loops_nominal s"
  "endstops_trigsteps (HAL_timer_set_count count s) = endstops_trigsteps s"
  "endstop_hit_bits (HAL_timer_set_count count s) = endstop_hit_bits s"
  "old_endstop_bits (HAL_timer_set_count count s) = old_endstop_bits s"
  "check_endstops (HAL_timer_set_count count s) = check_endstops s"
  "count_position (HAL_timer_set_count count s) = count_position s"
  "count_direction (HAL_timer_set_count count s) = count_direction s"
  "pins (HAL_timer_set_count count s) = pins s"
  "trace (HAL_timer_set_count count s) = trace s"
  "queue (HAL_timer_set_count count s) = queue s"
  by (simp_all add: HAL_timer_set_count_def Let_def split_def)

lemma HAL_timer_stepper_count_frame [simp]:
  "current_block (HAL_timer_stepper_count count cv s) = current_block s"
  "out_bits (HAL_timer_stepper_count count cv s) = out_bits s"
  "cleaning_buffer_counter (HAL_timer_stepper_count count cv s) = cleaning_buffer_counter s"
  "performing_homing (HAL_timer_stepper_count count cv s) = performing_homing s"
  "locked_z_motor (HAL_timer_stepper_count count cv s) = locked_z_motor s"
  "locked_z2_motor (HAL_timer_stepper_count count cv s) = locked_z2_motor s"
  "counter (HAL_timer_stepper_count count cv s) = counter s"
  "step_events_completed (HAL_timer_stepper_count count cv s) = step_events_completed s"
  "advance_rate (HAL_timer_stepper_count count cv s) = advance_rate s"
  "advance (HAL_timer_stepper_count count cv s) = advance s"
  "final_advance (HAL_timer_stepper_count count cv s) = final_advance s"
  "old_advance (HAL_timer_stepper_count count cv s) = old_advance s"
  "e_steps (HAL_timer_stepper_count count cv s) = e_steps s"
  "acceleration_time (HAL_timer_stepper_count count cv s) = acceleration_time s"
  "deceleration_time (HAL_timer_stepper_count count cv s) = deceleration_time s"
  "acc_step_rate (HAL_timer_stepper_count count cv s) = acc_step_rate s"
  "step_loops (HAL_timer_stepper_count count cv s) = step_loops s"
  "OCR1A_nominal (HAL_timer_stepper_count count cv s) = OCR1A_nominal s"
  "step_loops_nominal (HAL_timer_stepper_count count cv s) = step_loops_nominal s"
  "endstops_trigsteps (HAL_timer_stepper_count count cv s) = endstops_trigsteps s"
  "endstop_hit_bits (HAL_timer_stepper_count count cv s) = endstop_hit_bits s"
  "old_endstop_bits (HAL_timer_stepper_count count cv s) = old_endstop_bits s"
  "check_endstops (HAL_timer_stepper_count count cv s) = check_endstops s"
  "count_position (HAL_timer_stepper_count count cv s) = count_position s"
  "count_direction (HAL_timer_stepper_count count cv s) = count_direction s"
  "pins (HAL_timer_stepper_count count cv s) = pins s"
  "trace (HAL_timer_stepper_count count cv s) = trace s"
  "queue (HAL_timer_stepper_count count cv s) = queue s"
  by (simp_all add: HAL_timer_stepper_count_def Let_def split_def)

lemma mark_busy_frame [simp]:
  "out_bits (mark_busy s) = out_bits s"
  "cleaning_buffer_counter (mark_busy s) = cleaning_buffer_counter s"
  "performing_homing (mark_busy s) = performing_homing s"
  "locked_z_motor (mark_busy s) = locked_z_motor s"
  "locked_z2_motor (mark_busy s) = locked_z2_motor s"
  "counter (mark_busy s) = counter s"
  "step_events_completed (mark_busy s) = step_events_completed s"
  "advance_rate (mark_busy s) = advance_rate s"
  "advance (mark_busy s) = advance s"
  "final_advance (mark_busy s) = final_advance s"
  "old_advance (mark_busy s) = old_advance s"
  "e_steps (mark_busy s) = e_steps s"
  "acceleration_time (mark_busy s) = acceleration_time s"
  "deceleration_time (mark_busy s) = deceleration_time s"
  "acc_step_rate (mark_busy s) = acc_step_rate s"
  "step_loops (mark_busy s) = step_loops s"
  "OCR1A_nominal (mark_busy s) = OCR1A_nominal s"
  "step_loops_nominal (mark_busy s) = step_loops_nominal s"
  "endstops_trigsteps (mark_busy s) = endstops_trigsteps s"
  "endstop_hit_bits (mark_busy s) = endstop_hit_bits s"
  "old_endstop_bits (mark_busy s) = old_endstop_bits s"
  "check_endstops (mark_busy s) = check_endstops s"
  "count_position (mark_busy s) = count_position s"
  "count_direction (mark_busy s) = count_direction s"
  "pins (mark_busy s) = pins s"
  "trace (mark_busy s) = trace s"
  "TC_RC (mark_busy s) = TC_RC s"
  by (simp_all add: mark_busy_def split: list.splits)

lemma finish_block_frame [simp]:
  "out_bits (finish_block b s) = out_bits s"
  "cleaning_buffer_counter (finish_block b s) = cleaning_buffer_counter s"
  "performing_homing (finish_block b s) = performing_homing s"
  "locked_z_motor (finish_block b s) = locked_z_motor s"
  "locked_z2_motor (finish_block b s) = locked_z2_motor s"
  "counter (finish_block b s) = counter s"
  "step_events_completed (finish_block b s) = step_events_completed s"
  "advance_rate (finish_block b s) = advance_rate s"
  "advance (finish_block b s) = advance s"
  "final_advance (finish_block b s) = final_advance s"
  "old_advance (finish_block b s) = old_advance s"
  "e_steps (finish_block b s) = e_steps s"
  "acceleration_time (finish_block b s) = acceleration_time s"
  "deceleration_time (finish_block b s) = deceleration_time s"
  "acc_step_rate (finish_block b s) = acc_step_rate s"
  "step_loops (finish_block b s) = step_loops s"
  "OCR1A_nominal (finish_block b s) = OCR1A_nominal s"
  "step_loops_nominal (finish_block b s) = step_loops_nominal s"
  "endstops_trigsteps (finish_block b s) = endstops_trigsteps s"
  "endstop_hit_bits (finish_block b s) = endstop_hit_bits s"
  "old_endstop_bits (finish_block b s) = old_endstop_bits s"
  "check_endstops (finish_block b s) = check_endstops s"
  "count_position (finish_block b s) = count_position s"
  "count_direction (finish_block b s) = count_direction s"
  "pins (finish_block b s) = pins s"
  "trace (finish_block b s) = trace s"
  "TC_RC (finish_block b s) = TC_RC s"
  by (simp_all add: finish_block_def Let_def split_def)

lemma isr_begin_frame [simp]:
  "performing_homing (fst (isr_begin cfg inp s)) = performing_homing s"
  "locked_z_motor (fst (isr_begin cfg inp s)) = locked_z_motor s"
  "locked_z2_motor (fst (isr_begin cfg inp s)) = locked_z2_motor s"
  "advance_rate (fst (isr_begin cfg inp s)) = advance_rate s"
  "endstops_trigsteps (fst (isr_begin cfg inp s)) = endstops_trigsteps s"
  "endstop_hit_bits (fst (isr_begin cfg inp s)) = endstop_hit_bits s"
  "old_endstop_bits (fst (isr_begin cfg inp s)) = old_endstop_bits s"
  "check_endstops (fst (isr_begin cfg inp s)) = check_endstops s"
  "count_position (fst (isr_begin cfg inp s)) = count_position s"
  by (simp_all add: isr_begin_def Let_def split: option.splits)

lemma isr_block_frame [simp]:
  "out_bits (isr_block cfg inp b s) = out_bits s"
  "cleaning_buffer_counter (isr_block cfg inp b s) = cleaning_buffer_counter s"
  "performing_homing (isr_block cfg inp b s) = performing_homing s"
  "locked_z_motor (isr_block cfg inp b s) = locked_z_motor s"
  "locked_z2_motor (isr_block cfg inp b s) = locked_z2_motor s"
  "advance_rate (isr_block cfg inp b s) = advance_rate s"
  "final_advance (isr_block cfg inp b s) = final_advance s"
  "OCR1A_nominal (isr_block cfg inp b s) = OCR1A_nominal s"
  "step_loops_nominal (isr_block cfg inp b s) = step_loops_nominal s"
  "check_endstops (isr_block cfg inp b s) = check_endstops s"
  "count_direction (isr_block cfg inp b s) = count_direction s"
  by (simp_all add: isr_block_def Let_def split_def)

lemma BABYSTEP_AXIS_frame [simp]:
  "current_block (BABYSTEP_AXIS cfg dup ae direction a invert s) = current_block s"
  "out_bits (BABYSTEP_AXIS cfg dup ae direction a invert s) = out_bits s"
  "cleaning_buffer_counter (BABYSTEP_AXIS cfg dup ae direction a invert s) = cleaning_buffer_counter s"
  "performing_homing (BABYSTEP_AXIS cfg dup ae direction a invert s) = performing_homing s"
  "locked_z_motor (BABYSTEP_AXIS cfg dup ae direction a invert s) = locked_z_motor s"
  "locked_z2_motor (BABYSTEP_AXIS cfg dup ae direction a invert s) = locked_z2_motor s"
  "counter (BABYSTEP_AXIS cfg dup ae direction a invert s) = counter s"
  "step_events_completed (BABYSTEP_AXIS cfg dup ae direction a invert s) = step_events_completed s"
  "advance_rate (BABYSTEP_AXIS cfg dup ae direction a invert s) = advance_rate s"
  "advance (BABYSTEP_AXIS cfg dup ae direction a invert s) = advance s"
  "final_advance (BABYSTEP_AXIS cfg dup ae direction a invert s) = final_advance s"
  "old_advance (BABYSTEP_AXIS cfg dup ae direction a invert s) = old_advance s"
  "e_steps (BABYSTEP_AXIS cfg dup ae direction a invert s) = e_steps s"
  "acceleration_time (BABYSTEP_AXIS cfg dup ae direction a invert s) = acceleration_time s"
  "deceleration_time (BABYSTEP_AXIS cfg dup ae direction a invert s) = deceleration_time s"
  "acc_step_rate (BABYSTEP_AXIS cfg dup ae direction a invert s) = acc_step_rate s"
  "step_loops (BABYSTEP_AXIS cfg dup ae direction a invert s) = step_loops s"
  "OCR1A_nominal (BABYSTEP_AXIS cfg dup ae direction a invert s) = OCR1A_nominal s"
  "step_loops_nominal (BABYSTEP_AXIS cfg dup ae direction a invert s) = step_loops_nominal s"
  "endstops_trigsteps (BABYSTEP_AXIS cfg dup ae direction a invert s) = endstops_trigsteps s"
  "endstop_hit_bits (BABYSTEP_AXIS cfg dup ae direction a invert s) = endstop_hit_bits s"
  "old_endstop_bits (BABYSTEP_AXIS cfg dup ae direction a invert s) = old_endstop_bits s"
  "check_endstops (BABYSTEP_AXIS cfg dup ae direction a invert s) = check_endstops s"
  "count_position (BABYSTEP_AXIS cfg dup ae direction a invert s) = count_position s"
  "count_direction (BABYSTEP_AXIS cfg dup ae direction a invert s) = count_direction s"
  "TC_RC (BABYSTEP_AXIS cfg dup ae direction a invert s) = TC_RC s"
  "queue (BABYSTEP_AXIS cfg dup ae direction a invert s) = queue s"
  by (simp_all add: BABYSTEP_AXIS_def Let_def split_def)

lemma babystep_delta_z_frame [simp]:
  "current_block (babystep_delta_z cfg direction s) = current_block s"
  "out_bits (babystep_delta_z cfg direction s) = out_bits s"
  "cleaning_buffer_counter (babystep_delta_z cfg direction s) = cleaning_buffer_counter s"
  "performing_homing (babystep_delta_z cfg direction s) = performing_homing s"
  "locked_z_motor (babystep_delta_z cfg direction s) = locked_z_motor s"
  "locked_z2_motor (babystep_delta_z cfg direction s) = locked_z2_motor s"
  "counter (babystep_delta_z cfg direction s) = counter s"
  "step_events_completed (babystep_delta_z cfg direction s) = step_events_completed s"
  "advance_rate (babystep_delta_z cfg direction s) = advance_rate s"
  "advance (babystep_delta_z cfg direction s) = advance s"
  "final_advance (babystep_delta_z cfg direction s) = final_advance s"
  "old_advance (babystep_delta_z cfg direction s) = old_advance s"
  "e_steps (babystep_delta_z cfg direction s) = e_steps s"
  "acceleration_time (babystep_delta_z cfg direction s) = acceleration_time s"
  "deceleration_time (babystep_delta_z cfg direction s) = deceleration_time s"
  "acc_step_rate (babystep_delta_z cfg direction s) = acc_step_rate s"
  "step_loops (babystep_delta_z cfg direction s) = step_loops s"
  "OCR1A_nominal (babystep_delta_z cfg direction s) = OCR1A_nominal s"
  "step_loops_nominal (babystep_delta_z cfg direction s) = step_loops_nominal s"
  "endstops_trigsteps (babystep_delta_z cfg direction s) = endstops_trigsteps s"
  "endstop_hit_bits (babystep_delta_z cfg direction s) = endstop_hit_bits s"
  "old_endstop_bits (babystep_delta_z cfg direction s) = old_endstop_bits s"
  "check_endstops (babystep_delta_z cfg direction s) = check_endstops s"
  "count_position (babystep_delta_z cfg direction s) = count_position s"
  "count_direction (babystep_delta_z cfg direction s) = count_direction s"
  "TC_RC (babystep_delta_z cfg direction s) = TC_RC s"
  "queue (babystep_delta_z cfg direction s) = queue s"
  by (simp_all add: babystep_delta_z_def Let_def split_def)

lemma babystep_frame [simp]:
  "current_block (babystep cfg dup ae a direction s) = current_block s"
  "out_bits (babystep cfg dup ae a direction s) = out_bits s"
  "cleaning_buffer_counter (babystep cfg dup ae a direction s) = cleaning_buffer_counter s"
  "performing_homing (babystep cfg dup ae a direction s) = performing_homing s"
  "locked_z_motor (babystep cfg dup ae a direction s) = locked_z_motor s"
  "locked_z2_motor (babystep cfg dup ae a direction s) = locked_z2_motor s"
  "counter (babystep cfg dup ae a direction s) = counter s"
  "step_events_completed (babystep cfg dup ae a direction s) = step_events_completed s"
  "advance_rate (babystep cfg dup ae a direction s) = advance_rate s"
  "advance (babystep cfg dup ae a direction s) = advance s"
  "final_advance (babystep cfg dup ae a direction s) = final_advance s"
  "old_advance (babystep cfg dup ae a direction s) = old_advance s"
  "e_steps (babystep cfg dup ae a direction s) = e_steps s"
  "acceleration_time (babystep cfg dup ae a direction s) = acceleration_time s"
  "deceleration_time (babystep cfg dup ae a direction s) = deceleration_time s"
  "acc_step_rate (babystep cfg dup ae a direction s) = acc_step_rate s"
  "step_loops (babystep cfg dup ae a direction s) = step_loops s"
  "OCR1A_nominal (babystep cfg dup ae a direction s) = OCR1A_nominal s"
  "step_loops_nominal (babystep cfg dup ae a direction s) = step_loops_nominal s"
  "endstops_trigsteps (babystep cfg dup ae a direction s) = endstops_trigsteps s"
  "endstop_hit_bits (babystep cfg dup ae a direction s) = endstop_hit_bits s"
  "old_endstop_bits (babystep cfg dup ae a direction s) = old_endstop_bits s"
  "check_endstops (babystep cfg dup ae a direction s) = check_endstops s"
  "count_position (babystep cfg dup ae a direction s) = count_position s"
  "count_direction (babystep cfg dup ae a direction s) = count_direction s"
  "TC_RC (babystep cfg dup ae a direction s) = TC_RC s"
  "queue (babystep cfg dup ae a direction s) = queue s"
  by (cases a; simp)+

subsection \<open>Arithmetic of the fixed-point multiply\<close>

lemma nonneg_sint_uint:
  fixes a :: u32
  assumes "0 \<le>s a"
  shows "sint a = uint a" "uint a < 2 ^ 31"
proof -
  from assms have nn: "0 \<le> sint a" by (simp add: word_sle_eq)
  have lt: "sint a < 2 ^ 31" using sint_lt [of a] by simp
  have "uint a = take_bit 32 (sint a)" using uint_sint [of a] by simp
  also have "\<dots> = sint a"
    by (rule take_bit_int_eq_self) (use nn lt in simp_all)
  finally show "sint a = uint a" by simp
  with lt show "uint a < 2 ^ 31" by simp
qed

lemma nonneg_unat_less:
  fixes a :: u32
  assumes "0 \<le>s a"
  shows "unat a < 2 ^ 31"
proof -
  have "int (unat a) < int (2 ^ 31)"
    using nonneg_sint_uint(2) [OF assms] unfolding uint_nat by simp
  then show ?thesis by (simp only: of_nat_less_iff)
qed

lemma unat_scast_nonneg:
  fixes a :: u32
  assumes "0 \<le>s a"
  shows "unat (scast a :: u64) = unat a"
proof -
  have b: "0 \<le> uint a" "uint a < 2 ^ 64" using nonneg_sint_uint(2) [OF assms] by simp_all
  have "uint (scast a :: u64) = take_bit 64 (sint a)"
    by (simp only: scast_eq uint_word_of_int_eq) simp
  also have "\<dots> = take_bit 64 (uint a)"
    by (simp only: nonneg_sint_uint(1) [OF assms])
  also have "\<dots> = uint a"
    by (rule take_bit_int_eq_self) (use b in simp_all)
  finally show ?thesis by (simp only: unat_eq_nat_uint)
qed

lemma MultiU32X32toH32_unat:
  fixes t r :: u32
  assumes "0 \<le>s t" "0 \<le>s r"
  shows "unat (MultiU32X32toH32 t r) = (unat t * unat r + 2 ^ 31) div 2 ^ 32"
proof -
  let ?p = "unat t * unat r + 2 ^ 31"
  have bt: "unat t \<le> 2 ^ 31 - 1" using nonneg_unat_less [OF assms(1)] by simp
  have br: "unat r \<le> 2 ^ 31 - 1" using nonneg_unat_less [OF assms(2)] by simp
  have "unat t * unat r \<le> (2 ^ 31 - 1) * (2 ^ 31 - 1)"
    using bt br by (rule mult_le_mono)
  then have bp: "?p < 2 ^ 64" by simp
  have "unat ((scast t :: u64) * scast r + 0x80000000)
          = (unat (scast t :: u64) * unat (scast r :: u64) + 2 ^ 31) mod 2 ^ 64"
    by (simp add: unat_word_ariths mod_simps)
  also have "\<dots> = ?p mod 2 ^ 64"
    by (simp only: unat_scast_nonneg assms)
  also have "\<dots> = ?p" using bp by (rule mod_less)
  finally have u: "unat ((scast t :: u64) * scast r + 0x80000000) = ?p" .
  have q: "?p div 2 ^ 32 < 2 ^ 32"
    using bp by (simp add: less_mult_imp_div_less)
  have "unat (MultiU32X32toH32 t r) = take_bit 32 (?p div 2 ^ 32)"
    unfolding MultiU32X32toH32_def
    by (simp only: unsigned_ucast_eq unat_drop_bit_eq u) (simp add: drop_bit_eq_div)
  also have "\<dots> = ?p div 2 ^ 32"
    by (rule take_bit_nat_eq_self) (use q in simp)
  finally show ?thesis .
qed

lemma fst_calc_timer: "fst (calc_timer cfg r s) = fst (calc_timer cfg r s')"
  by (simp add: calc_timer_def Let_def split_def)

lemma calc_timer_snd:
  "snd (calc_timer cfg r s) = s\<lparr>step_loops := step_loops (snd (calc_timer cfg r s))\<rparr>"
  by (simp add: calc_timer_def Let_def split_def)


lemma trapezoid_accel_reg:
  assumes "step_events_completed s \<le> accelerate_until b"
  shows "acc_step_rate (snd (trapezoid_step cfg b s))
           = min (nominal_rate b)
                 (initial_rate b + MultiU32X32toH32 (acceleration_time s) (acceleration_rate b))"
    and "fst (trapezoid_step cfg b s)
           = fst (calc_timer cfg (acc_step_rate (snd (trapezoid_step cfg b s))) s')"
    and "acceleration_time (snd (trapezoid_step cfg b s))
           = acceleration_time s + fst (trapezoid_step cfg b s)"
proof -
  define r0 where
    "r0 = MultiU32X32toH32 (acceleration_time s) (acceleration_rate b) + initial_rate b"
  define r where "r = (if r0 > nominal_rate b then nominal_rate b else r0)"
  have r: "r = min (nominal_rate b)
                 (initial_rate b + MultiU32X32toH32 (acceleration_time s) (acceleration_rate b))"
    by (auto simp: r_def r0_def min_def add.commute)
  have a: "acc_step_rate (snd (trapezoid_step cfg b s)) = r"
    using assms by (simp add: trapezoid_step_def Let_def split_def r_def r0_def)
  have f: "fst (trapezoid_step cfg b s) = fst (calc_timer cfg r (s\<lparr>acc_step_rate := r\<rparr>))"
    using assms by (simp add: trapezoid_step_def Let_def split_def r_def r0_def)
  have t: "acceleration_time (snd (trapezoid_step cfg b s))
             = acceleration_time s + fst (calc_timer cfg r (s\<lparr>acc_step_rate := r\<rparr>))"
    using assms by (simp add: trapezoid_step_def Let_def split_def r_def r0_def)
  show "acc_step_rate (snd (trapezoid_step cfg b s))
           = min (nominal_rate b)
                 (initial_rate b + MultiU32X32toH32 (acceleration_time s) (acceleration_rate b))"
    using a r by simp
  show "fst (trapezoid_step cfg b s)
           = fst (calc_timer cfg (acc_step_rate (snd (trapezoid_step cfg b s))) s')"
    unfolding a f by (rule fst_calc_timer)
  show "acceleration_time (snd (trapezoid_step cfg b s))
           = acceleration_time s + fst (trapezoid_step cfg b s)"
    unfolding t f ..
qed

lemma trapezoid_decel_reg:
  assumes "\<not> step_events_completed s \<le> accelerate_until b"
      and "step_events_completed s > decelerate_after b"
  shows "fst (trapezoid_step cfg b s)
           = fst (calc_timer cfg
                   (let D = MultiU32X32toH32 (deceleration_time s) (acceleration_rate b)
                    in if D > acc_step_rate s then final_rate b
                       else max (final_rate b) (acc_step_rate s - D)) s')"
    and "deceleration_time (snd (trapezoid_step cfg b s))
           = deceleration_time s + fst (trapezoid_step cfg b s)"
proof -
  define D where "D = MultiU32X32toH32 (deceleration_time s) (acceleration_rate b)"
  define r1 where "r1 = (if D > acc_step_rate s then final_rate b else acc_step_rate s - D)"
  define r where "r = (if r1 < final_rate b then final_rate b else r1)"
  have r: "r = (if D > acc_step_rate s then final_rate b
                else max (final_rate b) (acc_step_rate s - D))"
    by (auto simp: r_def r1_def max_def)
  have f: "fst (trapezoid_step cfg b s) = fst (calc_timer cfg r s)"
    using assms by (simp add: trapezoid_step_def Let_def split_def r_def r1_def D_def)
  have d: "deceleration_time (snd (trapezoid_step cfg b s))
             = deceleration_time s + fst (calc_timer cfg r s)"
    using assms by (simp add: trapezoid_step_def Let_def split_def r_def r1_def D_def)
  show "fst (trapezoid_step cfg b s)
           = fst (calc_timer cfg
                   (let D = MultiU32X32toH32 (deceleration_time s) (acceleration_rate b)
                    in if D > acc_step_rate s then final_rate b
                       else max (final_rate b) (acc_step_rate s - D)) s')"
    using f r fst_calc_timer [of cfg r s s'] by (simp add: Let_def D_def)
  show "deceleration_time (snd (trapezoid_step cfg b s))
           = deceleration_time s + fst (trapezoid_step cfg b s)"
    unfolding d f ..
qed

lemma MultiU32X32toH32_unat':
  fixes t r :: u32
  assumes "0 \<le>s t" "0 \<le>s r"
  shows "unat (MultiU32X32toH32 t r) = (unat r * unat t + 2 ^ 31) div 2 ^ 32"
  using MultiU32X32toH32_unat [OF assms] by (simp add: mult.commute)

lemma unat_add_no_wrap:
  fixes x y :: u32
  assumes "unat x + unat y < 2 ^ 32"
  shows "unat (x + y) = unat x + unat y"
  using assms by (simp add: unat_word_ariths)

lemma unat_min: "unat (min (x :: u32) y) = min (unat x) (unat y)"
  by (simp add: min_def word_le_nat_alt)

lemma unat_max: "unat (max (x :: u32) y) = max (unat x) (unat y)"
  by (simp add: max_def word_le_nat_alt)

lemma nonneg_of_unat:
  fixes a :: u32
  assumes "unat a < 2 ^ 31"
  shows "0 \<le>s a"
proof -
  have "int (unat a) < int (2 ^ 31)" using assms by (simp only: of_nat_less_iff)
  then have lt: "uint a < 2 ^ 31" unfolding uint_nat by simp
  have "sint a = signed_take_bit 31 (uint a)" by (simp add: sint_uint)
  also have "\<dots> = uint a"
  proof (rule signed_take_bit_int_eq_self)
    show "- (2 ^ 31) \<le> uint a" by (rule order_trans [of _ 0]) simp_all
    show "uint a < 2 ^ 31" using lt by simp
  qed
  finally have "0 \<le> sint a" by simp
  then show ?thesis by (simp add: word_sle_eq)
qed

lemma unat_add_mod:
  fixes x y :: u32
  shows "unat (x + y) = (unat x + unat y) mod 2 ^ 32"
  by (simp add: unat_word_ariths)

subsection \<open>The trapezoid generator\<close>

text \<open>
  C4. In the acceleration branch (\<open>step_events_completed \<le> accelerate_until\<close>), when
  \<open>acceleration_time\<close> and \<open>acceleration_rate\<close> are below \<open>2^31\<close> (not negative as the
  longs the multiply takes) and \<open>initial_rate + D\<close> is below \<open>2^32\<close>, where \<open>D\<close> is
  \<open>(acceleration_rate * acceleration_time + 2^31) div 2^32\<close>, the new step rate is the
  number \<open>min nominal_rate (initial_rate + D)\<close>. The timer interval is \<^verbatim>\<open>calc_timer\<close>
  of that rate, whatever the state \<^verbatim>\<open>calc_timer\<close> is called in, and \<open>acceleration_time\<close>
  grows by the timer value in 32-bit arithmetic.
\<close>

theorem trapezoid_step_accelerates:
  assumes "step_events_completed s \<le> accelerate_until b"
      and "unat (acceleration_time s) < 2 ^ 31" "unat (acceleration_rate b) < 2 ^ 31"
      and "unat (initial_rate b)
             + (unat (acceleration_rate b) * unat (acceleration_time s) + 2 ^ 31) div 2 ^ 32
           < 2 ^ 32"
  shows "unat (acc_step_rate (snd (trapezoid_step cfg b s)))
           = min (unat (nominal_rate b))
                 (unat (initial_rate b)
                  + (unat (acceleration_rate b) * unat (acceleration_time s) + 2 ^ 31)
                      div 2 ^ 32)
       \<and> fst (trapezoid_step cfg b s)
           = fst (calc_timer cfg (acc_step_rate (snd (trapezoid_step cfg b s))) s')
       \<and> unat (acceleration_time (snd (trapezoid_step cfg b s)))
           = (unat (acceleration_time s) + unat (fst (trapezoid_step cfg b s))) mod 2 ^ 32"
proof -
  let ?D = "MultiU32X32toH32 (acceleration_time s) (acceleration_rate b)"
  let ?n = "(unat (acceleration_rate b) * unat (acceleration_time s) + 2 ^ 31) div 2 ^ 32"
  note reg = trapezoid_accel_reg [OF assms(1), of cfg]
  have num: "unat ?D = ?n"
    using assms(2,3) by (intro MultiU32X32toH32_unat' nonneg_of_unat)
  have "unat (initial_rate b + ?D) = unat (initial_rate b) + unat ?D"
    by (rule unat_add_no_wrap) (use assms(4) num in simp)
  then have rate: "unat (acc_step_rate (snd (trapezoid_step cfg b s)))
                = min (unat (nominal_rate b)) (unat (initial_rate b) + ?n)"
    using num by (simp only: reg(1) unat_min)
  have time: "unat (acceleration_time (snd (trapezoid_step cfg b s)))
           = (unat (acceleration_time s) + unat (fst (trapezoid_step cfg b s))) mod 2 ^ 32"
    by (simp only: reg(3) unat_add_mod)
  show ?thesis
    using rate reg(2) [of s'] time by blast
qed

theorem trapezoid_step_accelerates_witness:
  "step_events_completed accel_state \<le> accelerate_until ramp_block
   \<and> unat (acceleration_time accel_state) < 2 ^ 31
   \<and> unat (acceleration_rate ramp_block) < 2 ^ 31
   \<and> unat (initial_rate ramp_block)
        + (unat (acceleration_rate ramp_block) * unat (acceleration_time accel_state) + 2 ^ 31)
            div 2 ^ 32 < 2 ^ 32
   \<and> unat (acc_step_rate (snd (trapezoid_step plain_config ramp_block accel_state))) = 504
   \<and> fst (trapezoid_step plain_config ramp_block accel_state) = 1984
   \<and> acceleration_time (snd (trapezoid_step plain_config ramp_block accel_state)) = 3984"
  using trapezoid_step_accelerates [of accel_state ramp_block plain_config accel_state]
  by (simp add: accel_state_def ramp_block_def initial_state_def plain_config_def
        trapezoid_step_def calc_timer_def step_doubling_def MultiU32X32toH32_def Let_def)

text \<open>
  The formula of the claim fails outside those bounds. With \<open>initial_rate = 0xF0000000\<close>,
  \<open>nominal_rate = 0xFFFFFFFF\<close> and both operands \<open>0x7FFFFFFF\<close> the 32-bit sum wraps and
  the code stores 805306367 where the claim gives 4294967295. With
  \<open>acceleration_time = 0x80000000\<close> and \<open>acceleration_rate = 2\<close> the operand is
  sign-extended and the code stores 499 where the claim gives 501.
\<close>

theorem trapezoid_accel_rate_wraps:
  "step_events_completed steep_state \<le> accelerate_until steep_block
   \<and> unat (acc_step_rate (snd (trapezoid_step plain_config steep_block steep_state)))
       = 805306367
   \<and> min (unat (nominal_rate steep_block))
          (unat (initial_rate steep_block)
           + (unat (acceleration_rate steep_block) * unat (acceleration_time steep_state)
              + 2 ^ 31) div 2 ^ 32) = 4294967295
   \<and> step_events_completed late_accel_state \<le> accelerate_until slow_block
   \<and> unat (acc_step_rate (snd (trapezoid_step plain_config slow_block late_accel_state)))
       = 499
   \<and> min (unat (nominal_rate slow_block))
          (unat (initial_rate slow_block)
           + (unat (acceleration_rate slow_block) * unat (acceleration_time late_accel_state)
              + 2 ^ 31) div 2 ^ 32) = 501"
  by (simp add: steep_state_def steep_block_def late_accel_state_def slow_block_def
        accel_state_def ramp_block_def initial_state_def plain_config_def
        trapezoid_step_def calc_timer_def step_doubling_def MultiU32X32toH32_def Let_def)

text \<open>
  C5. In the deceleration branch (the acceleration branch not taken and
  \<open>step_events_completed > decelerate_after\<close>), when \<open>deceleration_time\<close> and
  \<open>acceleration_rate\<close> are below \<open>2^31\<close> (not negative as the longs the multiply
  takes), with \<open>D = (acceleration_rate * deceleration_time + 2^31) div 2^32\<close>: the
  step rate is the number \<open>final_rate\<close> if \<open>D > acc_step_rate\<close> and
  \<open>max final_rate (acc_step_rate - D)\<close> otherwise; the timer interval is
  \<^verbatim>\<open>calc_timer\<close> of that rate, whatever the state \<^verbatim>\<open>calc_timer\<close> is called in, and
  \<open>deceleration_time\<close> grows by the timer value in 32-bit arithmetic.
\<close>

theorem trapezoid_step_decelerates:
  assumes "\<not> step_events_completed s \<le> accelerate_until b"
      and "step_events_completed s > decelerate_after b"
      and "unat (deceleration_time s) < 2 ^ 31" "unat (acceleration_rate b) < 2 ^ 31"
  shows "(\<exists>step_rate.
            unat step_rate
              = (let D = (unat (acceleration_rate b) * unat (deceleration_time s) + 2 ^ 31)
                          div 2 ^ 32
                 in if D > unat (acc_step_rate s) then unat (final_rate b)
                    else max (unat (final_rate b)) (unat (acc_step_rate s) - D))
          \<and> fst (trapezoid_step cfg b s) = fst (calc_timer cfg step_rate s'))
       \<and> unat (deceleration_time (snd (trapezoid_step cfg b s)))
           = (unat (deceleration_time s) + unat (fst (trapezoid_step cfg b s))) mod 2 ^ 32"
proof -
  let ?D = "MultiU32X32toH32 (deceleration_time s) (acceleration_rate b)"
  let ?n = "(unat (acceleration_rate b) * unat (deceleration_time s) + 2 ^ 31) div 2 ^ 32"
  let ?r = "if ?D > acc_step_rate s then final_rate b
            else max (final_rate b) (acc_step_rate s - ?D)"
  note reg = trapezoid_decel_reg [OF assms(1,2), of cfg]
  have num: "unat ?D = ?n"
    using assms(3,4) by (intro MultiU32X32toH32_unat' nonneg_of_unat)
  have gt: "?D > acc_step_rate s \<longleftrightarrow> ?n > unat (acc_step_rate s)"
    using num by (simp add: word_less_nat_alt)
  have sub: "unat (max (final_rate b) (acc_step_rate s - ?D))
               = max (unat (final_rate b)) (unat (acc_step_rate s) - ?n)"
    if "\<not> ?D > acc_step_rate s"
  proof -
    from that have "?D \<le> acc_step_rate s" by simp
    then have "unat (acc_step_rate s - ?D) = unat (acc_step_rate s) - unat ?D"
      by (rule unat_sub)
    then show ?thesis using num by (simp only: unat_max)
  qed
  have r: "unat ?r = (let D = ?n in if D > unat (acc_step_rate s) then unat (final_rate b)
                    else max (unat (final_rate b)) (unat (acc_step_rate s) - D))"
  proof (cases "?D > acc_step_rate s")
    case True
    then show ?thesis using gt by (simp add: Let_def)
  next
    case False
    then show ?thesis using gt sub by (simp add: Let_def)
  qed
  have f: "fst (trapezoid_step cfg b s) = fst (calc_timer cfg ?r s')"
    using reg(1) [of s'] by (simp add: Let_def)
  have time: "unat (deceleration_time (snd (trapezoid_step cfg b s)))
           = (unat (deceleration_time s) + unat (fst (trapezoid_step cfg b s))) mod 2 ^ 32"
    by (simp only: reg(2) unat_add_mod)
  from r f have "\<exists>step_rate.
            unat step_rate
              = (let D = ?n
                 in if D > unat (acc_step_rate s) then unat (final_rate b)
                    else max (unat (final_rate b)) (unat (acc_step_rate s) - D))
          \<and> fst (trapezoid_step cfg b s) = fst (calc_timer cfg step_rate s')"
    by blast
  with time show ?thesis by blast
qed

theorem trapezoid_step_decelerates_witness:
  "\<not> step_events_completed decel_state \<le> accelerate_until ramp_block
   \<and> step_events_completed decel_state > decelerate_after ramp_block
   \<and> unat (deceleration_time decel_state) < 2 ^ 31
   \<and> unat (acceleration_rate ramp_block) < 2 ^ 31
   \<and> (unat (acceleration_rate ramp_block) * unat (deceleration_time decel_state) + 2 ^ 31)
        div 2 ^ 32 = 4
   \<and> fst (calc_timer plain_config 1996 decel_state) = 501
   \<and> fst (trapezoid_step plain_config ramp_block decel_state) = 501
   \<and> unat (deceleration_time (snd (trapezoid_step plain_config ramp_block decel_state)))
       = 2501"
  using trapezoid_step_decelerates [of decel_state ramp_block plain_config decel_state]
  by (simp add: decel_state_def ramp_block_def initial_state_def plain_config_def
        trapezoid_step_def calc_timer_def step_doubling_def MultiU32X32toH32_def Let_def)

text \<open>
  The formula of the claim fails for an operand that is negative as a long. With
  \<open>deceleration_time = 0x80000000\<close>, \<open>acceleration_rate = 2\<close>, \<open>acc_step_rate = 2000\<close>
  and \<open>final_rate = 500\<close> the claim has \<open>D = 1\<close>, a rate of 1999 and a timer of 500;
  the code computes \<open>0xFFFFFFFF\<close>, clamps to \<open>final_rate\<close> and returns a timer of 2000.
\<close>

theorem trapezoid_decel_sign_extends:
  "\<not> step_events_completed late_decel_state \<le> accelerate_until slow_block
   \<and> step_events_completed late_decel_state > decelerate_after slow_block
   \<and> (unat (acceleration_rate slow_block) * unat (deceleration_time late_decel_state)
        + 2 ^ 31) div 2 ^ 32 = 1
   \<and> \<not> 1 > unat (acc_step_rate late_decel_state)
   \<and> max (unat (final_rate slow_block)) (unat (acc_step_rate late_decel_state) - 1) = 1999
   \<and> fst (calc_timer plain_config 1999 late_decel_state) = 500
   \<and> MultiU32X32toH32 (deceleration_time late_decel_state) (acceleration_rate slow_block)
       = 0xFFFFFFFF
   \<and> fst (trapezoid_step plain_config slow_block late_decel_state) = 2000"
  by (simp add: late_decel_state_def slow_block_def
        decel_state_def ramp_block_def initial_state_def plain_config_def
        trapezoid_step_def calc_timer_def step_doubling_def MultiU32X32toH32_def Let_def)
subsection \<open>The timer\<close>

text \<open>
  C8. For every requested interval \<open>count\<close> and every counter value \<open>cv\<close> with
  \<open>cv + 42 < 2^32\<close> (the guard sum does not wrap), \<^verbatim>\<open>HAL_timer_stepper_count\<close>
  writes \<open>count\<close> to the comparator when the counter plus the guard of 42 counts has
  not passed it, and the counter plus the guard otherwise; the comparator then lies at
  least the guard ahead of the counter.
\<close>

theorem HAL_timer_stepper_count_clamps:
  assumes "unat cv + 42 < 2 ^ 32"
  shows "unat (TC_RC (HAL_timer_stepper_count count cv s))
           = (if unat cv + 42 \<le> unat count then unat count else unat cv + 42)
       \<and> unat cv + 42 \<le> unat (TC_RC (HAL_timer_stepper_count count cv s))"
proof -
  have num: "unat (cv + 42) = unat cv + 42"
    using assms by (simp add: unat_word_ariths)
  show ?thesis
    using num by (simp add: HAL_timer_stepper_count_def Let_def word_le_nat_alt)
qed

theorem HAL_timer_stepper_count_clamps_witness:
  "unat (1000 :: u32) + 42 < 2 ^ 32
   \<and> unat (TC_RC (HAL_timer_stepper_count 500 1000 initial_state)) = 1042
   \<and> unat (TC_RC (HAL_timer_stepper_count 5000 1000 initial_state)) = 5000"
  using HAL_timer_stepper_count_clamps [of 1000 500 initial_state]
        HAL_timer_stepper_count_clamps [of 1000 5000 initial_state]
  by simp

text \<open>
  Within 42 counts of the counter's wrap the claim fails. With the counter at
  \<open>0xFFFFFFF0\<close> and a request of \<open>0xFFFFFFF8\<close> the counter plus the guard is past the
  request, yet the 32-bit sum wraps to 26 and the function writes the request, 8 counts
  ahead of the counter.
\<close>

theorem HAL_timer_stepper_count_wraps:
  "unat (0xFFFFFFF0 :: u32) + 42 > unat (0xFFFFFFF8 :: u32)
   \<and> TC_RC (HAL_timer_stepper_count 0xFFFFFFF8 0xFFFFFFF0 initial_state) = 0xFFFFFFF8
   \<and> unat (TC_RC (HAL_timer_stepper_count 0xFFFFFFF8 0xFFFFFFF0 initial_state))
       < unat (0xFFFFFFF0 :: u32) + 42"
  by (simp add: HAL_timer_stepper_count_def Let_def)
subsection \<open>The endstop check\<close>

lemma TEST_bit: "TEST n b = bit n b"
  by (simp add: TEST_def BIT_def push_bit_eq_mult and_exp_eq_0_iff_not_bit)

lemma TEST_0 [simp]: "TEST 0 b = False"
  by (simp add: TEST_bit)

lemma TEST_SET_BIT:
  "TEST (SET_BIT (n :: u16) b v) m = (if m = b \<and> b < 16 then v else TEST n m)"
  by (auto simp: TEST_bit SET_BIT_def BIT_def bit_simps dest: bit_imp_le_length)

lemma TEST_OR_BIT:
  "TEST ((n :: u8) OR BIT b) m = (TEST n m \<or> (m = b \<and> b < 8))"
  by (auto simp: TEST_bit BIT_def bit_simps)

lemma endstop_bit_less [simp]: "endstop_bit e < 16"
  by (cases e) simp_all

lemma endstop_bit_inj [simp]: "endstop_bit e = endstop_bit e' \<longleftrightarrow> e = e'"
  by (cases e; cases e'; simp)

lemma endstop_bit_MIN_END [simp]: "endstop_bit (ENDSTOP a MIN_END) < 8"
  by (cases a) simp_all

lemma TEST_SET_ENDSTOP_BIT:
  "TEST (SET_ENDSTOP_BIT cfg inp e cur) (endstop_bit e')
     = (if e' = e then asserted cfg inp e else TEST cur (endstop_bit e'))"
  by (simp add: SET_ENDSTOP_BIT_def TEST_SET_BIT asserted_def)

lemma TEST_ENDSTOP_sampled:
  "TEST_ENDSTOP (SET_ENDSTOP_BIT cfg inp e cur) s e = confirmed cfg inp (old_endstop_bits s) e"
  by (simp add: TEST_ENDSTOP_def TEST_SET_ENDSTOP_BIT confirmed_def)

lemma z_test_of_cases:
  "z_test_of tz tz2 = (if tz then (if tz2 then 4 else 2) else 0)"
  by (simp add: z_test_of_def)

text \<open>Whatever the two endstops show, \<^verbatim>\<open>z_test\<close> is 0, 2 or 4 and never \<^verbatim>\<open>0x3\<close>.\<close>

lemma z_test_of_never_3: "z_test_of tz tz2 \<noteq> 0x3"
  by (simp add: z_test_of_cases)

lemma UPDATE_ENDSTOP_fst:
  "fst (UPDATE_ENDSTOP cfg inp b a m cs) = SET_ENDSTOP_BIT cfg inp (ENDSTOP a m) (fst cs)"
  by (simp add: UPDATE_ENDSTOP_def Let_def)

lemma UPDATE_ENDSTOP_snd:
  "snd (UPDATE_ENDSTOP cfg inp b a m cs) =
     (if confirmed cfg inp (old_endstop_bits (snd cs)) (ENDSTOP a m) \<and> 0 <s steps b a
      then (endstop_hit a (ENDSTOP a MIN_END) (snd cs))
             \<lparr>step_events_completed := step_event_count b\<rparr>
      else snd cs)"
  by (simp add: UPDATE_ENDSTOP_def Let_def TEST_ENDSTOP_sampled)

text \<open>
  The dual-Z path as it computes: it acts when the first endstop \<open>z\<close> is confirmed,
  whatever the second shows, and it forces the end of the block only outside homing.
\<close>

lemma dual_z_endstops_snd:
  assumes "z \<noteq> z2"
  shows "snd (dual_z_endstops cfg inp b z z2 cs) =
     (if confirmed cfg inp (old_endstop_bits (snd cs)) z \<and> 0 <s steps b Z_AXIS
      then (if \<not> performing_homing (snd cs)
            then (endstop_hit Z_AXIS Z_MIN (snd cs))
                   \<lparr>step_events_completed := step_event_count b\<rparr>
            else endstop_hit Z_AXIS Z_MIN (snd cs))
      else snd cs)"
  using assms
  by (simp add: dual_z_endstops_def Let_def z_test_of_cases TEST_ENDSTOP_def COPY_BIT_def
      TEST_SET_ENDSTOP_BIT TEST_SET_BIT confirmed_def)

lemma z_probe_endstop_snd:
  "snd (z_probe_endstop cfg inp b cs) =
     (if confirmed cfg inp (old_endstop_bits (snd cs)) Z_PROBE
      then endstop_hit Z_AXIS Z_PROBE (snd (UPDATE_ENDSTOP cfg inp b Z_AXIS PROBE_END cs))
      else snd cs)"
  by (simp add: z_probe_endstop_def Let_def UPDATE_ENDSTOP_fst TEST_ENDSTOP_sampled
      UPDATE_ENDSTOP_snd)

paragraph \<open>A recorded hit stays recorded\<close>

lemma hit_recorded_endstop_hit:
  "hit_recorded b a s \<Longrightarrow> hit_recorded b a (endstop_hit a' e s)"
  by (simp add: hit_recorded_def endstop_hit_def Let_def TEST_OR_BIT)

lemma hit_recorded_forced:
  "hit_recorded b a s \<Longrightarrow> hit_recorded b a (s\<lparr>step_events_completed := step_event_count b\<rparr>)"
  by (simp add: hit_recorded_def)

lemma hit_recorded_UPDATE_ENDSTOP:
  "hit_recorded b a (snd cs) \<Longrightarrow> hit_recorded b a (snd (UPDATE_ENDSTOP cfg inp b a' m cs))"
  by (simp add: UPDATE_ENDSTOP_snd hit_recorded_endstop_hit hit_recorded_forced)

lemma hit_recorded_dual_z:
  "hit_recorded b a (snd cs) \<Longrightarrow> hit_recorded b a (snd (dual_z_endstops cfg inp b z z2 cs))"
  by (simp add: dual_z_endstops_def Let_def hit_recorded_endstop_hit hit_recorded_forced)

lemma hit_recorded_z_probe:
  "hit_recorded b a (snd cs) \<Longrightarrow> hit_recorded b a (snd (z_probe_endstop cfg inp b cs))"
  by (simp add: z_probe_endstop_snd hit_recorded_endstop_hit hit_recorded_UPDATE_ENDSTOP)

lemma hit_recorded_y_endstops:
  "hit_recorded b a (snd cs) \<Longrightarrow> hit_recorded b a (snd (y_endstops cfg inp b cs))"
  by (simp add: y_endstops_def Let_def hit_recorded_UPDATE_ENDSTOP)

lemma hit_recorded_z_endstops:
  "hit_recorded b a (snd cs) \<Longrightarrow> hit_recorded b a (snd (z_endstops cfg inp b cs))"
  by (simp add: z_endstops_def Let_def hit_recorded_UPDATE_ENDSTOP hit_recorded_dual_z
      hit_recorded_z_probe)

lemma hit_recorded_old_endstop_bits:
  "hit_recorded b a (s\<lparr>old_endstop_bits := w\<rparr>) = hit_recorded b a s"
  by (simp add: hit_recorded_def)

paragraph \<open>A confirmed endstop is recorded\<close>

lemma UPDATE_ENDSTOP_records:
  assumes "confirmed cfg inp (old_endstop_bits (snd cs)) (ENDSTOP a m)" "0 <s steps b a"
  shows "hit_recorded b a (snd (UPDATE_ENDSTOP cfg inp b a m cs))"
  using assms
  by (simp add: UPDATE_ENDSTOP_snd hit_recorded_def endstop_hit_def Let_def TEST_OR_BIT)

lemma x_endstops_records:
  assumes "endstop_gate cfg b (out_bits (snd cs)) X_AXIS m"
      and "confirmed cfg inp (old_endstop_bits (snd cs)) (ENDSTOP X_AXIS m)" "0 <s steps b X_AXIS"
  shows "hit_recorded b X_AXIS (snd (x_endstops cfg inp b cs))"
  using assms by (cases m) (auto simp: x_endstops_def Let_def UPDATE_ENDSTOP_records)

lemma y_endstops_records:
  assumes "endstop_gate cfg b (out_bits (snd cs)) Y_AXIS m"
      and "confirmed cfg inp (old_endstop_bits (snd cs)) (ENDSTOP Y_AXIS m)" "0 <s steps b Y_AXIS"
  shows "hit_recorded b Y_AXIS (snd (y_endstops cfg inp b cs))"
  using assms by (cases m) (auto simp: y_endstops_def Let_def UPDATE_ENDSTOP_records)

lemma z_probe_endstop_records:
  assumes "confirmed cfg inp (old_endstop_bits (snd cs)) Z_PROBE" "0 <s steps b Z_AXIS"
  shows "hit_recorded b Z_AXIS (snd (z_probe_endstop cfg inp b cs))"
proof -
  have "hit_recorded b Z_AXIS (snd (UPDATE_ENDSTOP cfg inp b Z_AXIS PROBE_END cs))"
    using assms by (intro UPDATE_ENDSTOP_records) simp_all
  then show ?thesis
    using assms by (simp add: z_probe_endstop_snd hit_recorded_endstop_hit)
qed

lemma z_endstops_records:
  assumes "endstop_gate cfg b (out_bits (snd cs)) Z_AXIS m"
      and "confirmed cfg inp (old_endstop_bits (snd cs)) (ENDSTOP Z_AXIS m)" "0 <s steps b Z_AXIS"
  shows "hit_recorded b Z_AXIS (snd (z_endstops cfg inp b cs))"
proof (cases m)
  case MIN_END
  with assms show ?thesis
    by (auto simp: z_endstops_def Let_def UPDATE_ENDSTOP_records hit_recorded_z_probe)
next
  case MAX_END
  with assms show ?thesis
    by (auto simp: z_endstops_def Let_def UPDATE_ENDSTOP_records hit_recorded_z_probe)
next
  case PROBE_END
  with assms show ?thesis
    by (auto simp: z_endstops_def Let_def z_probe_endstop_records)
qed

lemma endstop_check_records:
  assumes "endstop_gate cfg b (out_bits s) a m"
      and "confirmed cfg inp (old_endstop_bits s) (ENDSTOP a m)" "0 <s steps b a"
  shows "hit_recorded b a (endstop_check cfg inp b s)"
proof (cases a)
  case X_AXIS
  with assms have "hit_recorded b a (snd (x_endstops cfg inp b (0, s)))"
    by (simp add: x_endstops_records)
  then show ?thesis
    by (simp add: endstop_check_def Let_def hit_recorded_old_endstop_bits
        hit_recorded_y_endstops hit_recorded_z_endstops)
next
  case Y_AXIS
  with assms have "hit_recorded b a (snd (y_endstops cfg inp b (x_endstops cfg inp b (0, s))))"
    by (simp add: y_endstops_records)
  then show ?thesis
    by (simp add: endstop_check_def Let_def hit_recorded_old_endstop_bits
        hit_recorded_z_endstops)
next
  case Z_AXIS
  with assms have "hit_recorded b a
      (snd (z_endstops cfg inp b (y_endstops cfg inp b (x_endstops cfg inp b (0, s)))))"
    by (simp add: z_endstops_records)
  then show ?thesis
    by (simp add: endstop_check_def Let_def hit_recorded_old_endstop_bits)
next
  case E_AXIS
  with assms show ?thesis by (cases m) simp_all
qed

paragraph \<open>Without a confirmed endstop nothing is recorded\<close>

lemma endstop_check_quiet:
  assumes "\<forall>e. \<not> confirmed cfg inp (old_endstop_bits s) e"
  shows "endstop_check cfg inp b s
           = s\<lparr>old_endstop_bits := old_endstop_bits (endstop_check cfg inp b s)\<rparr>"
proof -
  have x: "snd (x_endstops cfg inp b (0, s)) = s"
    using assms by (simp add: x_endstops_def Let_def UPDATE_ENDSTOP_snd)
  have y: "snd (y_endstops cfg inp b cs) = snd cs" if "snd cs = s" for cs
    using assms that by (simp add: y_endstops_def Let_def UPDATE_ENDSTOP_snd)
  have z: "snd (z_endstops cfg inp b cs) = snd cs" if "snd cs = s" for cs
    using assms that
    by (simp add: z_endstops_def Let_def UPDATE_ENDSTOP_snd dual_z_endstops_snd
        z_probe_endstop_snd)
  have "snd (z_endstops cfg inp b (y_endstops cfg inp b (x_endstops cfg inp b (0, s)))) = s"
    using x y z by simp
  then show ?thesis
    by (simp add: endstop_check_def Let_def)
qed

subsection \<open>An endstop hit ends the block in the same interrupt\<close>

lemma step_iteration_sec:
  "step_events_completed (step_iteration cfg dup b s) = step_events_completed s + 1"
  by (simp add: step_iteration_def Let_def)

lemma word_le_succ:
  fixes n :: u32
  assumes "n \<noteq> - 1"
  shows "n \<le> n + 1"
  using assms inc_less_eq_self_iff_eq [of n] by fastforce

lemma step_phase_after_force:
  assumes "step_events_completed s = step_event_count b" "step_event_count b \<noteq> - 1"
  shows "step_event_count b \<le> step_events_completed (step_phase cfg dup b s)"
proof (cases "ENABLE_HIGH_SPEED_STEPPING cfg")
  case False
  then show ?thesis
    using assms by (simp add: step_phase_def Let_def word_le_succ)
next
  case True
  show ?thesis
  proof (cases "step_loops s")
    case 0
    with True assms show ?thesis by (simp add: step_phase_def)
  next
    case (Suc n)
    with True assms show ?thesis
      by (simp add: step_phase_def Let_def step_iteration_sec word_le_succ)
  qed
qed

lemma isr_block_releases:
  assumes "check_endstops s" "hit_recorded b a (endstop_check cfg inp b s)"
      and "step_event_count b \<noteq> - 1"
  shows "current_block (isr_block cfg inp b s) = None"
    and "queue (isr_block cfg inp b s) = tl (queue s)"
proof -
  let ?s1 = "endstop_check cfg inp b s"
  let ?s2 = "step_phase cfg (extruder_duplication_enabled inp) b ?s1"
  from assms(2) have "step_events_completed ?s1 = step_event_count b"
    by (simp add: hit_recorded_def)
  then have le: "step_event_count b \<le> step_events_completed ?s2"
    using assms(3) by (rule step_phase_after_force)
  show "current_block (isr_block cfg inp b s) = None"
    using assms(1) le
    by (simp add: isr_block_def Let_def split_def finish_block_def plan_discard_current_block_def)
  show "queue (isr_block cfg inp b s) = tl (queue s)"
    using assms(1) le
    by (simp add: isr_block_def Let_def split_def finish_block_def plan_discard_current_block_def)
qed


subsection \<open>What the endstop check does to the step count\<close>








subsection \<open>The latch of endstop hits\<close>

lemma only_min_bits_iff: "only_min_bits w \<longleftrightarrow> (\<forall>n. bit w n \<longrightarrow> n < 4)"
proof -
  have m: "(BIT (endstop_bit X_MIN) OR BIT (endstop_bit Y_MIN)
             OR BIT (endstop_bit Z_MIN) OR BIT (endstop_bit Z_PROBE) :: u8) = mask 4"
    by (simp add: BIT_def mask_eq_exp_minus_1)
  have "(w AND NOT (mask 4) = 0) = (\<forall>n<8. bit w n \<longrightarrow> n < 4)"
    by (auto simp: bit_eq_iff bit_simps)
  also have "\<dots> = (\<forall>n. bit w n \<longrightarrow> n < 4)"
    using bit_imp_le_length [of w] by fastforce
  finally show ?thesis
    unfolding only_min_bits_def m .
qed

lemma only_min_bits_0 [simp]: "only_min_bits 0"
  by (simp add: only_min_bits_iff)

lemma only_min_bits_OR:
  assumes "only_min_bits w" "k < 4"
  shows "only_min_bits (w OR BIT k)"
  using assms by (auto simp: only_min_bits_iff BIT_def bit_simps)

lemma only_min_bits_no_max:
  assumes "only_min_bits w"
  shows "\<not> TEST w (endstop_bit X_MAX)" "\<not> TEST w (endstop_bit Y_MAX)"
        "\<not> TEST w (endstop_bit Z_MAX)" "\<not> TEST w (endstop_bit Z2_MIN)"
        "\<not> TEST w (endstop_bit Z2_MAX)"
  using assms by (auto simp: only_min_bits_iff TEST_bit)

lemma endstop_bit_MIN_END_4: "endstop_bit (ENDSTOP a MIN_END) < 4"
  by (cases a) simp_all

lemma only_min_bits_UPDATE_ENDSTOP:
  "only_min_bits (endstop_hit_bits (snd cs))
   \<Longrightarrow> only_min_bits (endstop_hit_bits (snd (UPDATE_ENDSTOP cfg inp b a m cs)))"
  by (simp add: UPDATE_ENDSTOP_snd endstop_hit_def Let_def only_min_bits_OR endstop_bit_MIN_END_4)

lemma only_min_bits_dual_z:
  "only_min_bits (endstop_hit_bits (snd cs))
   \<Longrightarrow> only_min_bits (endstop_hit_bits (snd (dual_z_endstops cfg inp b z z2 cs)))"
  by (simp add: dual_z_endstops_def endstop_hit_def Let_def only_min_bits_OR)

lemma only_min_bits_z_probe:
  "only_min_bits (endstop_hit_bits (snd cs))
   \<Longrightarrow> only_min_bits (endstop_hit_bits (snd (z_probe_endstop cfg inp b cs)))"
  by (simp add: z_probe_endstop_snd endstop_hit_def Let_def only_min_bits_OR
      only_min_bits_UPDATE_ENDSTOP)

lemma only_min_bits_x:
  "only_min_bits (endstop_hit_bits (snd cs))
   \<Longrightarrow> only_min_bits (endstop_hit_bits (snd (x_endstops cfg inp b cs)))"
  by (simp add: x_endstops_def Let_def only_min_bits_UPDATE_ENDSTOP)

lemma only_min_bits_y:
  "only_min_bits (endstop_hit_bits (snd cs))
   \<Longrightarrow> only_min_bits (endstop_hit_bits (snd (y_endstops cfg inp b cs)))"
  by (simp add: y_endstops_def Let_def only_min_bits_UPDATE_ENDSTOP)

lemma only_min_bits_z:
  "only_min_bits (endstop_hit_bits (snd cs))
   \<Longrightarrow> only_min_bits (endstop_hit_bits (snd (z_endstops cfg inp b cs)))"
  by (simp add: z_endstops_def Let_def only_min_bits_UPDATE_ENDSTOP only_min_bits_dual_z
      only_min_bits_z_probe)

lemma only_min_bits_endstop_check:
  "only_min_bits (endstop_hit_bits s)
   \<Longrightarrow> only_min_bits (endstop_hit_bits (endstop_check cfg inp b s))"
  by (simp add: endstop_check_def Let_def only_min_bits_x only_min_bits_y only_min_bits_z)

lemma endstop_hit_bits_isr_block:
  "endstop_hit_bits (isr_block cfg inp b s)
     = endstop_hit_bits (if check_endstops s then endstop_check cfg inp b s else s)"
  by (simp add: isr_block_def Let_def split_def finish_block_def plan_discard_current_block_def)

lemma only_min_bits_ISR:
  assumes "only_min_bits (endstop_hit_bits s)"
  shows "only_min_bits (endstop_hit_bits (HAL_STEP_TIMER_ISR cfg inp s))"
proof -
  have "only_min_bits (endstop_hit_bits (fst (isr_begin cfg inp s)))"
    using assms by simp
  then have "only_min_bits (endstop_hit_bits (isr_block cfg inp b (fst (isr_begin cfg inp s))))"
    for b
    by (simp add: endstop_hit_bits_isr_block only_min_bits_endstop_check)
  then show ?thesis
    using assms by (simp add: HAL_STEP_TIMER_ISR_def split_def Let_def split: option.splits)
qed

lemma reachable_only_min_bits:
  "reachable cfg s \<Longrightarrow> only_min_bits (endstop_hit_bits s)"
proof (induction rule: reachable.induct)
  case power_up
  show ?case by (simp add: initial_state_def)
next
  case (interrupt s inp)
  from interrupt.IH show ?case by (rule only_min_bits_ISR)
next
  case (check_hit s abort)
  then show ?case
    by (simp add: checkHitEndstops_def endstops_hit_on_purpose_def quickStop_def Let_def)
qed (simp_all add: plan_buffer_line_def endstops_hit_on_purpose_def enable_endstops_def
      st_set_position_def st_set_e_position_def quickStop_def In_Homing_Process_def
      Lock_z_motor_def Lock_z2_motor_def)

lemma dual_z_max_sets_min_bit:
  assumes "Z_DUAL_ENDSTOPS cfg" "HAS_ENDSTOP cfg Z_MAX" "\<not> TEST (out_bits s) (axis_bit Z_AXIS)"
      and "confirmed cfg inp (old_endstop_bits s) Z_MAX" "0 <s steps b Z_AXIS"
  shows "TEST (endstop_hit_bits (endstop_check cfg inp b s)) (endstop_bit Z_MIN)"
proof -
  let ?cs = "y_endstops cfg inp b (x_endstops cfg inp b (0, s))"
  have "TEST (endstop_hit_bits (snd (dual_z_endstops cfg inp b Z_MAX Z2_MAX ?cs)))
          (endstop_bit Z_MIN)"
    using assms by (simp add: dual_z_endstops_snd endstop_hit_def Let_def TEST_OR_BIT)
  moreover have "TEST (endstop_hit_bits (snd (z_probe_endstop cfg inp b cs))) n"
    if "TEST (endstop_hit_bits (snd cs)) n" for cs n
    using that
    by (simp add: z_probe_endstop_snd UPDATE_ENDSTOP_snd endstop_hit_def Let_def TEST_OR_BIT)
  ultimately show ?thesis
    using assms by (simp add: endstop_check_def z_endstops_def Let_def)
qed

text \<open>
  C10. A confirmed maximum endstop that \<^verbatim>\<open>UPDATE_ENDSTOP\<close> handles (X, Y, and Z
  without dual Z endstops) on an axis that moves sets the bit of the axis' minimum
  endstop in \<open>endstop_hit_bits\<close>, and so does the dual-Z path for a confirmed Z
  maximum. In every state the driver can reach, \<open>endstop_hit_bits\<close> has no bit beside
  those of \<open>X_MIN\<close>, \<open>Y_MIN\<close>, \<open>Z_MIN\<close> and \<open>Z_PROBE\<close>; no maximum bit is ever set.
\<close>

theorem endstop_hit_bits_name_the_axis:
  "(endstop_gate cfg b (out_bits s) a MAX_END
      \<and> confirmed cfg inp (old_endstop_bits s) (ENDSTOP a MAX_END) \<and> 0 <s steps b a
    \<longrightarrow> TEST (endstop_hit_bits (endstop_check cfg inp b s)) (endstop_bit (ENDSTOP a MIN_END)))
   \<and> (Z_DUAL_ENDSTOPS cfg \<and> HAS_ENDSTOP cfg Z_MAX \<and> \<not> TEST (out_bits s) (axis_bit Z_AXIS)
      \<and> confirmed cfg inp (old_endstop_bits s) Z_MAX \<and> 0 <s steps b Z_AXIS
    \<longrightarrow> TEST (endstop_hit_bits (endstop_check cfg inp b s)) (endstop_bit Z_MIN))
   \<and> (reachable cfg s'
    \<longrightarrow> only_min_bits (endstop_hit_bits s')
        \<and> \<not> TEST (endstop_hit_bits s') (endstop_bit X_MAX)
        \<and> \<not> TEST (endstop_hit_bits s') (endstop_bit Y_MAX)
        \<and> \<not> TEST (endstop_hit_bits s') (endstop_bit Z_MAX))"
proof -
  have "TEST (endstop_hit_bits (endstop_check cfg inp b s)) (endstop_bit (ENDSTOP a MIN_END))"
    if "endstop_gate cfg b (out_bits s) a MAX_END"
       "confirmed cfg inp (old_endstop_bits s) (ENDSTOP a MAX_END)" "0 <s steps b a"
    using endstop_check_records [OF that] by (simp add: hit_recorded_def)
  then show ?thesis
    using dual_z_max_sets_min_bit [of cfg s inp b] reachable_only_min_bits [of cfg s']
      only_min_bits_no_max [of "endstop_hit_bits s'"]
    by blast
qed

theorem endstop_hit_bits_name_the_axis_witness:
  "endstop_gate plain_config (line_block X_AXIS 20 0)
       (out_bits (start_state [X_MAX] (line_block X_AXIS 20 0))) X_AXIS MAX_END
   \<and> confirmed plain_config (closed_input [X_MAX])
       (old_endstop_bits (start_state [X_MAX] (line_block X_AXIS 20 0))) (ENDSTOP X_AXIS MAX_END)
   \<and> 0 <s steps (line_block X_AXIS 20 0) X_AXIS
   \<and> TEST (endstop_hit_bits (endstop_check plain_config (closed_input [X_MAX])
             (line_block X_AXIS 20 0) (start_state [X_MAX] (line_block X_AXIS 20 0))))
        (endstop_bit X_MIN)
   \<and> reachable plain_config x_home_tick1
   \<and> only_min_bits (endstop_hit_bits x_home_tick1)
   \<and> \<not> TEST (endstop_hit_bits x_home_tick1) (endstop_bit X_MAX)"
proof -
  let ?b = "line_block X_AXIS 20 0"
  let ?s = "start_state [X_MAX] ?b"
  have g: "endstop_gate plain_config ?b (out_bits ?s) X_AXIS MAX_END" by code_simp
  have c: "confirmed plain_config (closed_input [X_MAX]) (old_endstop_bits ?s)
             (ENDSTOP X_AXIS MAX_END)" by code_simp
  have p: "0 <s steps ?b X_AXIS" by code_simp
  have "start_state [] x_home_block = plan_buffer_line x_home_block initial_state"
    by (simp add: start_state_def plan_buffer_line_def initial_state_def)
  then have r: "reachable plain_config x_home_tick1"
    unfolding x_home_tick1_def
    by (simp add: reachable.interrupt reachable.planner reachable.power_up)
  from endstop_hit_bits_name_the_axis
         [of plain_config ?b ?s X_AXIS "closed_input [X_MAX]" x_home_tick1] g c p r
  show ?thesis by simp
qed

subsection \<open>Confirmed triggers\<close>

lemma ISR_reaches_block:
  assumes "isr_begin cfg inp s = (s1, True)" "current_block s1 = Some b"
  shows "HAL_STEP_TIMER_ISR cfg inp s = isr_block cfg inp b s1"
  using assms by (simp add: HAL_STEP_TIMER_ISR_def)

lemma isr_begin_tl_queue:
  assumes "isr_begin cfg inp s = (s1, True)"
  shows "tl (queue s1) = tl (queue s)"
  using assms
  by (auto simp: isr_begin_def Let_def plan_get_current_block_def mark_busy_def
      HAL_timer_stepper_count_def split: if_splits option.splits list.splits)

lemma isr_begin_kept:
  assumes "isr_begin cfg inp s = (s1, True)"
  shows "check_endstops s1 = check_endstops s" "old_endstop_bits s1 = old_endstop_bits s"
    and "count_position s1 = count_position s" "performing_homing s1 = performing_homing s"
proof -
  from assms have s1: "s1 = fst (isr_begin cfg inp s)" by simp
  show "check_endstops s1 = check_endstops s" "old_endstop_bits s1 = old_endstop_bits s"
    "count_position s1 = count_position s" "performing_homing s1 = performing_homing s"
    unfolding s1 by simp_all
qed

paragraph \<open>The dual-Z test records a confirmed first endstop\<close>

lemma z_endstops_dual_notes:
  assumes "dual_z_gate cfg (out_bits (snd cs)) m"
      and "confirmed cfg inp (old_endstop_bits (snd cs)) (ENDSTOP Z_AXIS m)"
      and "0 <s steps b Z_AXIS"
  shows "endstops_trigsteps (snd (z_endstops cfg inp b cs)) Z_AXIS
           = count_position (snd cs) Z_AXIS"
    and "TEST (endstop_hit_bits (snd (z_endstops cfg inp b cs))) (endstop_bit Z_MIN)"
    and "\<not> performing_homing (snd cs)
         \<Longrightarrow> step_events_completed (snd (z_endstops cfg inp b cs)) = step_event_count b"
  using assms
  by (cases m; simp add: z_endstops_def Let_def dual_z_endstops_snd z_probe_endstop_snd
        UPDATE_ENDSTOP_snd endstop_hit_def TEST_OR_BIT)+

lemma endstop_check_dual_notes:
  assumes "dual_z_gate cfg (out_bits s) m"
      and "confirmed cfg inp (old_endstop_bits s) (ENDSTOP Z_AXIS m)"
      and "0 <s steps b Z_AXIS"
  shows "endstops_trigsteps (endstop_check cfg inp b s) Z_AXIS = count_position s Z_AXIS"
    and "TEST (endstop_hit_bits (endstop_check cfg inp b s)) (endstop_bit Z_MIN)"
    and "\<not> performing_homing s
         \<Longrightarrow> step_events_completed (endstop_check cfg inp b s) = step_event_count b"
proof -
  let ?cs = "y_endstops cfg inp b (x_endstops cfg inp b (0, s))"
  have g: "dual_z_gate cfg (out_bits (snd ?cs)) m"
    "confirmed cfg inp (old_endstop_bits (snd ?cs)) (ENDSTOP Z_AXIS m)"
    using assms(1,2) by simp_all
  note n = z_endstops_dual_notes [OF g assms(3)]
  show "endstops_trigsteps (endstop_check cfg inp b s) Z_AXIS = count_position s Z_AXIS"
    using n(1) by (simp add: endstop_check_def Let_def)
  show "TEST (endstop_hit_bits (endstop_check cfg inp b s)) (endstop_bit Z_MIN)"
    using n(2) by (simp add: endstop_check_def Let_def)
  show "step_events_completed (endstop_check cfg inp b s) = step_event_count b"
    if "\<not> performing_homing s"
    using n(3) that by (simp add: endstop_check_def Let_def)
qed

paragraph \<open>Without a trigger that forces it, the check leaves the step count alone\<close>

lemma x_endstops_sec_kept:
  assumes "\<And>m. \<not> (endstop_gate cfg b (out_bits (snd cs)) X_AXIS m
              \<and> confirmed cfg inp (old_endstop_bits (snd cs)) (ENDSTOP X_AXIS m)
              \<and> 0 <s steps b X_AXIS)"
  shows "step_events_completed (snd (x_endstops cfg inp b cs)) = step_events_completed (snd cs)"
  using assms [of MIN_END] assms [of MAX_END]
  by (auto simp: x_endstops_def Let_def UPDATE_ENDSTOP_snd endstop_hit_def)

lemma y_endstops_sec_kept:
  assumes "\<And>m. \<not> (endstop_gate cfg b (out_bits (snd cs)) Y_AXIS m
              \<and> confirmed cfg inp (old_endstop_bits (snd cs)) (ENDSTOP Y_AXIS m)
              \<and> 0 <s steps b Y_AXIS)"
  shows "step_events_completed (snd (y_endstops cfg inp b cs)) = step_events_completed (snd cs)"
  using assms [of MIN_END] assms [of MAX_END]
  by (auto simp: y_endstops_def Let_def UPDATE_ENDSTOP_snd endstop_hit_def)

lemma z_endstops_sec_kept:
  assumes "\<And>m. \<not> (endstop_gate cfg b (out_bits (snd cs)) Z_AXIS m
              \<and> confirmed cfg inp (old_endstop_bits (snd cs)) (ENDSTOP Z_AXIS m)
              \<and> 0 <s steps b Z_AXIS)"
      and "Z_DUAL_ENDSTOPS cfg \<Longrightarrow> performing_homing (snd cs)"
  shows "step_events_completed (snd (z_endstops cfg inp b cs)) = step_events_completed (snd cs)"
  using assms(1) [of MIN_END] assms(1) [of MAX_END] assms(1) [of PROBE_END] assms(2)
  by (auto simp: z_endstops_def Let_def UPDATE_ENDSTOP_snd dual_z_endstops_snd
      z_probe_endstop_snd endstop_hit_def)

lemma endstop_check_sec_kept:
  assumes "\<And>a m. \<not> (endstop_gate cfg b (out_bits s) a m
              \<and> confirmed cfg inp (old_endstop_bits s) (ENDSTOP a m) \<and> 0 <s steps b a)"
      and "Z_DUAL_ENDSTOPS cfg \<Longrightarrow> performing_homing s"
  shows "step_events_completed (endstop_check cfg inp b s) = step_events_completed s"
proof -
  let ?x = "x_endstops cfg inp b (0, s)"
  let ?y = "y_endstops cfg inp b ?x"
  have x: "step_events_completed (snd ?x) = step_events_completed s"
    using x_endstops_sec_kept [of cfg b "(0, s)" inp] assms(1) by simp
  have y: "step_events_completed (snd ?y) = step_events_completed (snd ?x)"
    using y_endstops_sec_kept [of cfg b ?x inp] assms(1) by simp
  have z: "step_events_completed (snd (z_endstops cfg inp b ?y))
             = step_events_completed (snd ?y)"
    using z_endstops_sec_kept [of cfg b ?y inp] assms by simp
  show ?thesis
    using x y z by (simp add: endstop_check_def Let_def)
qed

lemma forced_block_released:
  assumes "check_endstops s" "step_events_completed (endstop_check cfg inp b s) = step_event_count b"
      and "step_event_count b \<noteq> - 1"
  shows "current_block (isr_block cfg inp b s) = None"
    and "queue (isr_block cfg inp b s) = tl (queue s)"
proof -
  let ?s1 = "endstop_check cfg inp b s"
  let ?s2 = "step_phase cfg (extruder_duplication_enabled inp) b ?s1"
  have le: "step_event_count b \<le> step_events_completed ?s2"
    using assms(2,3) by (rule step_phase_after_force)
  show "current_block (isr_block cfg inp b s) = None"
    using assms(1) le
    by (simp add: isr_block_def Let_def split_def finish_block_def plan_discard_current_block_def)
  show "queue (isr_block cfg inp b s) = tl (queue s)"
    using assms(1) le
    by (simp add: isr_block_def Let_def split_def finish_block_def plan_discard_current_block_def)
qed

text \<open>
  C2, as the code has it. Take an interrupt that reaches the endstop check with
  \<open>check_endstops\<close> true: it has not returned early, and \<open>b\<close> is the block in
  execution, fetched at this interrupt or before; \<open>s1\<close> is the state at the check.

  \<^item> An endstop counts as triggered (\<^verbatim>\<open>TEST_ENDSTOP\<close> after sampling) exactly when
    it is asserted now and its bit is set in \<open>old_endstop_bits\<close>; when no endstop is
    confirmed the check changes nothing but \<open>old_endstop_bits\<close>.
  \<^item> For a confirmed endstop that the check passes to \<^verbatim>\<open>UPDATE_ENDSTOP\<close> (the endstop
    in the direction of the move on X and Y, the Z probe, and the Z minimum and maximum
    of a build without dual Z endstops) on an axis with \<open>steps > 0\<close>, the check stores
    \<open>count_position\<close> of the axis in \<open>endstops_trigsteps\<close>, sets the bit of the axis in
    \<open>endstop_hit_bits\<close> and sets \<open>step_events_completed\<close> to \<open>step_event_count\<close>; unless
    \<open>step_event_count\<close> is \<open>0xFFFFFFFF\<close>, the interrupt releases the block before it
    returns.
  \<^item> For a confirmed Z minimum or maximum in the direction of the move, in a build with
    dual Z endstops and with \<open>steps > 0\<close> on Z, the check stores the position and sets
    the bit of Z; outside homing it also sets \<open>step_events_completed\<close> and the block is
    released as above; during homing, when the second endstop of the pair has not
    latched and no other endstop forces the end, \<open>step_events_completed\<close> is left as it
    was.
\<close>

theorem confirmed_endstop_ends_block:
  assumes "check_endstops s" "isr_begin cfg inp s = (s1, True)" "current_block s1 = Some b"
  shows "(TEST_ENDSTOP (SET_ENDSTOP_BIT cfg inp e cur) s1 e
            \<longleftrightarrow> asserted cfg inp e \<and> TEST (old_endstop_bits s) (endstop_bit e))
       \<and> ((\<forall>e'. \<not> confirmed cfg inp (old_endstop_bits s) e')
            \<longrightarrow> endstop_check cfg inp b s1
                  = s1\<lparr>old_endstop_bits := old_endstop_bits (endstop_check cfg inp b s1)\<rparr>)
       \<and> (endstop_gate cfg b (out_bits s1) a m
            \<and> confirmed cfg inp (old_endstop_bits s) (ENDSTOP a m) \<and> 0 <s steps b a
            \<longrightarrow> endstops_trigsteps (endstop_check cfg inp b s1) a = count_position s a
                \<and> TEST (endstop_hit_bits (endstop_check cfg inp b s1))
                     (endstop_bit (ENDSTOP a MIN_END))
                \<and> step_events_completed (endstop_check cfg inp b s1) = step_event_count b
                \<and> (step_event_count b \<noteq> - 1
                     \<longrightarrow> current_block (HAL_STEP_TIMER_ISR cfg inp s) = None
                         \<and> queue (HAL_STEP_TIMER_ISR cfg inp s) = tl (queue s)))
       \<and> (dual_z_gate cfg (out_bits s1) mz
            \<and> confirmed cfg inp (old_endstop_bits s) (ENDSTOP Z_AXIS mz)
            \<and> 0 <s steps b Z_AXIS
            \<longrightarrow> endstops_trigsteps (endstop_check cfg inp b s1) Z_AXIS
                  = count_position s Z_AXIS
                \<and> TEST (endstop_hit_bits (endstop_check cfg inp b s1)) (endstop_bit Z_MIN)
                \<and> (\<not> performing_homing s
                     \<longrightarrow> step_events_completed (endstop_check cfg inp b s1)
                           = step_event_count b
                         \<and> (step_event_count b \<noteq> - 1
                              \<longrightarrow> current_block (HAL_STEP_TIMER_ISR cfg inp s) = None
                                  \<and> queue (HAL_STEP_TIMER_ISR cfg inp s) = tl (queue s)))
                \<and> (performing_homing s
                     \<and> \<not> second_latched cfg inp (old_endstop_bits s) mz
                     \<and> (\<forall>a' m'. \<not> (endstop_gate cfg b (out_bits s1) a' m'
                            \<and> confirmed cfg inp (old_endstop_bits s) (ENDSTOP a' m')
                            \<and> 0 <s steps b a'))
                     \<longrightarrow> step_events_completed (endstop_check cfg inp b s1)
                           = step_events_completed s1))"
proof -
  note k = isr_begin_kept [OF assms(2)]
  have c1: "check_endstops s1" using assms(1) k(1) by simp
  have i: "HAL_STEP_TIMER_ISR cfg inp s = isr_block cfg inp b s1"
    using assms(2,3) by (rule ISR_reaches_block)
  have rel: "current_block (HAL_STEP_TIMER_ISR cfg inp s) = None
             \<and> queue (HAL_STEP_TIMER_ISR cfg inp s) = tl (queue s)"
    if "step_events_completed (endstop_check cfg inp b s1) = step_event_count b"
       "step_event_count b \<noteq> - 1"
    using forced_block_released [OF c1 that] isr_begin_tl_queue [OF assms(2)] i by simp
  have t: "TEST_ENDSTOP (SET_ENDSTOP_BIT cfg inp e cur) s1 e
            \<longleftrightarrow> asserted cfg inp e \<and> TEST (old_endstop_bits s) (endstop_bit e)"
    by (simp add: TEST_ENDSTOP_sampled confirmed_def k(2))
  have q: "endstop_check cfg inp b s1
             = s1\<lparr>old_endstop_bits := old_endstop_bits (endstop_check cfg inp b s1)\<rparr>"
    if "\<forall>e'. \<not> confirmed cfg inp (old_endstop_bits s) e'"
    using that by (intro endstop_check_quiet) (simp add: k(2))
  have r: "endstops_trigsteps (endstop_check cfg inp b s1) a = count_position s a
           \<and> TEST (endstop_hit_bits (endstop_check cfg inp b s1))
                (endstop_bit (ENDSTOP a MIN_END))
           \<and> step_events_completed (endstop_check cfg inp b s1) = step_event_count b
           \<and> (step_event_count b \<noteq> - 1
                \<longrightarrow> current_block (HAL_STEP_TIMER_ISR cfg inp s) = None
                    \<and> queue (HAL_STEP_TIMER_ISR cfg inp s) = tl (queue s))"
    if g: "endstop_gate cfg b (out_bits s1) a m"
       "confirmed cfg inp (old_endstop_bits s) (ENDSTOP a m)" "0 <s steps b a"
  proof -
    have "hit_recorded b a (endstop_check cfg inp b s1)"
      using g by (intro endstop_check_records [of cfg b s1 a m]) (simp_all add: k(2))
    then show ?thesis
      using rel by (simp add: hit_recorded_def k(3))
  qed
  have d: "endstops_trigsteps (endstop_check cfg inp b s1) Z_AXIS = count_position s Z_AXIS
           \<and> TEST (endstop_hit_bits (endstop_check cfg inp b s1)) (endstop_bit Z_MIN)
           \<and> (\<not> performing_homing s
                \<longrightarrow> step_events_completed (endstop_check cfg inp b s1) = step_event_count b
                    \<and> (step_event_count b \<noteq> - 1
                         \<longrightarrow> current_block (HAL_STEP_TIMER_ISR cfg inp s) = None
                             \<and> queue (HAL_STEP_TIMER_ISR cfg inp s) = tl (queue s)))
           \<and> (performing_homing s
                \<and> \<not> second_latched cfg inp (old_endstop_bits s) mz
                \<and> (\<forall>a' m'. \<not> (endstop_gate cfg b (out_bits s1) a' m'
                       \<and> confirmed cfg inp (old_endstop_bits s) (ENDSTOP a' m')
                       \<and> 0 <s steps b a'))
                \<longrightarrow> step_events_completed (endstop_check cfg inp b s1)
                      = step_events_completed s1)"
    if g: "dual_z_gate cfg (out_bits s1) mz"
       "confirmed cfg inp (old_endstop_bits s) (ENDSTOP Z_AXIS mz)" "0 <s steps b Z_AXIS"
  proof -
    have c: "confirmed cfg inp (old_endstop_bits s1) (ENDSTOP Z_AXIS mz)"
      using g(2) by (simp add: k(2))
    note n = endstop_check_dual_notes [OF g(1) c g(3)]
    have f: "step_events_completed (endstop_check cfg inp b s1) = step_event_count b"
      if "\<not> performing_homing s"
      using n(3) that by (simp add: k(4))
    have h: "step_events_completed (endstop_check cfg inp b s1) = step_events_completed s1"
      if "performing_homing s"
         "\<forall>a' m'. \<not> (endstop_gate cfg b (out_bits s1) a' m'
                       \<and> confirmed cfg inp (old_endstop_bits s) (ENDSTOP a' m')
                       \<and> 0 <s steps b a')"
      using that by (intro endstop_check_sec_kept) (simp_all add: k(2) k(4))
    show ?thesis
      using n(1,2) f h rel by (simp add: k(3))
  qed
  show ?thesis using t q r d by blast
qed

theorem confirmed_endstop_ends_block_witness:
  "check_endstops (start_state [X_MIN] x_home_block)
   \<and> snd (isr_begin plain_config (closed_input [X_MIN]) (start_state [X_MIN] x_home_block))
   \<and> current_block (fst (isr_begin plain_config (closed_input [X_MIN])
        (start_state [X_MIN] x_home_block))) = Some (x_home_block\<lparr>busy := True\<rparr>)
   \<and> endstop_gate plain_config (x_home_block\<lparr>busy := True\<rparr>)
        (out_bits (fst (isr_begin plain_config (closed_input [X_MIN])
           (start_state [X_MIN] x_home_block)))) X_AXIS MIN_END
   \<and> confirmed plain_config (closed_input [X_MIN])
        (old_endstop_bits (start_state [X_MIN] x_home_block)) (ENDSTOP X_AXIS MIN_END)
   \<and> 0 <s steps (x_home_block\<lparr>busy := True\<rparr>) X_AXIS
   \<and> step_event_count (x_home_block\<lparr>busy := True\<rparr>) \<noteq> - 1
   \<and> TEST (endstop_hit_bits (endstop_check plain_config (closed_input [X_MIN])
        (x_home_block\<lparr>busy := True\<rparr>)
        (fst (isr_begin plain_config (closed_input [X_MIN])
           (start_state [X_MIN] x_home_block))))) (endstop_bit X_MIN)
   \<and> current_block (HAL_STEP_TIMER_ISR plain_config (closed_input [X_MIN])
        (start_state [X_MIN] x_home_block)) = None
   \<and> check_endstops (start_state [Z_MIN] z_down_block)
   \<and> snd (isr_begin dual_z_config (closed_input [Z_MIN]) (start_state [Z_MIN] z_down_block))
   \<and> current_block (fst (isr_begin dual_z_config (closed_input [Z_MIN])
        (start_state [Z_MIN] z_down_block))) = Some (z_down_block\<lparr>busy := True\<rparr>)
   \<and> dual_z_gate dual_z_config
        (out_bits (fst (isr_begin dual_z_config (closed_input [Z_MIN])
           (start_state [Z_MIN] z_down_block)))) MIN_END
   \<and> confirmed dual_z_config (closed_input [Z_MIN])
        (old_endstop_bits (start_state [Z_MIN] z_down_block)) (ENDSTOP Z_AXIS MIN_END)
   \<and> 0 <s steps (z_down_block\<lparr>busy := True\<rparr>) Z_AXIS
   \<and> \<not> performing_homing (start_state [Z_MIN] z_down_block)
   \<and> step_event_count (z_down_block\<lparr>busy := True\<rparr>) \<noteq> - 1
   \<and> current_block (HAL_STEP_TIMER_ISR dual_z_config (closed_input [Z_MIN])
        (start_state [Z_MIN] z_down_block)) = None
   \<and> performing_homing (In_Homing_Process True (start_state [Z_MIN] z_down_block))
   \<and> \<not> second_latched dual_z_config (closed_input [Z_MIN])
        (old_endstop_bits (In_Homing_Process True (start_state [Z_MIN] z_down_block))) MIN_END
   \<and> step_events_completed (endstop_check dual_z_config (closed_input [Z_MIN])
        (z_down_block\<lparr>busy := True\<rparr>)
        (fst (isr_begin dual_z_config (closed_input [Z_MIN])
           (In_Homing_Process True (start_state [Z_MIN] z_down_block))))) = 0"
proof -
  let ?bx = "x_home_block\<lparr>busy := True\<rparr>"
  let ?ix = "closed_input [X_MIN]"
  let ?sx = "start_state [X_MIN] x_home_block"
  let ?sx1 = "fst (isr_begin plain_config ?ix ?sx)"
  have x1: "check_endstops ?sx" by code_simp
  have x2: "snd (isr_begin plain_config ?ix ?sx)" by code_simp
  then have x2': "isr_begin plain_config ?ix ?sx = (?sx1, True)" by (simp add: prod_eq_iff)
  have x3: "current_block ?sx1 = Some ?bx" by code_simp
  have x4: "endstop_gate plain_config ?bx (out_bits ?sx1) X_AXIS MIN_END" by code_simp
  have x5: "confirmed plain_config ?ix (old_endstop_bits ?sx) (ENDSTOP X_AXIS MIN_END)"
    by code_simp
  have x6: "0 <s steps ?bx X_AXIS" by code_simp
  have x7: "step_event_count ?bx \<noteq> - 1" by code_simp
  let ?bz = "z_down_block\<lparr>busy := True\<rparr>"
  let ?iz = "closed_input [Z_MIN]"
  let ?sz = "start_state [Z_MIN] z_down_block"
  let ?sz1 = "fst (isr_begin dual_z_config ?iz ?sz)"
  have z1: "check_endstops ?sz" by code_simp
  have z2: "snd (isr_begin dual_z_config ?iz ?sz)" by code_simp
  then have z2': "isr_begin dual_z_config ?iz ?sz = (?sz1, True)" by (simp add: prod_eq_iff)
  have z3: "current_block ?sz1 = Some ?bz" by code_simp
  have z4: "dual_z_gate dual_z_config (out_bits ?sz1) MIN_END" by code_simp
  have z5: "confirmed dual_z_config ?iz (old_endstop_bits ?sz) (ENDSTOP Z_AXIS MIN_END)"
    by code_simp
  have z6: "0 <s steps ?bz Z_AXIS" by code_simp
  have z7: "\<not> performing_homing ?sz" by code_simp
  have z8: "step_event_count ?bz \<noteq> - 1" by code_simp
  let ?sh = "In_Homing_Process True ?sz"
  let ?sh1 = "fst (isr_begin dual_z_config ?iz ?sh)"
  have h1: "check_endstops ?sh" by code_simp
  have h2: "snd (isr_begin dual_z_config ?iz ?sh)" by code_simp
  then have h2': "isr_begin dual_z_config ?iz ?sh = (?sh1, True)" by (simp add: prod_eq_iff)
  have h3: "current_block ?sh1 = Some ?bz" by code_simp
  have h4: "dual_z_gate dual_z_config (out_bits ?sh1) MIN_END" by code_simp
  have h5: "confirmed dual_z_config ?iz (old_endstop_bits ?sh) (ENDSTOP Z_AXIS MIN_END)"
    by code_simp
  have h7: "performing_homing ?sh" by code_simp
  have h8: "\<not> second_latched dual_z_config ?iz (old_endstop_bits ?sh) MIN_END" by code_simp
  have h9: "\<not> (endstop_gate dual_z_config ?bz (out_bits ?sh1) a' m'
                \<and> confirmed dual_z_config ?iz (old_endstop_bits ?sh) (ENDSTOP a' m')
                \<and> 0 <s steps ?bz a')" for a' m'
  proof -
    have "\<forall>a \<in> set [X_AXIS, Y_AXIS, Z_AXIS, E_AXIS]. \<forall>m \<in> set [MIN_END, MAX_END, PROBE_END].
            \<not> (endstop_gate dual_z_config ?bz (out_bits ?sh1) a m
                \<and> confirmed dual_z_config ?iz (old_endstop_bits ?sh) (ENDSTOP a m)
                \<and> 0 <s steps ?bz a)"
      by code_simp
    moreover have "a' \<in> set [X_AXIS, Y_AXIS, Z_AXIS, E_AXIS]" by (cases a') simp_all
    moreover have "m' \<in> set [MIN_END, MAX_END, PROBE_END]" by (cases m') simp_all
    ultimately show ?thesis by blast
  qed
  have h0: "step_events_completed ?sh1 = 0" by code_simp
  from confirmed_endstop_ends_block [OF x1 x2' x3, of X_MIN 0 X_AXIS MIN_END MIN_END]
       x4 x5 x6 x7
  have rx: "TEST (endstop_hit_bits (endstop_check plain_config ?ix ?bx ?sx1))
              (endstop_bit X_MIN)
            \<and> current_block (HAL_STEP_TIMER_ISR plain_config ?ix ?sx) = None"
    by simp
  from confirmed_endstop_ends_block [OF z1 z2' z3, of Z_MIN 0 X_AXIS MIN_END MIN_END]
       z4 z5 z6 z7 z8
  have rz: "current_block (HAL_STEP_TIMER_ISR dual_z_config ?iz ?sz) = None"
    by simp
  from confirmed_endstop_ends_block [OF h1 h2' h3, of Z_MIN 0 X_AXIS MIN_END MIN_END]
       h4 h5 z6 h7 h8 h9 h0
  have rh: "step_events_completed (endstop_check dual_z_config ?iz ?bz ?sh1) = 0"
    by simp
  from x1 x2 x3 x4 x5 x6 x7 rx z1 z2 z3 z4 z5 z6 z7 z8 rz h7 h8 rh
  show ?thesis by blast
qed

text \<open>
  The claim as it was stated fails in a build with dual Z endstops: during homing, with
  the block moving down Z and the Z minimum endstop closed now and at the previous
  interrupt, the interrupt records the hit but neither forces
  \<open>step_events_completed\<close> nor releases the block.
\<close>

theorem dual_z_homing_hit_does_not_end_block:
  "check_endstops (In_Homing_Process True (start_state [Z_MIN] z_down_block))
   \<and> confirmed dual_z_config (closed_input [Z_MIN])
        (old_endstop_bits (In_Homing_Process True (start_state [Z_MIN] z_down_block))) Z_MIN
   \<and> 0 <s steps z_down_block Z_AXIS
   \<and> TEST (direction_bits z_down_block) (axis_bit Z_AXIS)
   \<and> step_event_count z_down_block = 20
   \<and> endstop_hit_bits (HAL_STEP_TIMER_ISR dual_z_config (closed_input [Z_MIN])
        (In_Homing_Process True (start_state [Z_MIN] z_down_block))) = BIT (endstop_bit Z_MIN)
   \<and> step_events_completed (HAL_STEP_TIMER_ISR dual_z_config (closed_input [Z_MIN])
        (In_Homing_Process True (start_state [Z_MIN] z_down_block))) = 1
   \<and> current_block (HAL_STEP_TIMER_ISR dual_z_config (closed_input [Z_MIN])
        (In_Homing_Process True (start_state [Z_MIN] z_down_block)))
       = Some (z_down_block\<lparr>busy := True\<rparr>)"
  by code_simp

subsection \<open>The dual-Z test\<close>

text \<open>
  C3. What the code does where the claim expects the block to end. In a build with
  dual Z endstops, a block moves down Z and both Z minimum endstops are closed now and
  were closed at the previous interrupt. During homing the interrupt records the hit
  and goes on with the block: \<^verbatim>\<open>z_test\<close> is 4, not \<^verbatim>\<open>0x3\<close>. Outside homing, with
  only the second endstop closed, \<^verbatim>\<open>z_test\<close> is 0 and the interrupt does not even
  record a hit.
\<close>

theorem dual_z_test_misses_both_latched:
  "z_test_of True True = 4
   \<and> z_test_of False True = 0
   \<and> endstop_hit_bits (HAL_STEP_TIMER_ISR dual_z_config (closed_input [Z_MIN, Z2_MIN])
        (In_Homing_Process True (start_state [Z_MIN, Z2_MIN] z_down_block)))
       = BIT (endstop_bit Z_MIN)
   \<and> step_events_completed (HAL_STEP_TIMER_ISR dual_z_config (closed_input [Z_MIN, Z2_MIN])
        (In_Homing_Process True (start_state [Z_MIN, Z2_MIN] z_down_block))) = 1
   \<and> current_block (HAL_STEP_TIMER_ISR dual_z_config (closed_input [Z_MIN, Z2_MIN])
        (In_Homing_Process True (start_state [Z_MIN, Z2_MIN] z_down_block)))
       = Some (z_down_block\<lparr>busy := True\<rparr>)
   \<and> endstop_hit_bits (HAL_STEP_TIMER_ISR dual_z_config (closed_input [Z2_MIN])
        (start_state [Z2_MIN] z_down_block)) = 0
   \<and> step_events_completed (HAL_STEP_TIMER_ISR dual_z_config (closed_input [Z2_MIN])
        (start_state [Z2_MIN] z_down_block)) = 1
   \<and> current_block (HAL_STEP_TIMER_ISR dual_z_config (closed_input [Z2_MIN])
        (start_state [Z2_MIN] z_down_block))
       = Some (z_down_block\<lparr>busy := True\<rparr>)"
  by code_simp

subsection \<open>The Bresenham tracer\<close>

paragraph \<open>Signed arithmetic that stays in range\<close>







paragraph \<open>One \<^verbatim>\<open>STEP_START\<close>\<close>






paragraph \<open>One pass of the loop\<close>

lemma tracked_cases: "tracked cfg a \<longleftrightarrow> a = X_AXIS \<or> a = Y_AXIS \<or> a = Z_AXIS \<or> \<not> ADVANCE cfg"
  by (cases a) (simp_all add: tracked_def)








paragraph \<open>The loop\<close>



paragraph \<open>The end of the block\<close>


subsection \<open>A block from its first interrupt to its release\<close>





paragraph \<open>An interrupt in the middle of the block\<close>


paragraph \<open>The first interrupt of the block\<close>

lemma set_stepper_direction_count:
  assumes "tracked cfg a"
  shows "count_direction (set_stepper_direction cfg dup ae s) a = dir_sign (out_bits s) a"
  using assms
  by (cases a)
     (simp_all add: set_stepper_direction_def Let_def set_count_direction_def dir_sign_def
        tracked_def)

lemma reset_count_direction:
  assumes "dir_consistent cfg s" "tracked cfg a"
  shows "count_direction (trapezoid_generator_reset cfg dup b s) a
           = dir_sign (direction_bits b) a"
proof -
  have "count_direction (trapezoid_generator_reset cfg dup b s) a =
          count_direction (if direction_bits b \<noteq> out_bits s
             then set_stepper_direction cfg dup (active_extruder b)
                    (s\<lparr>out_bits := direction_bits b\<rparr>)
             else s) a"
    by (simp add: trapezoid_generator_reset_def Let_def split_def)
  also have "\<dots> = dir_sign (direction_bits b) a"
    using assms by (auto simp: set_stepper_direction_count dir_consistent_def)
  finally show ?thesis .
qed




subsection \<open>The direction of counting follows the direction bits\<close>

lemma dir_consistent_cong:
  assumes "out_bits s' = out_bits s" "count_direction s' = count_direction s"
  shows "dir_consistent cfg s' = dir_consistent cfg s"
  using assms by (simp add: dir_consistent_def)

lemma reset_out_bits:
  "out_bits (trapezoid_generator_reset cfg dup b s) = direction_bits b"
  by (simp add: trapezoid_generator_reset_def Let_def split_def)

lemma dir_consistent_reset:
  assumes "dir_consistent cfg s"
  shows "dir_consistent cfg (trapezoid_generator_reset cfg dup b s)"
  using assms reset_count_direction [OF assms]
  by (simp add: dir_consistent_def reset_out_bits)

lemma dir_consistent_isr_begin:
  assumes "dir_consistent cfg s"
  shows "dir_consistent cfg (fst (isr_begin cfg inp s))"
proof -
  have m: "dir_consistent cfg (mark_busy s)"
    using assms by (subst dir_consistent_cong [of _ s]) simp_all
  have r: "dir_consistent cfg (trapezoid_generator_reset cfg dup b (mark_busy s))" for dup b
    using m by (rule dir_consistent_reset)
  have u: "dir_consistent cfg (f (trapezoid_generator_reset cfg dup b (mark_busy s)))"
    if "\<And>t. out_bits (f t) = out_bits t" "\<And>t. count_direction (f t) = count_direction t"
    for f dup b
    using r [of dup b] that
    by (subst dir_consistent_cong [of _ "trapezoid_generator_reset cfg dup b (mark_busy s)"])
       simp_all
  show ?thesis
  proof (cases "cleaning_buffer_counter s \<noteq> 0")
    case True
    then show ?thesis
      using assms
      by (subst dir_consistent_cong [of _ s])
         (simp_all add: isr_begin_def Let_def)
  next
    case c: False
    show ?thesis
    proof (cases "current_block s = None")
      case False
      then obtain b where "current_block s = Some b" by auto
      with c assms show ?thesis by (simp add: isr_begin_def)
    next
      case True
      show ?thesis
      proof (cases "plan_get_current_block s")
        case None
        with c True assms show ?thesis
          by (subst dir_consistent_cong [of _ s]) (simp_all add: isr_begin_def)
      next
        case (Some b0)
        let ?b = "b0\<lparr>busy := True\<rparr>"
        let ?dup = "extruder_duplication_enabled inp"
        have a: "dir_consistent cfg
                   ((\<lambda>t. t\<lparr>counter := (\<lambda>a. - drop_bit 1 (step_event_count ?b)),
                           step_events_completed := 0\<rparr>)
                      (trapezoid_generator_reset cfg ?dup ?b (mark_busy s)))"
          by (rule u) simp_all
        have b: "dir_consistent cfg
                   ((\<lambda>t. HAL_timer_set_count (HAL_TIMER_RATE cfg div 1000)
                           (emit (Enable Z_AXIS)
                              (t\<lparr>counter := (\<lambda>a. - drop_bit 1 (step_event_count ?b)),
                                 step_events_completed := 0\<rparr>)))
                      (trapezoid_generator_reset cfg ?dup ?b (mark_busy s)))"
          by (rule u) simp_all
        from c True Some a b show ?thesis
          by (simp add: isr_begin_def Let_def)
      qed
    qed
  qed
qed

lemma dir_consistent_ISR:
  assumes "dir_consistent cfg s"
  shows "dir_consistent cfg (HAL_STEP_TIMER_ISR cfg inp s)"
proof -
  let ?s1 = "fst (isr_begin cfg inp s)"
  have b: "dir_consistent cfg ?s1" using assms by (rule dir_consistent_isr_begin)
  have k: "dir_consistent cfg (isr_block cfg inp b ?s1)" for b
    using b by (subst dir_consistent_cong [of _ ?s1]) simp_all
  show ?thesis
    using b k by (simp add: HAL_STEP_TIMER_ISR_def split_def Let_def split: option.splits)
qed

text \<open>
  In every state the driver can be in, \<^verbatim>\<open>count_direction\<close> agrees with
  \<^verbatim>\<open>out_bits\<close> on the axes the interrupt traces.
\<close>

lemma reachable_dir_consistent:
  "reachable cfg s \<Longrightarrow> dir_consistent cfg s"
proof (induction rule: reachable.induct)
  case power_up
  show ?case by (simp add: initial_state_def dir_consistent_def dir_sign_def)
next
  case (interrupt s inp)
  from interrupt.IH show ?case by (rule dir_consistent_ISR)
next
  case (check_hit s abort)
  then show ?case
    by (simp add: checkHitEndstops_def endstops_hit_on_purpose_def quickStop_def Let_def
        dir_consistent_def)
next
  case (babystepped s dup ae a direction)
  then show ?case by (subst dir_consistent_cong [of _ s]) simp_all
qed (simp_all add: plan_buffer_line_def endstops_hit_on_purpose_def enable_endstops_def
      st_set_position_def st_set_e_position_def quickStop_def In_Homing_Process_def
      Lock_z_motor_def Lock_z2_motor_def dir_consistent_def)
paragraph \<open>A block without step events\<close>


paragraph \<open>The run\<close>










subsection \<open>The count of step events\<close>











end
